theory Spec2Isabelle
  imports Complex_Main "HOL-Library.Char_ord" "HOL-Library.List_Lexorder"
    "HOL-Library.Product_Lexorder"
begin

section \<open>Python values used by the car service\<close>

text \<open>
  Text is modelled as \<^typ>\<open>string\<close>, one \<^typ>\<open>char\<close> per character and per storage
  unit of a file: the model covers single-unit (ASCII) text, for which Python's
  character counts and the byte offsets of \<open>seek\<close> agree.
\<close>

text \<open>
  Every failure of the service is a Python exception. The class decides which
  \<open>except\<close> clause catches it, so the model keeps the class; the argument of
  \<open>ValueError\<close> names what the message of the \<open>raise\<close> reports.
\<close>

datatype reason =
    DuplicateKey | ReferenceNotFound | NotFound | InvalidState
  | LengthExceeded | Corrupt | Unreadable | BadLiteral

datatype exn = ValueError reason | IndexError | InvalidOperation | FileNotFoundError

definition LINE_DATA_LENGTH :: nat where
  "LINE_DATA_LENGTH = 500"

definition LINE_TOTAL_LENGTH :: nat where
  "LINE_TOTAL_LENGTH = 501"

definition LF :: char where
  "LF = CHR 0x0A"

definition CR :: char where
  "CR = CHR 0x0D"

definition NUL :: char where
  "NUL = CHR 0x00"

text \<open>\<open>str.isspace\<close> on one ASCII character: tab to carriage return, the four
  separators 0x1C to 0x1F, and the space.\<close>

definition whitespace :: "char list" where
  "whitespace = [CHR '' '', CHR 0x09, CHR 0x0A, CHR 0x0B, CHR 0x0C, CHR 0x0D,
                 CHR 0x1C, CHR 0x1D, CHR 0x1E, CHR 0x1F]"

definition isspace :: "char \<Rightarrow> bool" where
  "isspace c = (c \<in> set whitespace)"

definition lstrip :: "string \<Rightarrow> string" where
  "lstrip s = dropWhile isspace s"

definition rstrip :: "string \<Rightarrow> string" where
  "rstrip s = rev (dropWhile isspace (rev s))"

definition strip :: "string \<Rightarrow> string" where
  "strip s = rstrip (lstrip s)"

text \<open>\<open>s.ljust(w)\<close>: pad with spaces on the right up to width \<open>w\<close>.\<close>

definition ljust :: "nat \<Rightarrow> string \<Rightarrow> string" where
  "ljust w s = s @ replicate (w - length s) (CHR '' '')"

text \<open>\<open>s.split(d)\<close> for a one-character separator: never empty.\<close>

fun str_split :: "char \<Rightarrow> string \<Rightarrow> string list" where
  "str_split d [] = [[]]"
| "str_split d (c # cs) =
     (if c = d then [] # str_split d cs
      else (case str_split d cs of
              [] \<Rightarrow> [[c]]
            | p # ps \<Rightarrow> (c # p) # ps))"

definition startswith :: "string \<Rightarrow> string \<Rightarrow> bool" where
  "startswith s p = (take (length p) s = p)"

section \<open>Fixed-width record file\<close>

text \<open>A file is absent (\<open>None\<close>) or holds a sequence of characters.\<close>

type_synonym textfile = "string option"

text \<open>
  Reading in text mode with the default \<open>newline=None\<close> translates \<open>\r\n\<close> and a
  lone \<open>\r\<close> to \<open>\n\<close> before the characters are counted.
\<close>

fun universal_newlines :: "string \<Rightarrow> string" where
  "universal_newlines [] = []"
| "universal_newlines [c] = [if c = CR then LF else c]"
| "universal_newlines (c # d # ds) =
     (if c = CR \<and> d = LF then LF # universal_newlines ds
      else if c = CR then LF # universal_newlines (d # ds)
      else c # universal_newlines (d # ds))"

text \<open>\<open>f.seek(pos); f.write(block)\<close> on the content of a file opened \<open>r+\<close>: the
  block overwrites what is there, and a gap beyond the end is filled with NUL.\<close>

definition write_at :: "nat \<Rightarrow> string \<Rightarrow> string \<Rightarrow> string" where
  "write_at pos block content =
     (if pos \<le> length content
      then take pos content @ block @ drop (pos + length block) content
      else content @ replicate (pos - length content) NUL @ block)"

definition write_fixed_length_line :: "textfile \<Rightarrow> nat \<Rightarrow> string \<Rightarrow> exn + textfile" where
  "write_fixed_length_line f line_number data =
     (if length data > LINE_DATA_LENGTH then Inl (ValueError LengthExceeded)
      else
        let content = (case f of None \<Rightarrow> [] | Some c \<Rightarrow> c);
            formatted_data = ljust LINE_DATA_LENGTH data;
            line_to_write = formatted_data @ [LF];
            position = line_number * LINE_TOTAL_LENGTH
        in Inr (Some (write_at position line_to_write content)))"

definition read_fixed_length_line :: "textfile \<Rightarrow> nat \<Rightarrow> exn + string" where
  "read_fixed_length_line f line_number =
     (case f of
        None \<Rightarrow> Inl FileNotFoundError
      | Some content \<Rightarrow>
          let position = line_number * LINE_TOTAL_LENGTH;
              val = take LINE_DATA_LENGTH (universal_newlines (drop position content))
          in Inr (rstrip val))"

text \<open>The append creates an absent file before the write checks the length, so
  the file is returned on failure too.\<close>

definition append_fixed_length_line :: "textfile \<Rightarrow> string \<Rightarrow> (exn + nat) \<times> textfile" where
  "append_fixed_length_line f data =
     (let content = (case f of None \<Rightarrow> [] | Some c \<Rightarrow> c);
          file_size = length content;
          line_number = file_size div LINE_TOTAL_LENGTH
      in case write_fixed_length_line (Some content) line_number data of
           Inl e \<Rightarrow> (Inl e, Some content)
         | Inr f' \<Rightarrow> (Inr line_number, f'))"

definition get_file_line_count :: "textfile \<Rightarrow> nat" where
  "get_file_line_count f =
     (case f of None \<Rightarrow> 0 | Some content \<Rightarrow> length content div LINE_TOTAL_LENGTH)"

section \<open>Key index\<close>

text \<open>
  An index file holds one JSON object from keys to record numbers. It is modelled by
  the dictionary \<open>json.load\<close> returns for it: the pairs in document order, keys
  distinct, record numbers natural (they come from \<open>file_size // 501\<close>). \<open>None\<close> is a
  file that is absent or does not parse, which \<open>_load_index\<close> reads as \<open>{}\<close>.
\<close>

type_synonym index = "(string \<times> nat) list"

definition load_index :: "index option \<Rightarrow> index" where
  "load_index f = (case f of None \<Rightarrow> [] | Some ix \<Rightarrow> ix)"

definition save_index :: "index \<Rightarrow> index option" where
  "save_index index_data = Some index_data"

text \<open>\<open>k in d\<close>, \<open>d.get(k)\<close>, \<open>d[k] = v\<close> (a present key keeps its place, a new
  one goes last) and \<open>del d[k]\<close>.\<close>

definition dict_in :: "'k \<Rightarrow> ('k \<times> 'v) list \<Rightarrow> bool" where
  "dict_in k d = (k \<in> set (map fst d))"

definition dict_get :: "('k \<times> 'v) list \<Rightarrow> 'k \<Rightarrow> 'v option" where
  "dict_get d k = map_of d k"

fun dict_set :: "('k \<times> 'v) list \<Rightarrow> 'k \<Rightarrow> 'v \<Rightarrow> ('k \<times> 'v) list" where
  "dict_set [] k v = [(k, v)]"
| "dict_set ((k', v') # d) k v =
     (if k' = k then (k, v) # d else (k', v') # dict_set d k v)"

definition dict_del :: "('k \<times> 'v) list \<Rightarrow> 'k \<Rightarrow> ('k \<times> 'v) list" where
  "dict_del d k = filter (\<lambda>kv. fst kv \<noteq> k) d"

section \<open>Integers as text\<close>

definition isdigit :: "char \<Rightarrow> bool" where
  "isdigit c = (c \<in> set ''0123456789'')"

text \<open>The value of a digit is its place among the ten digits.\<close>

definition digit_value :: "char \<Rightarrow> nat" where
  "digit_value c = length (takeWhile (\<lambda>d. d \<noteq> c) ''0123456789'')"

definition digit_char :: "nat \<Rightarrow> char" where
  "digit_char n = ''0123456789'' ! n"

text \<open>The digits after the first one of an \<open>int\<close> literal; an underscore may stand
  between two digits.\<close>

fun int_digits :: "nat \<Rightarrow> string \<Rightarrow> nat option" where
  "int_digits acc [] = Some acc"
| "int_digits acc [c] = (if isdigit c then Some (acc * 10 + digit_value c) else None)"
| "int_digits acc (c # d # ds) =
     (if isdigit c then int_digits (acc * 10 + digit_value c) (d # ds)
      else if c = CHR ''_'' \<and> isdigit d then int_digits (acc * 10 + digit_value d) ds
      else None)"

text \<open>\<open>int(s)\<close> skips less than \<open>str.strip\<close> does: on ASCII text only the space and
  the five characters tab to carriage return, not the separators 0x1C to 0x1F.\<close>

definition int_whitespace :: "char list" where
  "int_whitespace = [CHR '' '', CHR 0x09, CHR 0x0A, CHR 0x0B, CHR 0x0C, CHR 0x0D]"

definition int_isspace :: "char \<Rightarrow> bool" where
  "int_isspace c = (c \<in> set int_whitespace)"

definition int_strip :: "string \<Rightarrow> string" where
  "int_strip s = rev (dropWhile int_isspace (rev (dropWhile int_isspace s)))"

text \<open>\<open>int(s)\<close> in base 10: surrounding whitespace, one optional sign, digits.\<close>

definition py_int :: "string \<Rightarrow> exn + int" where
  "py_int s =
     (let t = int_strip s;
          neg = (case t of [] \<Rightarrow> False | c # cs \<Rightarrow> c = CHR ''-'');
          u = (case t of [] \<Rightarrow> [] | c # cs \<Rightarrow> if c = CHR ''-'' \<or> c = CHR ''+'' then cs else t)
      in case u of
           [] \<Rightarrow> Inl (ValueError BadLiteral)
         | c # cs \<Rightarrow>
             if isdigit c
             then (case int_digits (digit_value c) cs of
                     None \<Rightarrow> Inl (ValueError BadLiteral)
                   | Some n \<Rightarrow> Inr (if neg then - int n else int n))
             else Inl (ValueError BadLiteral))"

fun nat_str :: "nat \<Rightarrow> string" where
  "nat_str n = (if n < 10 then [digit_char n] else nat_str (n div 10) @ [digit_char (n mod 10)])"

declare nat_str.simps [simp del]

text \<open>\<open>str(i)\<close> for an \<open>int\<close>.\<close>

definition int_str :: "int \<Rightarrow> string" where
  "int_str i = (if i < 0 then CHR ''-'' # nat_str (nat (- i)) else nat_str (nat i))"

section \<open>Entities and the library they rest on\<close>

text \<open>
  Modelled from the spec: \<open>models.py\<close> (Car, Model, Sale, CarStatus, CarFullInfo,
  ModelSaleStats and their \<open>index()\<close> methods) is not part of the sources. The spec
  gives the entities as plain field holders and the status as an open set of tags,
  of which \<open>available\<close> and \<open>sold\<close> are observed.
\<close>

datatype CarStatus = CarStatus (status_value: string)

definition available :: CarStatus where
  "available = CarStatus ''available''"

definition sold :: CarStatus where
  "sold = CarStatus ''sold''"

record Model =
  id' :: int
  name :: string
  brand :: string

record ('d, 't) Car =
  vin :: string
  model :: int
  price :: 'd
  date_start :: 't
  status :: CarStatus

record ('d, 't) Sale =
  sales_number :: string
  car_vin :: string
  sales_date :: 't
  cost :: 'd

record ('d, 't) CarFullInfo =
  info_vin :: string
  car_model_name :: string
  car_model_brand :: string
  info_price :: 'd
  info_date_start :: 't
  info_status :: CarStatus
  info_sales_date :: "'t option"
  info_sales_cost :: "'d option"

record ModelSaleStats =
  stats_model_name :: string
  stats_brand :: string
  stats_sales_number :: nat

text \<open>
  \<open>decimal.Decimal\<close>, \<open>datetime\<close>, the tags of \<open>CarStatus\<close> and the \<open>index()\<close>
  methods of the entities are parameters of the model: \<open>'d\<close> is the type of Decimal
  values and \<open>'t\<close> of datetime values.
  \<^item> \<open>Decimal s\<close> is \<open>None\<close> where \<open>decimal.Decimal(s)\<close> raises; the exception is
    \<open>decimal.InvalidOperation\<close>, an \<open>ArithmeticError\<close> and not a \<open>ValueError\<close>.
  \<^item> \<open>fromisoformat s\<close> is \<open>None\<close> where \<open>datetime.fromisoformat(s)\<close> raises
    \<open>ValueError\<close>.
  \<^item> \<open>Decimal_add\<close> is \<open>+\<close>, \<open>Decimal_truediv\<close> is \<open>/\<close> by an \<open>int\<close>, and
    \<open>Decimal_value\<close> is the number a (finite) Decimal stands for, by which Decimals
    compare.
\<close>

record ('d, 't) env =
  Decimal :: "string \<Rightarrow> 'd option"
  Decimal_str :: "'d \<Rightarrow> string"
  Decimal_add :: "'d \<Rightarrow> 'd \<Rightarrow> 'd"
  Decimal_truediv :: "'d \<Rightarrow> nat \<Rightarrow> 'd"
  Decimal_value :: "'d \<Rightarrow> rat"
  fromisoformat :: "string \<Rightarrow> 't option"
  isoformat :: "'t \<Rightarrow> string"
  CarStatus_values :: "string list"
  Model_index :: "Model \<Rightarrow> string"
  Car_index :: "('d, 't) Car \<Rightarrow> string"
  Sale_index :: "('d, 't) Sale \<Rightarrow> string"

text \<open>\<open>parts[i]\<close> raises \<open>IndexError\<close> out of range.\<close>

definition item :: "'a list \<Rightarrow> nat \<Rightarrow> exn + 'a" where
  "item xs i = (if i < length xs then Inr (xs ! i) else Inl IndexError)"

definition andthen :: "exn + 'a \<Rightarrow> ('a \<Rightarrow> exn + 'b) \<Rightarrow> exn + 'b" where
  "andthen r k = (case r of Inl e \<Rightarrow> Inl e | Inr v \<Rightarrow> k v)"

definition py_Decimal :: "('d, 't) env \<Rightarrow> string \<Rightarrow> exn + 'd" where
  "py_Decimal L s = (case Decimal L s of None \<Rightarrow> Inl InvalidOperation | Some d \<Rightarrow> Inr d)"

definition py_fromisoformat :: "('d, 't) env \<Rightarrow> string \<Rightarrow> exn + 't" where
  "py_fromisoformat L s =
     (case fromisoformat L s of None \<Rightarrow> Inl (ValueError BadLiteral) | Some t \<Rightarrow> Inr t)"

definition py_CarStatus :: "('d, 't) env \<Rightarrow> string \<Rightarrow> exn + CarStatus" where
  "py_CarStatus L s =
     (if s \<in> set (CarStatus_values L) then Inr (CarStatus s) else Inl (ValueError BadLiteral))"

text \<open>The expression \<open>Car(vin=parts[0], model=int(parts[1]), price=Decimal(parts[2]),
  date_start=datetime.fromisoformat(parts[3]), status=CarStatus(parts[4]))\<close>, its
  arguments evaluated from left to right.\<close>

definition Car_of_parts :: "('d, 't) env \<Rightarrow> string list \<Rightarrow> exn + ('d, 't) Car" where
  "Car_of_parts L parts =
     andthen (item parts 0) (\<lambda>p0.
     andthen (item parts 1) (\<lambda>p1.
     andthen (py_int p1) (\<lambda>m.
     andthen (item parts 2) (\<lambda>p2.
     andthen (py_Decimal L p2) (\<lambda>pr.
     andthen (item parts 3) (\<lambda>p3.
     andthen (py_fromisoformat L p3) (\<lambda>ds.
     andthen (item parts 4) (\<lambda>p4.
     andthen (py_CarStatus L p4) (\<lambda>st.
     Inr \<lparr>vin = p0, model = m, price = pr, date_start = ds, status = st\<rparr>)))))))))"

text \<open>The f-string \<open>{car.vin}|{car.model}|{price_str}|{date_str}|{status_str}\<close>.\<close>

definition car_data :: "('d, 't) env \<Rightarrow> ('d, 't) Car \<Rightarrow> string" where
  "car_data L c =
     vin c @ ''|'' @ int_str (model c) @ ''|'' @ Decimal_str L (price c) @ ''|''
       @ isoformat L (date_start c) @ ''|'' @ status_value (status c)"

section \<open>The store and the operations that write it\<close>

text \<open>The data directory: three record files and their three index files.\<close>

record store =
  models_txt :: textfile
  models_index_txt :: "index option"
  cars_txt :: textfile
  cars_index_txt :: "index option"
  sales_txt :: textfile
  sales_index_txt :: "index option"

text \<open>
  An operation that writes returns the store it leaves behind together with its
  result, also when it raises: what was written before the \<open>raise\<close> stays written.
\<close>

definition add_model ::
  "('d, 't) env \<Rightarrow> store \<Rightarrow> Model \<Rightarrow> (exn + Model) \<times> store" where
  "add_model L s m =
     (let index = load_index (models_index_txt s);
          model_key = Model_index L m
      in if dict_in model_key index then (Inl (ValueError DuplicateKey), s)
         else
           let model_data = int_str (id' m) @ ''|'' @ name m @ ''|'' @ brand m
           in if length model_data > LINE_DATA_LENGTH
              then (Inl (ValueError LengthExceeded), s)
              else
                (case append_fixed_length_line (models_txt s) model_data of
                   (Inl e, f) \<Rightarrow> (Inl e, s\<lparr>models_txt := f\<rparr>)
                 | (Inr line_number, f) \<Rightarrow>
                     (Inr m, s\<lparr>models_txt := f,
                               models_index_txt :=
                                 save_index (dict_set index model_key line_number)\<rparr>)))"

definition add_car ::
  "('d, 't) env \<Rightarrow> store \<Rightarrow> ('d, 't) Car \<Rightarrow> (exn + ('d, 't) Car) \<times> store" where
  "add_car L s car =
     (let cars_index = load_index (cars_index_txt s);
          car_key = Car_index L car
      in if dict_in car_key cars_index then (Inl (ValueError DuplicateKey), s)
         else
           let models_index = load_index (models_index_txt s);
               model_key = int_str (model car)
           in if \<not> dict_in model_key models_index
              then (Inl (ValueError ReferenceNotFound), s)
              else
                let data = car_data L car
                in if length data > LINE_DATA_LENGTH
                   then (Inl (ValueError LengthExceeded), s)
                   else
                     (case append_fixed_length_line (cars_txt s) data of
                        (Inl e, f) \<Rightarrow> (Inl e, s\<lparr>cars_txt := f\<rparr>)
                      | (Inr line_number, f) \<Rightarrow>
                          (Inr car, s\<lparr>cars_txt := f,
                                      cars_index_txt :=
                                        save_index (dict_set cars_index car_key line_number)\<rparr>)))"

text \<open>The f-string \<open>{sale.sales_number}|{sale.car_vin}|{cost_str}|{date_str}\<close>.\<close>

definition sale_data :: "('d, 't) env \<Rightarrow> ('d, 't) Sale \<Rightarrow> string" where
  "sale_data L sale =
     sales_number sale @ ''|'' @ car_vin sale @ ''|'' @ Decimal_str L (cost sale) @ ''|''
       @ isoformat L (sales_date sale)"

definition sell_car ::
  "('d, 't) env \<Rightarrow> store \<Rightarrow> ('d, 't) Sale \<Rightarrow> (exn + ('d, 't) Car) \<times> store" where
  "sell_car L s sale =
     (let sales_index = load_index (sales_index_txt s);
          data = sale_data L sale
      in if length data > LINE_DATA_LENGTH then (Inl (ValueError LengthExceeded), s)
         else
           (case append_fixed_length_line (sales_txt s) data of
              (Inl e, f) \<Rightarrow> (Inl e, s\<lparr>sales_txt := f\<rparr>)
            | (Inr sale_line_number, f) \<Rightarrow>
                let s1 = s\<lparr>sales_txt := f,
                           sales_index_txt :=
                             save_index (dict_set sales_index (Sale_index L sale) sale_line_number)\<rparr>;
                    cars_index = load_index (cars_index_txt s1)
                in (case dict_get cars_index (car_vin sale) of
                      None \<Rightarrow> (Inl (ValueError NotFound), s1)
                    | Some car_line_number \<Rightarrow>
                        (case andthen (read_fixed_length_line (cars_txt s1) car_line_number)
                                (\<lambda>car_data_str. Car_of_parts L (str_split (CHR ''|'') car_data_str)) of
                           Inl e \<Rightarrow> (Inl e, s1)
                         | Inr car \<Rightarrow>
                             if status car = sold then (Inl (ValueError InvalidState), s1)
                             else
                               let car' = car\<lparr>status := sold\<rparr>;
                                   updated_car_data = car_data L car'
                               in if length updated_car_data > LINE_DATA_LENGTH
                                  then (Inl (ValueError LengthExceeded), s1)
                                  else
                                    (case write_fixed_length_line (cars_txt s1) car_line_number
                                            updated_car_data of
                                       Inl e \<Rightarrow> (Inl e, s1)
                                     | Inr f' \<Rightarrow> (Inr car', s1\<lparr>cars_txt := f'\<rparr>))))))"

text \<open>\<open>sorted(cars_index.keys())\<close>, then the dictionary rebuilt in that order.\<close>

definition sorted_index :: "index \<Rightarrow> index" where
  "sorted_index cars_index =
     map (\<lambda>key. (key, the (dict_get cars_index key))) (sort (map fst cars_index))"

definition update_vin ::
  "('d, 't) env \<Rightarrow> store \<Rightarrow> string \<Rightarrow> string \<Rightarrow> (exn + ('d, 't) Car) \<times> store" where
  "update_vin L s old_vin new_vin =
     (let cars_index = load_index (cars_index_txt s)
      in if dict_in new_vin cars_index then (Inl (ValueError DuplicateKey), s)
         else
           (case dict_get cars_index old_vin of
              None \<Rightarrow> (Inl (ValueError NotFound), s)
            | Some car_line_number \<Rightarrow>
                (case read_fixed_length_line (cars_txt s) car_line_number of
                   Inl e \<Rightarrow> (Inl (ValueError Unreadable), s)
                 | Inr car_data_str \<Rightarrow>
                     let parts = str_split (CHR ''|'') car_data_str
                     in if length parts \<noteq> 5 then (Inl (ValueError Corrupt), s)
                        else
                          (case Car_of_parts L parts of
                             Inl e \<Rightarrow> (Inl e, s)
                           | Inr car0 \<Rightarrow>
                               let car = car0\<lparr>vin := new_vin\<rparr>;
                                   updated_car_data = car_data L car
                               in if length updated_car_data > LINE_DATA_LENGTH
                                  then (Inl (ValueError LengthExceeded), s)
                                  else
                                    (case write_fixed_length_line (cars_txt s) car_line_number
                                            updated_car_data of
                                       Inl e \<Rightarrow> (Inl e, s)
                                     | Inr f' \<Rightarrow>
                                         let cars_index' =
                                               dict_set (dict_del cars_index old_vin) new_vin
                                                 car_line_number
                                         in (Inr car,
                                             s\<lparr>cars_txt := f',
                                               cars_index_txt :=
                                                 save_index (sorted_index cars_index')\<rparr>))))))"

text \<open>The clause \<open>except (ValueError, IndexError)\<close> of the scans (with
  \<open>AttributeError\<close>, which nothing here raises, in \<open>get_cars\<close>).\<close>

fun handled :: "exn \<Rightarrow> bool" where
  "handled (ValueError r) = True"
| "handled IndexError = True"
| "handled InvalidOperation = False"
| "handled FileNotFoundError = False"

text \<open>The variables the scan of \<open>revert_sale\<close> assigns, one by one.\<close>

record ('d, 't) found_sale =
  sale_found :: bool
  sale_line_number :: "nat option"
  sale_vin :: "string option"
  sale_cost :: "'d option"
  sale_date :: "'t option"

fun revert_scan ::
  "('d, 't) env \<Rightarrow> textfile \<Rightarrow> string \<Rightarrow> nat list \<Rightarrow> ('d, 't) found_sale
     \<Rightarrow> exn + ('d, 't) found_sale" where
  "revert_scan L sales_file number [] st = Inr st"
| "revert_scan L sales_file number (line_num # rest) st =
     (case read_fixed_length_line sales_file line_num of
        Inl e \<Rightarrow> if handled e then revert_scan L sales_file number rest st else Inl e
      | Inr sale_data_str \<Rightarrow>
          if strip sale_data_str = [] then revert_scan L sales_file number rest st
          else
            let parts = str_split (CHR ''|'') sale_data_str
            in if length parts \<noteq> 4 then revert_scan L sales_file number rest st
               else if startswith (parts ! 0) ''DELETED_''
               then revert_scan L sales_file number rest st
               else if parts ! 0 = number
               then
                 let st1 = st\<lparr>sale_found := True, sale_line_number := Some line_num,
                              sale_vin := Some (parts ! 1)\<rparr>
                 in (case Decimal L (parts ! 2) of
                       None \<Rightarrow> Inl InvalidOperation
                     | Some c \<Rightarrow>
                         (case fromisoformat L (parts ! 3) of
                            None \<Rightarrow>
                              revert_scan L sales_file number rest (st1\<lparr>sale_cost := Some c\<rparr>)
                          | Some d \<Rightarrow> Inr (st1\<lparr>sale_cost := Some c, sale_date := Some d\<rparr>)))
               else revert_scan L sales_file number rest st)"

definition revert_sale ::
  "('d, 't) env \<Rightarrow> store \<Rightarrow> string \<Rightarrow> (exn + ('d, 't) Car) \<times> store" where
  "revert_sale L s number =
     (if sales_txt s = None then (Inl (ValueError NotFound), s)
      else
        let total_sales_lines = get_file_line_count (sales_txt s);
            init = \<lparr>sale_found = False, sale_line_number = None, sale_vin = None,
                    sale_cost = None, sale_date = None\<rparr>
        in (case revert_scan L (sales_txt s) number [0..<total_sales_lines] init of
              Inl e \<Rightarrow> (Inl e, s)
            | Inr st \<Rightarrow>
                if \<not> sale_found st then (Inl (ValueError NotFound), s)
                else
                  (case (sale_line_number st, sale_vin st, sale_cost st, sale_date st) of
                     (Some line, Some v, Some c, Some d) \<Rightarrow>
                       let cars_index = load_index (cars_index_txt s)
                       in (case dict_get cars_index v of
                             None \<Rightarrow> (Inl (ValueError NotFound), s)
                           | Some car_line_number \<Rightarrow>
                               (case read_fixed_length_line (cars_txt s) car_line_number of
                                  Inl e \<Rightarrow> (Inl (ValueError Unreadable), s)
                                | Inr car_data_str \<Rightarrow>
                                    let parts = str_split (CHR ''|'') car_data_str
                                    in if length parts \<noteq> 5 then (Inl (ValueError Corrupt), s)
                                       else
                                         (case Car_of_parts L parts of
                                            Inl e \<Rightarrow> (Inl e, s)
                                          | Inr car \<Rightarrow>
                                              if status car \<noteq> sold
                                              then (Inl (ValueError InvalidState), s)
                                              else
                                                let deleted_sale_data =
                                                      ''DELETED_'' @ number @ ''|'' @ v @ ''|''
                                                        @ Decimal_str L c @ ''|'' @ isoformat L d
                                                in if length deleted_sale_data > LINE_DATA_LENGTH
                                                   then (Inl (ValueError LengthExceeded), s)
                                                   else
                                                     (case write_fixed_length_line (sales_txt s) line
                                                             deleted_sale_data of
                                                        Inl e \<Rightarrow> (Inl e, s)
                                                      | Inr f \<Rightarrow>
                                                          let s1 = s\<lparr>sales_txt := f\<rparr>;
                                                              sales_index =
                                                                load_index (sales_index_txt s1);
                                                              s2 =
                                                                (if dict_in v sales_index
                                                                 then s1\<lparr>sales_index_txt :=
                                                                        save_index
                                                                          (dict_del sales_index v)\<rparr>
                                                                 else s1);
                                                              car' = car\<lparr>status := available\<rparr>;
                                                              updated_car_data = car_data L car'
                                                          in if length updated_car_data
                                                                  > LINE_DATA_LENGTH
                                                             then (Inl (ValueError LengthExceeded), s2)
                                                             else
                                                               (case write_fixed_length_line
                                                                       (cars_txt s2) car_line_number
                                                                       updated_car_data of
                                                                  Inl e \<Rightarrow> (Inl e, s2)
                                                                | Inr f' \<Rightarrow>
                                                                    (Inr car',
                                                                     s2\<lparr>cars_txt := f'\<rparr>))))))
                   | _ \<Rightarrow> (Inl (ValueError Corrupt), s))))"

section \<open>The operations that only read\<close>

fun get_cars_scan ::
  "('d, 't) env \<Rightarrow> textfile \<Rightarrow> CarStatus \<Rightarrow> nat list \<Rightarrow> ('d, 't) Car list
     \<Rightarrow> exn + ('d, 't) Car list" where
  "get_cars_scan L cars_file st [] result_cars = Inr result_cars"
| "get_cars_scan L cars_file st (line_number # rest) result_cars =
     (case read_fixed_length_line cars_file line_number of
        Inl e \<Rightarrow> if handled e then get_cars_scan L cars_file st rest result_cars else Inl e
      | Inr car_data_str \<Rightarrow>
          if strip car_data_str = [] then get_cars_scan L cars_file st rest result_cars
          else
            let parts = str_split (CHR ''|'') car_data_str
            in if length parts \<noteq> 5 then get_cars_scan L cars_file st rest result_cars
               else
                 (case Car_of_parts L parts of
                    Inl e \<Rightarrow>
                      if handled e then get_cars_scan L cars_file st rest result_cars else Inl e
                  | Inr car \<Rightarrow>
                      if status car = st
                      then get_cars_scan L cars_file st rest (result_cars @ [car])
                      else get_cars_scan L cars_file st rest result_cars))"

definition get_cars ::
  "('d, 't) env \<Rightarrow> store \<Rightarrow> CarStatus \<Rightarrow> exn + ('d, 't) Car list" where
  "get_cars L s st =
     (if cars_txt s = None then Inr []
      else
        let total_lines = get_file_line_count (cars_txt s)
        in get_cars_scan L (cars_txt s) st [0..<total_lines] [])"

text \<open>The scan of \<open>get_car_info\<close> over the sale file: the pair is
  \<open>(sales_date, sales_cost)\<close>, the cost assigned before the date is parsed.\<close>

fun info_scan ::
  "('d, 't) env \<Rightarrow> textfile \<Rightarrow> string \<Rightarrow> nat list \<Rightarrow> 't option \<times> 'd option
     \<Rightarrow> exn + 't option \<times> 'd option" where
  "info_scan L sales_file v [] acc = Inr acc"
| "info_scan L sales_file v (line_num # rest) acc =
     (case read_fixed_length_line sales_file line_num of
        Inl e \<Rightarrow> if handled e then info_scan L sales_file v rest acc else Inl e
      | Inr sale_data_str \<Rightarrow>
          if strip sale_data_str = [] then info_scan L sales_file v rest acc
          else
            let sale_parts = str_split (CHR ''|'') sale_data_str
            in if length sale_parts \<noteq> 4 then info_scan L sales_file v rest acc
               else if sale_parts ! 1 = v
               then
                 (case Decimal L (sale_parts ! 2) of
                    None \<Rightarrow> Inl InvalidOperation
                  | Some c \<Rightarrow>
                      (case fromisoformat L (sale_parts ! 3) of
                         None \<Rightarrow> info_scan L sales_file v rest (fst acc, Some c)
                       | Some d \<Rightarrow> Inr (Some d, Some c)))
               else info_scan L sales_file v rest acc)"

text \<open>\<open>Model(id=int(model_parts[0]), name=model_parts[1], brand=model_parts[2])\<close>.\<close>

definition Model_of_parts :: "string list \<Rightarrow> exn + Model" where
  "Model_of_parts model_parts =
     andthen (item model_parts 0) (\<lambda>p0.
     andthen (py_int p0) (\<lambda>i.
     andthen (item model_parts 1) (\<lambda>p1.
     andthen (item model_parts 2) (\<lambda>p2.
     Inr \<lparr>id' = i, name = p1, brand = p2\<rparr>))))"

definition get_car_info ::
  "('d, 't) env \<Rightarrow> store \<Rightarrow> string \<Rightarrow> exn + ('d, 't) CarFullInfo option" where
  "get_car_info L s v =
     (let cars_index = load_index (cars_index_txt s)
      in case dict_get cars_index v of
           None \<Rightarrow> Inr None
         | Some car_line_number \<Rightarrow>
             (case read_fixed_length_line (cars_txt s) car_line_number of
                Inl e \<Rightarrow> Inr None
              | Inr car_data_str \<Rightarrow>
                  let parts = str_split (CHR ''|'') car_data_str
                  in if length parts \<noteq> 5 then Inr None
                     else
                       andthen (Car_of_parts L parts) (\<lambda>car.
                         let models_index = load_index (models_index_txt s)
                         in case dict_get models_index (int_str (model car)) of
                              None \<Rightarrow> Inr None
                            | Some model_line_number \<Rightarrow>
                                (case read_fixed_length_line (models_txt s) model_line_number of
                                   Inl e \<Rightarrow> Inr None
                                 | Inr model_data_str \<Rightarrow>
                                     let model_parts = str_split (CHR ''|'') model_data_str
                                     in if length model_parts \<noteq> 3 then Inr None
                                        else
                                          andthen (Model_of_parts model_parts) (\<lambda>m.
                                          andthen
                                            (if status car = sold \<and> sales_txt s \<noteq> None
                                             then info_scan L (sales_txt s) v
                                                    [0..<get_file_line_count (sales_txt s)]
                                                    (None, None)
                                             else Inr (None, None))
                                            (\<lambda>(sales_date, sales_cost).
                                               Inr (Some
                                                 \<lparr>info_vin = vin car,
                                                  car_model_name = name m,
                                                  car_model_brand = brand m,
                                                  info_price = price car,
                                                  info_date_start = date_start car,
                                                  info_status = status car,
                                                  info_sales_date = sales_date,
                                                  info_sales_cost = sales_cost\<rparr>)))))))"

text \<open>\<open>d.get(k, default)\<close>.\<close>

definition dict_get_default :: "('k \<times> 'v) list \<Rightarrow> 'k \<Rightarrow> 'v \<Rightarrow> 'v" where
  "dict_get_default d k dflt = (case dict_get d k of None \<Rightarrow> dflt | Some v \<Rightarrow> v)"

text \<open>The first loop of \<open>top_models_by_sales\<close>: the two dictionaries
  \<open>model_sales_count\<close> and \<open>model_total_price\<close>.\<close>

fun stats_scan ::
  "('d, 't) env \<Rightarrow> textfile \<Rightarrow> textfile \<Rightarrow> index \<Rightarrow> nat list
     \<Rightarrow> (int \<times> nat) list \<times> (int \<times> 'd) list
     \<Rightarrow> exn + (int \<times> nat) list \<times> (int \<times> 'd) list" where
  "stats_scan L sales_file cars_file cars_index [] acc = Inr acc"
| "stats_scan L sales_file cars_file cars_index (line_num # rest) acc =
     (case read_fixed_length_line sales_file line_num of
        Inl e \<Rightarrow>
          if handled e then stats_scan L sales_file cars_file cars_index rest acc else Inl e
      | Inr sale_data_str \<Rightarrow>
          let is_empty = (strip sale_data_str = []);
              is_deleted = startswith sale_data_str ''DELETED_''
          in if is_empty \<or> is_deleted
             then stats_scan L sales_file cars_file cars_index rest acc
             else
               let parts = str_split (CHR ''|'') sale_data_str
               in if length parts \<noteq> 4
                  then stats_scan L sales_file cars_file cars_index rest acc
                  else
                    (case Decimal L (parts ! 2) of
                       None \<Rightarrow> Inl InvalidOperation
                     | Some sale_price \<Rightarrow>
                         (case dict_get cars_index (parts ! 1) of
                            None \<Rightarrow> stats_scan L sales_file cars_file cars_index rest acc
                          | Some car_line_number \<Rightarrow>
                              (case read_fixed_length_line cars_file car_line_number of
                                 Inl e \<Rightarrow>
                                   if handled e
                                   then stats_scan L sales_file cars_file cars_index rest acc
                                   else Inl e
                               | Inr car_data_str \<Rightarrow>
                                   let car_parts = str_split (CHR ''|'') car_data_str
                                   in if length car_parts < 2
                                      then stats_scan L sales_file cars_file cars_index rest acc
                                      else
                                        (case py_int (car_parts ! 1) of
                                           Inl e \<Rightarrow>
                                             if handled e
                                             then stats_scan L sales_file cars_file cars_index
                                                    rest acc
                                             else Inl e
                                         | Inr model_id \<Rightarrow>
                                             let current_count =
                                                   dict_get_default (fst acc) model_id 0;
                                                 model_sales_count =
                                                   dict_set (fst acc) model_id (current_count + 1)
                                             in (case Decimal L ''0'' of
                                                   None \<Rightarrow> Inl InvalidOperation
                                                 | Some zero \<Rightarrow>
                                                     stats_scan L sales_file cars_file cars_index
                                                       rest
                                                       (model_sales_count,
                                                        dict_set (snd acc) model_id
                                                          (Decimal_add L
                                                             (dict_get_default (snd acc) model_id
                                                                zero)
                                                             sale_price))))))))"

text \<open>The second loop: one triple \<open>(model_id, sales_count, avg_price)\<close> for each
  item of \<open>model_sales_count\<close>.\<close>

fun models_for_sorting ::
  "('d, 't) env \<Rightarrow> (int \<times> 'd) list \<Rightarrow> (int \<times> nat) list \<Rightarrow> exn + (int \<times> nat \<times> 'd) list" where
  "models_for_sorting L model_total_price [] = Inr []"
| "models_for_sorting L model_total_price ((model_id, sales_count) # items) =
     (case Decimal L ''0'' of
        None \<Rightarrow> Inl InvalidOperation
      | Some zero \<Rightarrow>
          let total_price = dict_get_default model_total_price model_id zero;
              avg_price = (if sales_count > 0 then Decimal_truediv L total_price sales_count
                           else zero)
          in andthen (models_for_sorting L model_total_price items)
               (\<lambda>triples. Inr ((model_id, sales_count, avg_price) # triples)))"

text \<open>\<open>xs.sort(key=lambda x: (x[1], x[2]), reverse=True)\<close>: the stable sort, run on
  the reversed list and reversed again, so that equal keys keep their order.\<close>

definition sort_reverse ::
  "('d, 't) env \<Rightarrow> (int \<times> nat \<times> 'd) list \<Rightarrow> (int \<times> nat \<times> 'd) list" where
  "sort_reverse L xs =
     rev (sort_key (\<lambda>x. (fst (snd x), Decimal_value L (snd (snd x)))) (rev xs))"

text \<open>The third loop: the name and brand of each of the top models.\<close>

fun resolve_models ::
  "textfile \<Rightarrow> index \<Rightarrow> (int \<times> nat \<times> 'd) list \<Rightarrow> exn + ModelSaleStats list" where
  "resolve_models models_file models_index [] = Inr []"
| "resolve_models models_file models_index ((model_id, sales_count, avg) # top_models) =
     (case dict_get models_index (int_str model_id) of
        None \<Rightarrow> resolve_models models_file models_index top_models
      | Some model_line_number \<Rightarrow>
          (case read_fixed_length_line models_file model_line_number of
             Inl e \<Rightarrow>
               if handled e then resolve_models models_file models_index top_models else Inl e
           | Inr model_data_str \<Rightarrow>
               let model_parts = str_split (CHR ''|'') model_data_str
               in if length model_parts \<noteq> 3
                  then resolve_models models_file models_index top_models
                  else
                    andthen (resolve_models models_file models_index top_models)
                      (\<lambda>result.
                         Inr (\<lparr>stats_model_name = model_parts ! 1,
                               stats_brand = model_parts ! 2,
                               stats_sales_number = sales_count\<rparr> # result))))"

definition top_models_by_sales ::
  "('d, 't) env \<Rightarrow> store \<Rightarrow> exn + ModelSaleStats list" where
  "top_models_by_sales L s =
     (let cars_index = load_index (cars_index_txt s)
      in if sales_txt s = None then Inr []
         else
           andthen
             (stats_scan L (sales_txt s) (cars_txt s) cars_index
                [0..<get_file_line_count (sales_txt s)] ([], []))
             (\<lambda>(model_sales_count, model_total_price).
                andthen (models_for_sorting L model_total_price model_sales_count)
                  (\<lambda>triples.
                     let top_models = take 3 (sort_reverse L triples);
                         models_index = load_index (models_index_txt s)
                     in resolve_models (models_txt s) models_index top_models)))"

text \<open>What record \<open>n\<close> of the sale file adds to the statistics of
  \<open>top_models_by_sales\<close>: nothing when the record is blank, tombstoned, not of four
  fields, of a VIN the car index does not have, or of a car record without a model id
  that \<open>int\<close> reads; otherwise the model id of the car and the cost of the sale. What
  the loop does not catch is raised.\<close>

definition sale_contribution ::
  "('d, 't) env \<Rightarrow> store \<Rightarrow> nat \<Rightarrow> exn + (int \<times> 'd) option" where
  "sale_contribution L s n =
     (case read_fixed_length_line (sales_txt s) n of
        Inl e \<Rightarrow> if handled e then Inr None else Inl e
      | Inr str \<Rightarrow>
          if strip str = [] \<or> startswith str ''DELETED_''
             \<or> length (str_split (CHR ''|'') str) \<noteq> 4
          then Inr None
          else
            (case Decimal L (str_split (CHR ''|'') str ! 2) of
               None \<Rightarrow> Inl InvalidOperation
             | Some sale_price \<Rightarrow>
                 (case dict_get (load_index (cars_index_txt s)) (str_split (CHR ''|'') str ! 1) of
                    None \<Rightarrow> Inr None
                  | Some k \<Rightarrow>
                      (case read_fixed_length_line (cars_txt s) k of
                         Inl e \<Rightarrow> if handled e then Inr None else Inl e
                       | Inr car_str \<Rightarrow>
                           if length (str_split (CHR ''|'') car_str) < 2 then Inr None
                           else
                             (case py_int (str_split (CHR ''|'') car_str ! 1) of
                                Inl e \<Rightarrow> if handled e then Inr None else Inl e
                              | Inr m \<Rightarrow> Inr (Some (m, sale_price)))))))"

text \<open>The sales that count, in scan order, each as the model id and the cost.\<close>

definition counted_sales :: "('d, 't) env \<Rightarrow> store \<Rightarrow> nat list \<Rightarrow> (int \<times> 'd) list" where
  "counted_sales L s ns =
     List.map_filter (\<lambda>n. case sale_contribution L s n of Inr (Some c) \<Rightarrow> Some c | _ \<Rightarrow> None) ns"

text \<open>The distinct elements of a list in the order of their first occurrence, which
  is the order of the keys of a dictionary filled from the list.\<close>

definition first_seen :: "'a list \<Rightarrow> 'a list" where
  "first_seen xs = rev (remdups (rev xs))"

text \<open>The costs of the sales of model \<open>m\<close>, in scan order.\<close>

definition model_sales :: "(int \<times> 'd) list \<Rightarrow> int \<Rightarrow> 'd list" where
  "model_sales live m = map snd (filter (\<lambda>c. fst c = m) live)"

text \<open>The entry of the result for a model id with its sale count: none when the
  model index has no entry for the id or the model record has not three fields.\<close>

definition model_stats :: "store \<Rightarrow> int \<times> nat \<times> 'd \<Rightarrow> ModelSaleStats option" where
  "model_stats s t =
     (case dict_get (load_index (models_index_txt s)) (int_str (fst t)) of
        None \<Rightarrow> None
      | Some k \<Rightarrow>
          (case read_fixed_length_line (models_txt s) k of
             Inl e \<Rightarrow> None
           | Inr str \<Rightarrow>
               if length (str_split (CHR ''|'') str) \<noteq> 3 then None
               else Some \<lparr>stats_model_name = str_split (CHR ''|'') str ! 1,
                          stats_brand = str_split (CHR ''|'') str ! 2,
                          stats_sales_number = fst (snd t)\<rparr>))"

section \<open>A concrete library for running the operations\<close>

text \<open>
  To run the operations the parameters need values. \<open>sample_lib\<close> is a fragment of
  CPython's \<open>decimal\<close> and \<open>datetime\<close>: what it accepts, CPython accepts with the
  same meaning, and it rejects text that CPython reads in further notations.
  \<^item> A Decimal is \<open>(c, k)\<close> for the number \<open>c / 10^k\<close>. The literals are
    \<open>digits\<close> or \<open>digits.digits\<close> without a superfluous leading zero and with at
    most six fraction digits, which \<open>str\<close> prints back unchanged. Sums are exact.
    A quotient is CPython's where it is exact in at most 28 digits; elsewhere CPython
    rounds to 28 digits and the fragment keeps a truncation.
  \<^item> A datetime is its own text \<open>YYYY-MM-DDTHH:MM:SS\<close>.

  Modelled from the spec: the \<open>index()\<close> methods of \<open>models.py\<close>, which is not part
  of the sources. The spec keys a model by its id as text, a car by its VIN and a
  sale by its sale number.
\<close>

type_synonym fixed = "nat \<times> nat"

definition digits_value :: "string \<Rightarrow> nat" where
  "digits_value ds = foldl (\<lambda>acc c. acc * 10 + digit_value c) 0 ds"

definition plain_digits :: "string \<Rightarrow> bool" where
  "plain_digits ds = (ds \<noteq> [] \<and> list_all isdigit ds)"

definition sample_Decimal :: "string \<Rightarrow> fixed option" where
  "sample_Decimal s =
     (case str_split (CHR ''.'') s of
        [i] \<Rightarrow>
          if plain_digits i \<and> (length i = 1 \<or> hd i \<noteq> CHR ''0'')
          then Some (digits_value i, 0) else None
      | [i, f] \<Rightarrow>
          if plain_digits i \<and> (length i = 1 \<or> hd i \<noteq> CHR ''0'') \<and> plain_digits f
             \<and> length f \<le> 6
          then Some (digits_value (i @ f), length f) else None
      | _ \<Rightarrow> None)"

definition sample_Decimal_str :: "fixed \<Rightarrow> string" where
  "sample_Decimal_str d =
     (let ds = nat_str (fst d);
          padded = replicate (snd d + 1 - length ds) (CHR ''0'') @ ds;
          n = length padded - snd d
      in if snd d = 0 then padded else take n padded @ ''.'' @ drop n padded)"

definition sample_Decimal_add :: "fixed \<Rightarrow> fixed \<Rightarrow> fixed" where
  "sample_Decimal_add a b =
     (let k = max (snd a) (snd b)
      in (fst a * 10 ^ (k - snd a) + fst b * 10 ^ (k - snd b), k))"

definition sample_Decimal_truediv :: "fixed \<Rightarrow> nat \<Rightarrow> fixed" where
  "sample_Decimal_truediv a n =
     (case find (\<lambda>j. n dvd fst a * 10 ^ j \<and> fst a * 10 ^ j div n < 10 ^ 28) [0..<29] of
        Some j \<Rightarrow> (fst a * 10 ^ j div n, snd a + j)
      | None \<Rightarrow> (fst a * 10 ^ 28 div n, snd a + 28))"

definition sample_Decimal_value :: "fixed \<Rightarrow> rat" where
  "sample_Decimal_value d = Fract (int (fst d)) (10 ^ snd d)"

definition days_in_month :: "nat \<Rightarrow> nat \<Rightarrow> nat" where
  "days_in_month y m =
     (if m = 2 then (if y mod 4 = 0 \<and> (y mod 100 \<noteq> 0 \<or> y mod 400 = 0) then 29 else 28)
      else if m \<in> {4, 6, 9, 11} then 30 else 31)"

definition sample_fromisoformat :: "string \<Rightarrow> string option" where
  "sample_fromisoformat s =
     (if length s = 19
         \<and> list_all isdigit (take 4 s) \<and> s ! 4 = CHR ''-''
         \<and> list_all isdigit (take 2 (drop 5 s)) \<and> s ! 7 = CHR ''-''
         \<and> list_all isdigit (take 2 (drop 8 s)) \<and> s ! 10 = CHR ''T''
         \<and> list_all isdigit (take 2 (drop 11 s)) \<and> s ! 13 = CHR '':''
         \<and> list_all isdigit (take 2 (drop 14 s)) \<and> s ! 16 = CHR '':''
         \<and> list_all isdigit (take 2 (drop 17 s))
      then
        let y = digits_value (take 4 s);
            m = digits_value (take 2 (drop 5 s));
            d = digits_value (take 2 (drop 8 s))
        in if 1 \<le> y \<and> 1 \<le> m \<and> m \<le> 12 \<and> 1 \<le> d \<and> d \<le> days_in_month y m
              \<and> digits_value (take 2 (drop 11 s)) < 24
              \<and> digits_value (take 2 (drop 14 s)) < 60
              \<and> digits_value (take 2 (drop 17 s)) < 60
           then Some s else None
      else None)"

definition sample_lib :: "(fixed, string) env" where
  "sample_lib =
     \<lparr>Decimal = sample_Decimal,
      Decimal_str = sample_Decimal_str,
      Decimal_add = sample_Decimal_add,
      Decimal_truediv = sample_Decimal_truediv,
      Decimal_value = sample_Decimal_value,
      fromisoformat = sample_fromisoformat,
      isoformat = (\<lambda>t. t),
      CarStatus_values = [''available'', ''sold''],
      Model_index = (\<lambda>m. int_str (id' m)),
      Car_index = vin,
      Sale_index = sales_number\<rparr>"

section \<open>Records of a file and the invariant of the store\<close>

text \<open>The block a record occupies, the file that holds given records and nothing
  else, and the block found at a record number.\<close>

definition block :: "string \<Rightarrow> string" where
  "block d = ljust LINE_DATA_LENGTH d @ [LF]"

definition records_file :: "string list \<Rightarrow> string" where
  "records_file rs = concat (map block rs)"

definition fits :: "string \<Rightarrow> bool" where
  "fits d = (length d \<le> LINE_DATA_LENGTH)"

definition block_at :: "textfile \<Rightarrow> nat \<Rightarrow> string" where
  "block_at f n =
     (case f of None \<Rightarrow> []
      | Some content \<Rightarrow> take LINE_TOTAL_LENGTH (drop (n * LINE_TOTAL_LENGTH) content))"

text \<open>Every record number an index holds lies below the line count of its file.\<close>

definition index_ok :: "index option \<Rightarrow> textfile \<Rightarrow> bool" where
  "index_ok ix f = list_all (\<lambda>kv. snd kv < get_file_line_count f) (load_index ix)"

definition store_ok :: "store \<Rightarrow> bool" where
  "store_ok s =
     (index_ok (models_index_txt s) (models_txt s)
      \<and> index_ok (cars_index_txt s) (cars_txt s)
      \<and> index_ok (sales_index_txt s) (sales_txt s))"

text \<open>The store between the two writes of \<open>sell_car\<close>: the sale appended and its
  index entry saved, the car file not yet touched.\<close>

definition after_sale_append :: "('d, 't) env \<Rightarrow> store \<Rightarrow> ('d, 't) Sale \<Rightarrow> store" where
  "after_sale_append L s sale =
     s\<lparr>sales_txt := snd (append_fixed_length_line (sales_txt s) (sale_data L sale)),
       sales_index_txt :=
         save_index (dict_set (load_index (sales_index_txt s)) (Sale_index L sale)
                       (get_file_line_count (sales_txt s)))\<rparr>"

text \<open>The record a successful scan stops at.\<close>

definition live_sale_at :: "textfile \<Rightarrow> string \<Rightarrow> nat \<Rightarrow> string \<Rightarrow> bool" where
  "live_sale_at f number line v =
     (case read_fixed_length_line f line of
        Inl e \<Rightarrow> False
      | Inr str \<Rightarrow>
          length (str_split (CHR ''|'') str) = 4
          \<and> str_split (CHR ''|'') str ! 0 = number
          \<and> \<not> startswith (str_split (CHR ''|'') str ! 0) ''DELETED_''
          \<and> str_split (CHR ''|'') str ! 1 = v)"

section \<open>The scenario of the spec\<close>

text \<open>The empty data directory, and the scenario of the spec: one model, one car
  of that model, and its sale \<open>S-1\<close>.\<close>

definition empty_store :: store where
  "empty_store =
     \<lparr>models_txt = None, models_index_txt = None, cars_txt = None, cars_index_txt = None,
      sales_txt = None, sales_index_txt = None\<rparr>"

definition model_x :: Model where
  "model_x = \<lparr>id' = 1, name = ''Model X'', brand = ''Tesla''\<rparr>"

definition model_x_record :: string where
  "model_x_record = ''1|Model X|Tesla''"

definition car_1 :: "(fixed, string) Car" where
  "car_1 =
     \<lparr>vin = ''5YJ3E1EA7KF000001'', model = 1, price = (4200000, 2),
      date_start = ''2024-01-01T00:00:00'', status = available\<rparr>"

definition sale_1 :: "(fixed, string) Sale" where
  "sale_1 =
     \<lparr>sales_number = ''S-1'', car_vin = ''5YJ3E1EA7KF000001'',
      sales_date = ''2024-02-01T00:00:00'', cost = (4100000, 2)\<rparr>"

definition car_1_record :: string where
  "car_1_record = ''5YJ3E1EA7KF000001|1|42000.00|2024-01-01T00:00:00|available''"

definition car_1_sold_record :: string where
  "car_1_sold_record = ''5YJ3E1EA7KF000001|1|42000.00|2024-01-01T00:00:00|sold''"

definition sale_1_record :: string where
  "sale_1_record = ''S-1|5YJ3E1EA7KF000001|41000.00|2024-02-01T00:00:00''"

text \<open>The store after \<open>add_model\<close> and \<open>add_car\<close>, and after \<open>sell_car\<close>.\<close>

definition store_listed :: store where
  "store_listed =
     \<lparr>models_txt = Some (records_file [model_x_record]),
      models_index_txt = Some [(''1'', 0)],
      cars_txt = Some (records_file [car_1_record]),
      cars_index_txt = Some [(''5YJ3E1EA7KF000001'', 0)],
      sales_txt = None,
      sales_index_txt = None\<rparr>"

definition store_sold :: store where
  "store_sold =
     \<lparr>models_txt = Some (records_file [model_x_record]),
      models_index_txt = Some [(''1'', 0)],
      cars_txt = Some (records_file [car_1_sold_record]),
      cars_index_txt = Some [(''5YJ3E1EA7KF000001'', 0)],
      sales_txt = Some (records_file [sale_1_record]),
      sales_index_txt = Some [(''S-1'', 0)]\<rparr>"

text \<open>A second car of the same model, and a sale of it under the number \<open>S-1\<close>
  again.\<close>

definition car_2 :: "(fixed, string) Car" where
  "car_2 =
     \<lparr>vin = ''5YJ3E1EA7KF000002'', model = 1, price = (3900000, 2),
      date_start = ''2024-01-05T00:00:00'', status = available\<rparr>"

definition car_2_record :: string where
  "car_2_record = ''5YJ3E1EA7KF000002|1|39000.00|2024-01-05T00:00:00|available''"

definition car_2_sold_record :: string where
  "car_2_sold_record = ''5YJ3E1EA7KF000002|1|39000.00|2024-01-05T00:00:00|sold''"

definition sale_dup :: "(fixed, string) Sale" where
  "sale_dup =
     \<lparr>sales_number = ''S-1'', car_vin = ''5YJ3E1EA7KF000002'',
      sales_date = ''2024-03-01T00:00:00'', cost = (3800000, 2)\<rparr>"

definition sale_dup_record :: string where
  "sale_dup_record = ''S-1|5YJ3E1EA7KF000002|38000.00|2024-03-01T00:00:00''"

definition store_two_cars :: store where
  "store_two_cars =
     \<lparr>models_txt = Some (records_file [model_x_record]),
      models_index_txt = Some [(''1'', 0)],
      cars_txt = Some (records_file [car_1_sold_record, car_2_record]),
      cars_index_txt = Some [(''5YJ3E1EA7KF000001'', 0), (''5YJ3E1EA7KF000002'', 1)],
      sales_txt = Some (records_file [sale_1_record]),
      sales_index_txt = Some [(''S-1'', 0)]\<rparr>"

definition store_two_sold :: store where
  "store_two_sold =
     \<lparr>models_txt = Some (records_file [model_x_record]),
      models_index_txt = Some [(''1'', 0)],
      cars_txt = Some (records_file [car_1_sold_record, car_2_sold_record]),
      cars_index_txt = Some [(''5YJ3E1EA7KF000001'', 0), (''5YJ3E1EA7KF000002'', 1)],
      sales_txt = Some (records_file [sale_1_record, sale_dup_record]),
      sales_index_txt = Some [(''S-1'', 1)]\<rparr>"

text \<open>The scenario continued: the sale \<open>S-1\<close> reverted, and the car sold again under
  the number \<open>S-2\<close>.\<close>

definition deleted_sale_1_record :: string where
  "deleted_sale_1_record = ''DELETED_S-1|5YJ3E1EA7KF000001|41000.00|2024-02-01T00:00:00''"

definition store_reverted :: store where
  "store_reverted =
     \<lparr>models_txt = Some (records_file [model_x_record]),
      models_index_txt = Some [(''1'', 0)],
      cars_txt = Some (records_file [car_1_record]),
      cars_index_txt = Some [(''5YJ3E1EA7KF000001'', 0)],
      sales_txt = Some (records_file [deleted_sale_1_record]),
      sales_index_txt = Some [(''S-1'', 0)]\<rparr>"

definition sale_2 :: "(fixed, string) Sale" where
  "sale_2 =
     \<lparr>sales_number = ''S-2'', car_vin = ''5YJ3E1EA7KF000001'',
      sales_date = ''2024-03-01T00:00:00'', cost = (4000000, 2)\<rparr>"

definition sale_2_record :: string where
  "sale_2_record = ''S-2|5YJ3E1EA7KF000001|40000.00|2024-03-01T00:00:00''"

definition store_resold :: store where
  "store_resold =
     \<lparr>models_txt = Some (records_file [model_x_record]),
      models_index_txt = Some [(''1'', 0)],
      cars_txt = Some (records_file [car_1_sold_record]),
      cars_index_txt = Some [(''5YJ3E1EA7KF000001'', 0)],
      sales_txt = Some (records_file [deleted_sale_1_record, sale_2_record]),
      sales_index_txt = Some [(''S-1'', 0), (''S-2'', 1)]\<rparr>"

text \<open>The two-car store after the first car is renamed to \<open>1AA\<close>.\<close>

definition car_1_renamed_record :: string where
  "car_1_renamed_record = ''1AA|1|42000.00|2024-01-01T00:00:00|sold''"

definition store_renamed :: store where
  "store_renamed =
     \<lparr>models_txt = Some (records_file [model_x_record]),
      models_index_txt = Some [(''1'', 0)],
      cars_txt = Some (records_file [car_1_renamed_record, car_2_record]),
      cars_index_txt = Some [(''1AA'', 0), (''5YJ3E1EA7KF000002'', 1)],
      sales_txt = Some (records_file [sale_1_record]),
      sales_index_txt = Some [(''S-1'', 0)]\<rparr>"

text \<open>A car file whose one record writes the model id as \<open> +0_07 \<close>, which \<open>int\<close>
  reads as 7, and the store after that car is renamed to \<open>1AA\<close>.\<close>

definition padded_id_record :: string where
  "padded_id_record = ''5YJ3E1EA7KF000001| +0_07 |42000.00|2024-01-01T00:00:00|available''"

definition padded_id_renamed_record :: string where
  "padded_id_renamed_record = ''1AA|7|42000.00|2024-01-01T00:00:00|available''"

definition store_padded_id :: store where
  "store_padded_id =
     \<lparr>models_txt = Some (records_file [model_x_record]),
      models_index_txt = Some [(''1'', 0)],
      cars_txt = Some (records_file [padded_id_record]),
      cars_index_txt = Some [(''5YJ3E1EA7KF000001'', 0)],
      sales_txt = None,
      sales_index_txt = None\<rparr>"

definition store_padded_id_renamed :: store where
  "store_padded_id_renamed =
     \<lparr>models_txt = Some (records_file [model_x_record]),
      models_index_txt = Some [(''1'', 0)],
      cars_txt = Some (records_file [padded_id_renamed_record]),
      cars_index_txt = Some [(''1AA'', 0)],
      sales_txt = None,
      sales_index_txt = None\<rparr>"

text \<open>A second model.\<close>

definition model_y :: Model where
  "model_y = \<lparr>id' = 2, name = ''Model Y'', brand = ''Tesla''\<rparr>"

definition model_y_record :: string where
  "model_y_record = ''2|Model Y|Tesla''"

text \<open>A car file whose second record has five fields and a price that is no
  Decimal literal.\<close>

definition bad_price_record :: string where
  "bad_price_record = ''5YJ3E1EA7KF000003|1|abc|2024-01-05T00:00:00|available''"

definition store_bad_price :: store where
  "store_bad_price =
     \<lparr>models_txt = Some (records_file [model_x_record]),
      models_index_txt = Some [(''1'', 0)],
      cars_txt = Some (records_file [car_1_record, bad_price_record]),
      cars_index_txt = Some [(''5YJ3E1EA7KF000001'', 0), (''5YJ3E1EA7KF000003'', 1)],
      sales_txt = None,
      sales_index_txt = None\<rparr>"

text \<open>A store with two models and three cars, one of the first model and two of the
  second, each sold once; record 1 of the sale file is the tombstone of an earlier sale
  of a car of the second model.\<close>

definition car_3_sold_record :: string where
  "car_3_sold_record = ''5YJ3E1EA7KF000004|2|30000.00|2024-01-07T00:00:00|sold''"

definition car_4_sold_record :: string where
  "car_4_sold_record = ''5YJ3E1EA7KF000005|2|20000.00|2024-01-08T00:00:00|sold''"

definition deleted_sale_9_record :: string where
  "deleted_sale_9_record = ''DELETED_S-9|5YJ3E1EA7KF000004|99000.00|2024-02-02T00:00:00''"

definition sale_3_record :: string where
  "sale_3_record = ''S-3|5YJ3E1EA7KF000004|30000.00|2024-02-03T00:00:00''"

definition sale_4_record :: string where
  "sale_4_record = ''S-4|5YJ3E1EA7KF000005|20000.00|2024-02-04T00:00:00''"

definition store_ranked :: store where
  "store_ranked =
     \<lparr>models_txt = Some (records_file [model_x_record, model_y_record]),
      models_index_txt = Some [(''1'', 0), (''2'', 1)],
      cars_txt = Some (records_file [car_1_sold_record, car_3_sold_record, car_4_sold_record]),
      cars_index_txt = Some [(''5YJ3E1EA7KF000001'', 0), (''5YJ3E1EA7KF000004'', 1),
                             (''5YJ3E1EA7KF000005'', 2)],
      sales_txt = Some (records_file [sale_1_record, deleted_sale_9_record, sale_3_record,
                                      sale_4_record]),
      sales_index_txt = Some [(''S-1'', 0), (''S-3'', 2), (''S-4'', 3)]\<rparr>"

text \<open>What record \<open>n\<close> of the car file gives a scan that skips what it cannot
  read: the car it parses to, if it is not blank, has five fields and parses.\<close>

definition car_at :: "('d, 't) env \<Rightarrow> textfile \<Rightarrow> nat \<Rightarrow> ('d, 't) Car option" where
  "car_at L f n =
     (case read_fixed_length_line f n of
        Inl e \<Rightarrow> None
      | Inr str \<Rightarrow>
          if strip str = [] \<or> length (str_split (CHR ''|'') str) \<noteq> 5 then None
          else (case Car_of_parts L (str_split (CHR ''|'') str) of
                  Inl e \<Rightarrow> None
                | Inr car \<Rightarrow> Some car))"

text \<open>Record \<open>n\<close> raises an exception that the scan of \<open>get_cars\<close> does not catch.\<close>

definition escapes :: "('d, 't) env \<Rightarrow> textfile \<Rightarrow> nat \<Rightarrow> bool" where
  "escapes L f n =
     (case read_fixed_length_line f n of
        Inl e \<Rightarrow> \<not> handled e
      | Inr str \<Rightarrow>
          strip str \<noteq> [] \<and> length (str_split (CHR ''|'') str) = 5
          \<and> (case Car_of_parts L (str_split (CHR ''|'') str) of
                Inl e \<Rightarrow> \<not> handled e
              | Inr car \<Rightarrow> False))"

section \<open>Facts about the file primitives\<close>

lemma universal_newlines_append:
  "CR \<notin> set xs \<Longrightarrow> universal_newlines (xs @ ys) = xs @ universal_newlines ys"
proof (induction xs)
  case Nil
  then show ?case by simp
next
  case (Cons x xs)
  then show ?case
    by (cases "xs @ ys") auto
qed

lemma isspace_space: "isspace (CHR '' '')"
  by (simp add: isspace_def whitespace_def)

lemma rstrip_padding: "rstrip (s @ replicate k (CHR '' '')) = rstrip s"
  by (induction k) (simp_all add: rstrip_def replicate_append_same isspace_space)

lemma length_ljust: "length s \<le> w \<Longrightarrow> length (ljust w s) = w"
  by (simp add: ljust_def)

lemma length_block: "fits d \<Longrightarrow> length (block d) = LINE_TOTAL_LENGTH"
  by (simp add: block_def fits_def length_ljust LINE_TOTAL_LENGTH_def LINE_DATA_LENGTH_def)

lemma write_at_split:
  "\<exists>A B. write_at pos b c = A @ b @ B \<and> length A = pos"
proof (cases "pos \<le> length c")
  case True
  then have "write_at pos b c = take pos c @ b @ drop (pos + length b) c \<and> length (take pos c) = pos"
    by (simp add: write_at_def)
  then show ?thesis by blast
next
  case False
  then have "write_at pos b c = (c @ replicate (pos - length c) NUL) @ b @ []
      \<and> length (c @ replicate (pos - length c) NUL) = pos"
    by (simp add: write_at_def)
  then show ?thesis by blast
qed

lemma length_write_at: "length c \<le> length (write_at pos b c)"
  by (auto simp: write_at_def min_def)

lemma length_write_at_inside:
  "pos + length b \<le> length c \<Longrightarrow> length (write_at pos b c) = length c"
  by (simp add: write_at_def)

lemma write_fits:
  "fits d \<Longrightarrow> write_fixed_length_line f n d =
     Inr (Some (write_at (n * LINE_TOTAL_LENGTH) (block d) (case f of None \<Rightarrow> [] | Some c \<Rightarrow> c)))"
  by (simp add: write_fixed_length_line_def fits_def block_def)

lemma write_too_long:
  "\<not> fits d \<Longrightarrow> write_fixed_length_line f n d = Inl (ValueError LengthExceeded)"
  by (simp add: write_fixed_length_line_def fits_def)

lemma read_block:
  assumes "length A = n * LINE_TOTAL_LENGTH" "fits d" "CR \<notin> set d"
  shows "read_fixed_length_line (Some (A @ block d @ B)) n = Inr (rstrip d)"
proof -
  let ?p = "ljust LINE_DATA_LENGTH d"
  have cr: "CR \<notin> set ?p" using assms(3) by (auto simp: ljust_def CR_def)
  have len: "length ?p = LINE_DATA_LENGTH" using assms(2) by (simp add: fits_def length_ljust)
  have "universal_newlines (?p @ (LF # B)) = ?p @ universal_newlines (LF # B)"
    using cr by (rule universal_newlines_append)
  then have "take LINE_DATA_LENGTH (universal_newlines ((?p @ [LF]) @ B)) = ?p"
    using len by simp
  then show ?thesis
    using assms(1) by (simp add: read_fixed_length_line_def block_def ljust_def rstrip_padding)
qed

lemma line_count_write:
  "write_fixed_length_line f n d = Inr f' \<Longrightarrow> get_file_line_count f \<le> get_file_line_count f'"
proof -
  assume w: "write_fixed_length_line f n d = Inr f'"
  then have fit: "fits d" using write_too_long [of d f n] by (cases "fits d") auto
  let ?c = "case f of None \<Rightarrow> [] | Some c \<Rightarrow> c"
  have "f' = Some (write_at (n * LINE_TOTAL_LENGTH) (block d) ?c)"
    using w write_fits [OF fit, of f n] by simp
  moreover have "length ?c \<le> length (write_at (n * LINE_TOTAL_LENGTH) (block d) ?c)"
    by (rule length_write_at)
  moreover have "get_file_line_count f = length ?c div LINE_TOTAL_LENGTH"
    by (simp add: get_file_line_count_def split: option.splits)
  ultimately show ?thesis
    by (simp add: get_file_line_count_def div_le_mono)
qed

lemma line_count_write_inside:
  assumes "write_fixed_length_line f n d = Inr f'" "n < get_file_line_count f"
  shows "get_file_line_count f' = get_file_line_count f"
proof -
  have fit: "fits d" using assms(1) write_too_long [of d f n] by (cases "fits d") auto
  obtain c where f: "f = Some c" using assms(2) by (cases f) (auto simp: get_file_line_count_def)
  have "Suc n \<le> length c div LINE_TOTAL_LENGTH"
    using assms(2) f by (simp add: get_file_line_count_def)
  then have "Suc n * LINE_TOTAL_LENGTH \<le> length c"
    by (simp add: less_eq_div_iff_mult_less_eq LINE_TOTAL_LENGTH_def)
  then have "n * LINE_TOTAL_LENGTH + length (block d) \<le> length c"
    using length_block [OF fit] by simp
  then have "length (write_at (n * LINE_TOTAL_LENGTH) (block d) c) = length c"
    by (rule length_write_at_inside)
  then show ?thesis
    using assms(1) write_fits [OF fit, of f n] f by (auto simp: get_file_line_count_def)
qed

lemma append_fits:
  assumes "fits d"
  shows "\<exists>f'. append_fixed_length_line f d = (Inr (get_file_line_count f), f')
           \<and> get_file_line_count f' = Suc (get_file_line_count f)
           \<and> block_at f' (get_file_line_count f) = block d"
proof -
  let ?c = "case f of None \<Rightarrow> [] | Some c \<Rightarrow> c"
  let ?n = "length ?c div LINE_TOTAL_LENGTH"
  let ?w = "write_at (?n * LINE_TOTAL_LENGTH) (block d) ?c"
  have n: "get_file_line_count f = ?n"
    by (simp add: get_file_line_count_def split: option.splits)
  have a: "append_fixed_length_line f d = (Inr ?n, Some ?w)"
    using write_fits [OF assms, of "Some ?c" ?n] by (simp add: append_fixed_length_line_def Let_def)
  have le: "?n * LINE_TOTAL_LENGTH \<le> length ?c" by simp
  have gt: "length ?c < ?n * LINE_TOTAL_LENGTH + LINE_TOTAL_LENGTH"
    using div_mult_mod_eq [of "length ?c" LINE_TOTAL_LENGTH]
      mod_less_divisor [of LINE_TOTAL_LENGTH "length ?c"]
    by (simp add: LINE_TOTAL_LENGTH_def)
  have w: "?w = take (?n * LINE_TOTAL_LENGTH) ?c @ block d"
    using le gt length_block [OF assms] by (simp add: write_at_def)
  have lw: "length ?w = Suc ?n * LINE_TOTAL_LENGTH"
    using le length_block [OF assms] by (simp add: w)
  have "get_file_line_count (Some ?w) = Suc ?n"
    using lw by (simp add: get_file_line_count_def LINE_TOTAL_LENGTH_def)
  moreover have "block_at (Some ?w) ?n = block d"
    using le length_block [OF assms] by (simp add: block_at_def w)
  ultimately show ?thesis using a n by simp
qed


lemma length_records_file:
  "list_all fits rs \<Longrightarrow> length (records_file rs) = length rs * LINE_TOTAL_LENGTH"
  by (induction rs) (simp_all add: records_file_def length_block)

lemma records_file_append: "records_file (xs @ ys) = records_file xs @ records_file ys"
  by (simp add: records_file_def)

lemma records_file_nth:
  "n < length rs \<Longrightarrow>
     records_file rs = records_file (take n rs) @ block (rs ! n) @ records_file (drop (Suc n) rs)"
proof -
  assume "n < length rs"
  then have "rs = take n rs @ [rs ! n] @ drop (Suc n) rs"
    by (simp add: id_take_nth_drop)
  then have "records_file rs = records_file (take n rs @ [rs ! n] @ drop (Suc n) rs)"
    by simp
  then show ?thesis
    by (simp add: records_file_def)
qed

lemma line_count_records_file:
  "list_all fits rs \<Longrightarrow> get_file_line_count (Some (records_file rs)) = length rs"
  by (simp add: get_file_line_count_def length_records_file LINE_TOTAL_LENGTH_def)

lemma list_all_take: "list_all P xs \<Longrightarrow> list_all P (take n xs)"
  by (auto simp: list_all_iff dest: in_set_takeD)

lemma read_records_file:
  assumes "list_all fits rs" "n < length rs" "CR \<notin> set (rs ! n)"
  shows "read_fixed_length_line (Some (records_file rs)) n = Inr (rstrip (rs ! n))"
proof -
  have len: "length (records_file (take n rs)) = n * LINE_TOTAL_LENGTH"
    using assms(1,2) by (simp add: length_records_file list_all_take)
  have fit: "fits (rs ! n)"
    using assms(1,2) by (simp add: list_all_length)
  show ?thesis
    using read_block [OF len fit assms(3)] records_file_nth [OF assms(2)] by simp
qed

lemma write_records_file:
  assumes "list_all fits rs" "n < length rs" "fits d"
  shows "write_fixed_length_line (Some (records_file rs)) n d = Inr (Some (records_file (rs[n := d])))"
proof -
  let ?A = "records_file (take n rs)" and ?B = "records_file (drop (Suc n) rs)"
  have len: "length ?A = n * LINE_TOTAL_LENGTH"
    using assms(1,2) by (simp add: length_records_file list_all_take)
  have fitn: "fits (rs ! n)"
    using assms(1,2) by (simp add: list_all_length)
  have "write_at (n * LINE_TOTAL_LENGTH) (block d) (?A @ block (rs ! n) @ ?B) = ?A @ block d @ ?B"
    using len length_block [OF fitn] length_block [OF assms(3)] by (simp add: write_at_def)
  moreover have "records_file (rs[n := d]) = ?A @ block d @ ?B"
    using assms(2) records_file_nth [of n "rs[n := d]"] by simp
  ultimately show ?thesis
    using write_fits [OF assms(3), of "Some (records_file rs)" n] records_file_nth [OF assms(2)]
    by simp
qed

lemma append_records_file:
  assumes "list_all fits rs" "fits d"
  shows "append_fixed_length_line (Some (records_file rs)) d
           = (Inr (length rs), Some (records_file (rs @ [d])))"
proof -
  have n: "length (records_file rs) div LINE_TOTAL_LENGTH = length rs"
    using assms(1) by (simp add: length_records_file LINE_TOTAL_LENGTH_def)
  have "write_at (length rs * LINE_TOTAL_LENGTH) (block d) (records_file rs) = records_file rs @ block d"
    using assms(1) by (simp add: write_at_def length_records_file)
  then have "write_fixed_length_line (Some (records_file rs)) (length rs) d
      = Inr (Some (records_file (rs @ [d])))"
    using write_fits [OF assms(2), of "Some (records_file rs)" "length rs"]
    by (simp add: records_file_def)
  then show ?thesis
    by (simp add: append_fixed_length_line_def n)
qed

lemma append_absent:
  "fits d \<Longrightarrow> append_fixed_length_line None d = (Inr 0, Some (records_file [d]))"
  using append_records_file [of "[]" d]
  by (simp add: append_fixed_length_line_def records_file_def)

section \<open>Facts about dictionaries and the parsers\<close>

lemma dict_get_set_same: "dict_get (dict_set d k v) k = Some v"
  by (induction d) (auto simp: dict_get_def)

lemma dict_get_set_other: "k' \<noteq> k \<Longrightarrow> dict_get (dict_set d k v) k' = dict_get d k'"
  by (induction d) (auto simp: dict_get_def)

lemma length_dict_set_present: "dict_in k d \<Longrightarrow> length (dict_set d k v) = length d"
  by (induction d) (fastforce simp: dict_in_def)+

lemma length_dict_set_absent: "\<not> dict_in k d \<Longrightarrow> length (dict_set d k v) = Suc (length d)"
  by (induction d) (auto simp: dict_in_def)

lemma dict_in_get: "dict_in k d \<longleftrightarrow> dict_get d k \<noteq> None"
  by (simp add: dict_in_def dict_get_def map_of_eq_None_iff)

lemma dict_get_del_same: "dict_get (dict_del d k) k = None"
  by (induction d) (auto simp: dict_get_def dict_del_def)

lemma dict_get_del_other: "k' \<noteq> k \<Longrightarrow> dict_get (dict_del d k) k' = dict_get d k'"
  by (induction d) (auto simp: dict_get_def dict_del_def)

lemma set_dict_set: "snd ` set (dict_set d k v) \<subseteq> insert v (snd ` set d)"
  by (induction d) (fastforce split: if_splits)+

lemma set_dict_del: "set (dict_del d k) \<subseteq> set d"
  by (auto simp: dict_del_def)

lemma dict_get_in_set: "dict_get d k = Some v \<Longrightarrow> (k, v) \<in> set d"
  by (simp add: dict_get_def map_of_SomeD)

lemma Car_of_parts_exn:
  "Car_of_parts L parts = Inl e \<Longrightarrow> e = IndexError \<or> e = InvalidOperation \<or> e = ValueError BadLiteral"
  by (auto simp: Car_of_parts_def andthen_def item_def py_int_def py_Decimal_def
      py_fromisoformat_def py_CarStatus_def Let_def split: sum.splits if_splits option.splits list.splits)

lemma read_exn: "read_fixed_length_line f n = Inl e \<Longrightarrow> e = FileNotFoundError"
  by (auto simp: read_fixed_length_line_def split: option.splits)

lemma write_exn: "write_fixed_length_line f n d = Inl e \<Longrightarrow> e = ValueError LengthExceeded"
  by (auto simp: write_fixed_length_line_def Let_def split: if_splits)

lemma sell_car_unfold:
  assumes "fits (sale_data L sale)"
  shows "sell_car L s sale =
    (let s1 = after_sale_append L s sale
     in case dict_get (load_index (cars_index_txt s)) (car_vin sale) of
          None \<Rightarrow> (Inl (ValueError NotFound), s1)
        | Some n \<Rightarrow>
            (case andthen (read_fixed_length_line (cars_txt s) n)
                    (\<lambda>l. Car_of_parts L (str_split (CHR ''|'') l)) of
               Inl e \<Rightarrow> (Inl e, s1)
             | Inr car \<Rightarrow>
                 if status car = sold then (Inl (ValueError InvalidState), s1)
                 else if \<not> fits (car_data L (car\<lparr>status := sold\<rparr>))
                 then (Inl (ValueError LengthExceeded), s1)
                 else (case write_fixed_length_line (cars_txt s) n (car_data L (car\<lparr>status := sold\<rparr>)) of
                         Inl e \<Rightarrow> (Inl e, s1)
                       | Inr f' \<Rightarrow> (Inr (car\<lparr>status := sold\<rparr>), s1\<lparr>cars_txt := f'\<rparr>))))"
proof -
  obtain f' where a: "append_fixed_length_line (sales_txt s) (sale_data L sale)
      = (Inr (get_file_line_count (sales_txt s)), f')"
    using append_fits [OF assms] by blast
  show ?thesis
    using assms a
    by (auto simp: sell_car_def after_sale_append_def Let_def fits_def not_less not_le
        split: option.splits sum.splits)
qed

lemma after_sale_append_sales:
  assumes "fits (sale_data L sale)"
  shows "get_file_line_count (sales_txt (after_sale_append L s sale))
           = Suc (get_file_line_count (sales_txt s))"
    and "block_at (sales_txt (after_sale_append L s sale)) (get_file_line_count (sales_txt s))
           = block (sale_data L sale)"
    and "dict_get (load_index (sales_index_txt (after_sale_append L s sale))) (Sale_index L sale)
           = Some (get_file_line_count (sales_txt s))"
  using append_fits [OF assms, of "sales_txt s"]
  by (auto simp: after_sale_append_def save_index_def load_index_def dict_get_set_same)

lemma after_sale_append_frame:
  "cars_txt (after_sale_append L s sale) = cars_txt s"
  "cars_index_txt (after_sale_append L s sale) = cars_index_txt s"
  "models_txt (after_sale_append L s sale) = models_txt s"
  "models_index_txt (after_sale_append L s sale) = models_index_txt s"
  by (simp_all add: after_sale_append_def)

lemma sell_car_store:
  assumes "fits (sale_data L sale)"
  shows "fst (sell_car L s sale) \<noteq> Inl (ValueError DuplicateKey)
    \<and> (\<exists>f'. snd (sell_car L s sale) = (after_sale_append L s sale)\<lparr>cars_txt := f'\<rparr>)"
proof -
  have same: "\<exists>f'. after_sale_append L s sale = (after_sale_append L s sale)\<lparr>cars_txt := f'\<rparr>"
    by (rule exI [of _ "cars_txt (after_sale_append L s sale)"]) simp
  show ?thesis
    unfolding sell_car_unfold [OF assms] Let_def
    using same
    by (auto simp: andthen_def split: option.splits sum.splits
        dest: Car_of_parts_exn read_exn write_exn)
qed

lemma block_at_write_at_same:
  "length A = n * LINE_TOTAL_LENGTH \<Longrightarrow> length b = LINE_TOTAL_LENGTH \<Longrightarrow>
     block_at (Some (A @ b @ B)) n = b"
  by (simp add: block_at_def)

lemma block_at_before:
  assumes "Suc m * LINE_TOTAL_LENGTH \<le> pos" "pos \<le> length c"
  shows "block_at (Some (take pos c @ rest)) m = block_at (Some c) m"
proof -
  let ?k = "m * LINE_TOTAL_LENGTH"
  have k: "?k + LINE_TOTAL_LENGTH \<le> pos" using assms(1) by simp
  then have "drop ?k (take pos c @ rest) = drop ?k (take pos c) @ rest"
    using assms(2) by simp
  moreover have "LINE_TOTAL_LENGTH \<le> length (drop ?k (take pos c))"
    using k assms(2) by simp
  ultimately have "take LINE_TOTAL_LENGTH (drop ?k (take pos c @ rest))
      = take LINE_TOTAL_LENGTH (drop ?k (take pos c))"
    by simp
  also have "\<dots> = take LINE_TOTAL_LENGTH (take (pos - ?k) (drop ?k c))"
    by (simp add: drop_take)
  also have "\<dots> = take LINE_TOTAL_LENGTH (drop ?k c)"
    using k by (simp add: min_def)
  finally show ?thesis by (simp add: block_at_def)
qed

lemma block_at_after:
  assumes "pos + length b \<le> m * LINE_TOTAL_LENGTH" "pos + length b \<le> length c"
  shows "block_at (Some (take pos c @ b @ drop (pos + length b) c)) m = block_at (Some c) m"
proof -
  let ?k = "m * LINE_TOTAL_LENGTH"
  have "length (take pos c) = pos" using assms(2) by simp
  then have "drop ?k (take pos c @ b @ drop (pos + length b) c)
      = drop (?k - pos - length b) (drop (pos + length b) c)"
    using assms(1) by simp
  also have "\<dots> = drop ?k c"
    using assms(1) by simp
  finally show ?thesis by (simp add: block_at_def)
qed

lemma write_block_frame:
  assumes "write_fixed_length_line f n d = Inr f'"
  shows "block_at f' n = block d"
    and "n < get_file_line_count f \<Longrightarrow> get_file_line_count f' = get_file_line_count f"
    and "n < get_file_line_count f \<Longrightarrow> m \<noteq> n \<Longrightarrow> block_at f' m = block_at f m"
proof -
  have fit: "fits d" using assms write_too_long [of d f n] by (cases "fits d") auto
  let ?c = "case f of None \<Rightarrow> [] | Some c \<Rightarrow> c"
  have f': "f' = Some (write_at (n * LINE_TOTAL_LENGTH) (block d) ?c)"
    using assms write_fits [OF fit, of f n] by simp
  obtain A B where "write_at (n * LINE_TOTAL_LENGTH) (block d) ?c = A @ block d @ B"
    and "length A = n * LINE_TOTAL_LENGTH"
    using write_at_split by blast
  then show "block_at f' n = block d"
    using block_at_write_at_same [of A n "block d" B] length_block [OF fit] f' by simp
  show "n < get_file_line_count f \<Longrightarrow> get_file_line_count f' = get_file_line_count f"
    using assms by (rule line_count_write_inside)
  show "block_at f' m = block_at f m" if inside: "n < get_file_line_count f" and neq: "m \<noteq> n"
  proof -
    obtain c where f: "f = Some c"
      using inside by (cases f) (auto simp: get_file_line_count_def)
    have "Suc n \<le> length c div LINE_TOTAL_LENGTH"
      using inside f by (simp add: get_file_line_count_def)
    then have "Suc n * LINE_TOTAL_LENGTH \<le> length c"
      by (simp add: less_eq_div_iff_mult_less_eq LINE_TOTAL_LENGTH_def)
    then have le: "n * LINE_TOTAL_LENGTH + length (block d) \<le> length c"
      using length_block [OF fit] by simp
    then have w: "f' = Some (take (n * LINE_TOTAL_LENGTH) c @ block d
        @ drop (n * LINE_TOTAL_LENGTH + length (block d)) c)"
      using f' f by (simp add: write_at_def)
    show ?thesis
    proof (cases "m < n")
      case True
      then have "Suc m \<le> n" by simp
      then have "Suc m * LINE_TOTAL_LENGTH \<le> n * LINE_TOTAL_LENGTH"
        by (rule mult_le_mono1)
      then show ?thesis
        using block_at_before [of m "n * LINE_TOTAL_LENGTH" c] le w f by simp
    next
      case False
      then have "Suc n \<le> m" using neq by simp
      then have "Suc n * LINE_TOTAL_LENGTH \<le> m * LINE_TOTAL_LENGTH"
        by (rule mult_le_mono1)
      then have "n * LINE_TOTAL_LENGTH + length (block d) \<le> m * LINE_TOTAL_LENGTH"
        using length_block [OF fit] by simp
      then show ?thesis
        using block_at_after [of "n * LINE_TOTAL_LENGTH" "block d" m c] le w f by simp
    qed
  qed
qed

lemma block_text:
  "block d = d @ replicate (LINE_DATA_LENGTH - length d) (CHR '' '') @ [LF]"
  by (simp add: block_def ljust_def)

lemma append_exact:
  assumes "fits d"
  shows "append_fixed_length_line f d
    = (Inr (get_file_line_count f),
       Some (take (get_file_line_count f * LINE_TOTAL_LENGTH)
               (case f of None \<Rightarrow> [] | Some c \<Rightarrow> c) @ block d))"
proof -
  let ?c = "case f of None \<Rightarrow> [] | Some c \<Rightarrow> c"
  let ?n = "length ?c div LINE_TOTAL_LENGTH"
  let ?w = "write_at (?n * LINE_TOTAL_LENGTH) (block d) ?c"
  have n: "get_file_line_count f = ?n"
    by (simp add: get_file_line_count_def split: option.splits)
  have a: "append_fixed_length_line f d = (Inr ?n, Some ?w)"
    using write_fits [OF assms, of "Some ?c" ?n] by (simp add: append_fixed_length_line_def Let_def)
  have le: "?n * LINE_TOTAL_LENGTH \<le> length ?c" by simp
  have gt: "length ?c < ?n * LINE_TOTAL_LENGTH + LINE_TOTAL_LENGTH"
    using div_mult_mod_eq [of "length ?c" LINE_TOTAL_LENGTH]
      mod_less_divisor [of LINE_TOTAL_LENGTH "length ?c"]
    by (simp add: LINE_TOTAL_LENGTH_def)
  have w: "?w = take (?n * LINE_TOTAL_LENGTH) ?c @ block d"
    using le gt length_block [OF assms] by (simp add: write_at_def)
  show ?thesis
    using a w by (simp only: n)
qed

lemma append_keeps_blocks:
  assumes "j < get_file_line_count f"
  shows "block_at (Some (take (get_file_line_count f * LINE_TOTAL_LENGTH)
                           (case f of None \<Rightarrow> [] | Some c \<Rightarrow> c) @ rest)) j
         = block_at f j"
proof -
  obtain c where f: "f = Some c"
    using assms by (cases f) (auto simp: get_file_line_count_def)
  let ?k = "get_file_line_count f"
  have "Suc j \<le> ?k" using assms by simp
  then have a: "Suc j * LINE_TOTAL_LENGTH \<le> ?k * LINE_TOTAL_LENGTH"
    by (rule mult_le_mono1)
  have b: "?k * LINE_TOTAL_LENGTH \<le> length c"
    using f by (simp add: get_file_line_count_def)
  show ?thesis
    using block_at_before [OF a b, of rest] f by simp
qed

lemma Car_of_parts_fields:
  assumes "5 \<le> length parts" "py_int (parts ! 1) = Inr m" "Decimal L (parts ! 2) = Some pr"
    "fromisoformat L (parts ! 3) = Some ds" "parts ! 4 \<in> set (CarStatus_values L)"
  shows "Car_of_parts L parts
    = Inr \<lparr>vin = parts ! 0, model = m, price = pr, date_start = ds,
           status = CarStatus (parts ! 4)\<rparr>"
proof -
  have l: "0 < length parts" "1 < length parts" "2 < length parts" "3 < length parts"
    "4 < length parts"
    using assms(1) by auto
  show ?thesis
    using l assms(2-5)
    by (simp add: Car_of_parts_def andthen_def item_def py_Decimal_def py_fromisoformat_def
        py_CarStatus_def)
qed

lemma sell_car_branches:
  assumes "fits (sale_data L sale)"
  shows "\<exists>r cars'. sell_car L s sale = (r, (after_sale_append L s sale)\<lparr>cars_txt := cars'\<rparr>)
    \<and> (\<forall>e. r = Inl e \<longrightarrow> cars' = cars_txt s)
    \<and> (dict_get (load_index (cars_index_txt s)) (car_vin sale) = None \<longrightarrow>
          r = Inl (ValueError NotFound))
    \<and> (\<forall>n line car.
          dict_get (load_index (cars_index_txt s)) (car_vin sale) = Some n
          \<and> read_fixed_length_line (cars_txt s) n = Inr line
          \<and> Car_of_parts L (str_split (CHR ''|'') line) = Inr car \<longrightarrow>
            (status car = sold \<longrightarrow> r = Inl (ValueError InvalidState))
          \<and> (status car \<noteq> sold \<and> fits (car_data L (car\<lparr>status := sold\<rparr>)) \<longrightarrow>
                 r = Inr (car\<lparr>status := sold\<rparr>)
               \<and> write_fixed_length_line (cars_txt s) n (car_data L (car\<lparr>status := sold\<rparr>))
                   = Inr cars'
               \<and> block_at cars' n = block (car_data L (car\<lparr>status := sold\<rparr>))
               \<and> (n < get_file_line_count (cars_txt s) \<longrightarrow>
                     get_file_line_count cars' = get_file_line_count (cars_txt s)
                   \<and> (\<forall>j. j \<noteq> n \<longrightarrow> block_at cars' j = block_at (cars_txt s) j))))"
proof -
  note fit = assms
  let ?s1 = "after_sale_append L s sale"
  have same: "?s1 = ?s1\<lparr>cars_txt := cars_txt s\<rparr>"
    by (simp add: after_sale_append_def)
  show ?thesis
  proof (cases "dict_get (load_index (cars_index_txt s)) (car_vin sale)")
    case None
    then have "sell_car L s sale = (Inl (ValueError NotFound), ?s1\<lparr>cars_txt := cars_txt s\<rparr>)"
      using same by (simp add: sell_car_unfold [OF fit])
    then show ?thesis using None by simp
  next
    case (Some n)
    show ?thesis
    proof (cases "andthen (read_fixed_length_line (cars_txt s) n)
                    (\<lambda>l. Car_of_parts L (str_split (CHR ''|'') l))")
      case (Inl e)
      then have "sell_car L s sale = (Inl e, ?s1\<lparr>cars_txt := cars_txt s\<rparr>)"
        using same Some by (simp add: sell_car_unfold [OF fit])
      moreover have "\<And>line car. read_fixed_length_line (cars_txt s) n = Inr line \<Longrightarrow>
          Car_of_parts L (str_split (CHR ''|'') line) = Inr car \<Longrightarrow> False"
        using Inl by (simp add: andthen_def)
      ultimately show ?thesis using Some by auto
    next
      case (Inr car)
      then obtain line where line: "read_fixed_length_line (cars_txt s) n = Inr line"
        "Car_of_parts L (str_split (CHR ''|'') line) = Inr car"
        by (auto simp: andthen_def split: sum.splits)
      show ?thesis
      proof (cases "status car = sold")
        case True
        then have "sell_car L s sale = (Inl (ValueError InvalidState), ?s1\<lparr>cars_txt := cars_txt s\<rparr>)"
          using same Some Inr by (simp add: sell_car_unfold [OF fit])
        then show ?thesis using Some line True by auto
      next
        case avail: False
        let ?d = "car_data L (car\<lparr>status := sold\<rparr>)"
        show ?thesis
        proof (cases "fits ?d")
          case False
          then have "sell_car L s sale = (Inl (ValueError LengthExceeded), ?s1\<lparr>cars_txt := cars_txt s\<rparr>)"
            using same Some Inr avail by (simp add: sell_car_unfold [OF fit])
          then show ?thesis using Some line avail False by auto
        next
          case True
          let ?f = "write_at (n * LINE_TOTAL_LENGTH) (block ?d)
                      (case cars_txt s of None \<Rightarrow> [] | Some c \<Rightarrow> c)"
          have w: "write_fixed_length_line (cars_txt s) n ?d = Inr (Some ?f)"
            by (rule write_fits [OF True])
          then have "sell_car L s sale = (Inr (car\<lparr>status := sold\<rparr>), ?s1\<lparr>cars_txt := Some ?f\<rparr>)"
            using Some Inr avail True by (simp add: sell_car_unfold [OF fit])
          then show ?thesis
            using Some line avail w write_block_frame [OF w] by auto
        qed
      qed
    qed
  qed
qed

section \<open>Facts about \<open>revert_sale\<close>\<close>

lemma revert_scan_line:
  "revert_scan L f number ls st0 = Inr st \<Longrightarrow> sale_line_number st = Some line \<Longrightarrow>
     sale_line_number st0 = Some line \<or> line \<in> set ls"
proof (induction ls arbitrary: st0)
  case Nil
  then show ?case by simp
next
  case (Cons n ls)
  show ?case
  proof (cases "read_fixed_length_line f n")
    case (Inl e)
    then show ?thesis
      using Cons.prems Cons.IH [of st0] by (auto split: if_splits)
  next
    case (Inr str)
    let ?parts = "str_split (CHR ''|'') str"
    let ?st1 = "st0\<lparr>sale_found := True, sale_line_number := Some n, sale_vin := Some (?parts ! 1)\<rparr>"
    consider (skip) "revert_scan L f number ls st0 = Inr st"
      | (retry) c where "revert_scan L f number ls (?st1\<lparr>sale_cost := Some c\<rparr>) = Inr st"
      | (hit) c d where "st = ?st1\<lparr>sale_cost := Some c, sale_date := Some d\<rparr>"
      using Cons.prems(1) Inr
      by (auto simp: Let_def split: if_splits option.splits)
    then show ?thesis
    proof cases
      case skip
      then show ?thesis using Cons.IH [of st0] Cons.prems(2) by auto
    next
      case retry
      then show ?thesis
        using Cons.IH [of "?st1\<lparr>sale_cost := Some c\<rparr>"] Cons.prems(2) by auto
    next
      case hit
      then show ?thesis using Cons.prems(2) by auto
    qed
  qed
qed

lemma revert_scan_found:
  assumes "revert_scan L f number ls st0 = Inr st"
    and "sale_line_number st = Some line" "sale_vin st = Some v"
    and "\<And>line v. sale_line_number st0 = Some line \<Longrightarrow> sale_vin st0 = Some v \<Longrightarrow>
           live_sale_at f number line v"
  shows "live_sale_at f number line v"
  using assms
proof (induction ls arbitrary: st0)
  case Nil
  then show ?case by simp
next
  case (Cons n ls)
  show ?case
  proof (cases "read_fixed_length_line f n")
    case (Inl e)
    then show ?thesis
      using Cons.prems Cons.IH [of st0] by (auto split: if_splits)
  next
    case (Inr str)
    let ?parts = "str_split (CHR ''|'') str"
    let ?st1 = "st0\<lparr>sale_found := True, sale_line_number := Some n, sale_vin := Some (?parts ! 1)\<rparr>"
    consider (skip) "revert_scan L f number ls st0 = Inr st"
      | (retry) c where "revert_scan L f number ls (?st1\<lparr>sale_cost := Some c\<rparr>) = Inr st"
          "live_sale_at f number n (?parts ! 1)"
      | (hit) c d where "st = ?st1\<lparr>sale_cost := Some c, sale_date := Some d\<rparr>"
          "live_sale_at f number n (?parts ! 1)"
      using Cons.prems(1) Inr
      by (auto simp: Let_def live_sale_at_def split: if_splits option.splits)
    then show ?thesis
    proof cases
      case skip
      then show ?thesis using Cons.IH [of st0] Cons.prems by blast
    next
      case retry
      then show ?thesis
        using Cons.IH [of "?st1\<lparr>sale_cost := Some c\<rparr>"] Cons.prems(2,3) by auto
    next
      case hit
      then show ?thesis using Cons.prems(2,3) by auto
    qed
  qed
qed

lemma revert_sale_success:
  assumes "revert_sale L s number = (Inr car', s')"
  shows "\<exists>line v c d n car f f'.
      line < get_file_line_count (sales_txt s)
    \<and> live_sale_at (sales_txt s) number line v
    \<and> dict_get (load_index (cars_index_txt s)) v = Some n
    \<and> status car = sold
    \<and> car' = car\<lparr>status := available\<rparr>
    \<and> write_fixed_length_line (sales_txt s) line
          (''DELETED_'' @ number @ ''|'' @ v @ ''|'' @ Decimal_str L c @ ''|'' @ isoformat L d) = Inr f
    \<and> write_fixed_length_line (cars_txt s) n (car_data L car') = Inr f'
    \<and> s' = s\<lparr>sales_txt := f,
              sales_index_txt :=
                (if dict_in v (load_index (sales_index_txt s))
                 then save_index (dict_del (load_index (sales_index_txt s)) v)
                 else sales_index_txt s),
              cars_txt := f'\<rparr>"
proof -
  let ?init = "\<lparr>sale_found = False, sale_line_number = None, sale_vin = None,
                 sale_cost = None, sale_date = None\<rparr> :: ('a, 'b) found_sale"
  let ?ls = "[0..<get_file_line_count (sales_txt s)]"
  obtain st where scan: "revert_scan L (sales_txt s) number ?ls ?init = Inr st"
    using assms by (auto simp: revert_sale_def Let_def split: if_splits sum.splits)
  obtain line v c d where st: "sale_line_number st = Some line" "sale_vin st = Some v"
    "sale_cost st = Some c" "sale_date st = Some d"
    using assms scan
    by (auto simp: revert_sale_def Let_def split: if_splits option.splits)
  have line: "line < get_file_line_count (sales_txt s)"
    using revert_scan_line [OF scan st(1)] by simp
  have live: "live_sale_at (sales_txt s) number line v"
    using revert_scan_found [OF scan st(1,2)] by simp
  obtain n car f f' where "dict_get (load_index (cars_index_txt s)) v = Some n"
    "status car = sold" "car' = car\<lparr>status := available\<rparr>"
    "write_fixed_length_line (sales_txt s) line
       (''DELETED_'' @ number @ ''|'' @ v @ ''|'' @ Decimal_str L c @ ''|'' @ isoformat L d) = Inr f"
    "write_fixed_length_line (cars_txt s) n (car_data L car') = Inr f'"
    "s' = s\<lparr>sales_txt := f,
              sales_index_txt :=
                (if dict_in v (load_index (sales_index_txt s))
                 then save_index (dict_del (load_index (sales_index_txt s)) v)
                 else sales_index_txt s),
              cars_txt := f'\<rparr>"
    using assms scan st
    by (auto simp: revert_sale_def Let_def split: if_splits sum.splits option.splits)
  then show ?thesis using line live by blast
qed

section \<open>Facts about \<open>update_vin\<close>\<close>

lemma keys_sorted_index: "map fst (sorted_index d) = sort (map fst d)"
  by (simp add: sorted_index_def comp_def)

lemma dict_get_sorted_index: "dict_get (sorted_index d) k = dict_get d k"
proof (cases "k \<in> set (map fst d)")
  case True
  then obtain v where v: "map_of d k = Some v"
    by (metis map_of_eq_None_iff not_Some_eq set_map)
  have "map_of (map (\<lambda>key. (key, the (map_of d key))) (sort (map fst d))) k
      = Some (the (map_of d k))"
    using True by (simp add: map_of_map_restrict)
  then show ?thesis using v by (simp add: sorted_index_def dict_get_def)
next
  case False
  then have "map_of d k = None"
    by (simp add: map_of_eq_None_iff)
  moreover have "map_of (map (\<lambda>key. (key, the (map_of d key))) (sort (map fst d))) k = None"
    using False by (simp add: map_of_map_restrict)
  ultimately show ?thesis by (simp add: sorted_index_def dict_get_def)
qed

lemma keys_dict_del: "map fst (dict_del d k) = filter (\<lambda>x. x \<noteq> k) (map fst d)"
  by (induction d) (auto simp: dict_del_def)

lemma keys_dict_set_absent: "\<not> dict_in k d \<Longrightarrow> map fst (dict_set d k v) = map fst d @ [k]"
  by (induction d) (auto simp: dict_in_def)

lemma distinct_renamed:
  assumes "distinct (map fst d)" "\<not> dict_in new d"
  shows "distinct (map fst (dict_set (dict_del d old) new n))"
proof -
  have "\<not> dict_in new (dict_del d old)"
    using assms(2) by (auto simp: dict_in_def dict_del_def)
  then have "map fst (dict_set (dict_del d old) new n) = filter (\<lambda>x. x \<noteq> old) (map fst d) @ [new]"
    by (simp add: keys_dict_set_absent keys_dict_del)
  then show ?thesis
    using assms by (auto simp: dict_in_def)
qed

lemma split_join: "concat (map ((#) d) (str_split d s)) = d # s"
proof (induction s)
  case Nil
  show ?case by simp
next
  case (Cons c cs)
  show ?case
  proof (cases "c = d")
    case True
    then show ?thesis using Cons.IH by simp
  next
    case False
    obtain p ps where ps: "str_split d cs = p # ps"
      by (cases "str_split d cs") (use Cons.IH in auto)
    then show ?thesis using Cons.IH False by simp
  qed
qed

lemma split_five:
  assumes "str_split d line = [p0, p1, p2, p3, p4]"
  shows "line = p0 @ [d] @ p1 @ [d] @ p2 @ [d] @ p3 @ [d] @ p4"
  using split_join [of d line] by (simp add: assms)

lemma assoc_by_keys:
  assumes "distinct (map fst xs)"
  shows "xs = map (\<lambda>k. (k, the (dict_get xs k))) (map fst xs)"
proof -
  have "map (\<lambda>p. (fst p, the (map_of xs (fst p)))) xs = map (\<lambda>p. p) xs"
  proof (rule map_cong [OF refl])
    fix p assume "p \<in> set xs"
    then have mem: "(fst p, snd p) \<in> set xs" by simp
    have "map_of xs (fst p) = Some (snd p)"
      using assms mem by (rule map_of_is_SomeI)
    then show "(fst p, the (map_of xs (fst p))) = p" by simp
  qed
  then show ?thesis by (simp add: dict_get_def comp_def)
qed

lemma keys_renamed:
  assumes "\<not> dict_in new d"
  shows "map fst (dict_set (dict_del d old) new n) = filter (\<lambda>k. k \<noteq> old) (map fst d) @ [new]"
proof -
  have "\<not> dict_in new (dict_del d old)"
    using assms by (auto simp: dict_in_def dict_del_def)
  then show ?thesis
    by (simp add: keys_dict_set_absent keys_dict_del)
qed

lemma update_vin_success:
  assumes "\<not> dict_in new (load_index (cars_index_txt s))"
    and "dict_get (load_index (cars_index_txt s)) old = Some n"
    and "read_fixed_length_line (cars_txt s) n = Inr line"
    and "length (str_split (CHR ''|'') line) = 5"
    and "Car_of_parts L (str_split (CHR ''|'') line) = Inr car"
    and "fits (car_data L (car\<lparr>vin := new\<rparr>))"
  shows "update_vin L s old new =
    (Inr (car\<lparr>vin := new\<rparr>),
     s\<lparr>cars_txt := Some (write_at (n * LINE_TOTAL_LENGTH) (block (car_data L (car\<lparr>vin := new\<rparr>)))
                          (case cars_txt s of None \<Rightarrow> [] | Some c \<Rightarrow> c)),
       cars_index_txt := Some (sorted_index
          (dict_set (dict_del (load_index (cars_index_txt s)) old) new n))\<rparr>)"
  using assms write_fits [OF assms(6), of "cars_txt s" n]
  by (simp add: update_vin_def Let_def save_index_def fits_def not_less [symmetric])

section \<open>Facts about the invariant\<close>

lemma index_ok_get:
  "index_ok ix f \<Longrightarrow> dict_get (load_index ix) k = Some n \<Longrightarrow> n < get_file_line_count f"
  by (auto simp: index_ok_def list_all_iff dest!: dict_get_in_set)

lemma index_ok_mono:
  "index_ok ix f \<Longrightarrow> get_file_line_count f \<le> get_file_line_count f' \<Longrightarrow> index_ok ix f'"
  by (auto simp: index_ok_def list_all_iff)

lemma in_dict_set: "(k', v') \<in> set (dict_set d k v) \<Longrightarrow> v' = v \<or> (k', v') \<in> set d"
  by (induction d) (auto split: if_splits)

lemma index_ok_set:
  assumes "index_ok ix f" "n < get_file_line_count f"
  shows "index_ok (save_index (dict_set (load_index ix) k n)) f"
  using assms
  by (auto simp: index_ok_def list_all_iff save_index_def load_index_def dest!: in_dict_set)

lemma index_ok_del:
  "index_ok ix f \<Longrightarrow> index_ok (save_index (dict_del (load_index ix) k)) f"
  by (auto simp: index_ok_def list_all_iff save_index_def load_index_def dict_del_def)

lemma in_sorted_index: "(k, v) \<in> set (sorted_index d) \<Longrightarrow> (k, v) \<in> set d"
proof -
  assume "(k, v) \<in> set (sorted_index d)"
  then have k: "k \<in> set (map fst d)" and v: "v = the (map_of d k)"
    by (auto simp: sorted_index_def dict_get_def)
  then obtain w where "map_of d k = Some w"
    by (metis map_of_eq_None_iff not_Some_eq set_map)
  then show "(k, v) \<in> set d"
    using v by (simp add: map_of_SomeD)
qed

lemma index_ok_sorted:
  assumes "index_ok (Some d) f"
  shows "index_ok (save_index (sorted_index d)) f"
  using assms
  by (auto simp: index_ok_def list_all_iff save_index_def load_index_def dest!: in_sorted_index)

lemma index_ok_Some_load: "index_ok (Some (load_index ix)) f = index_ok ix f"
  by (simp add: index_ok_def load_index_def)

lemma add_model_result:
  "(snd (add_model L s m) = s \<and> (\<forall>m'. fst (add_model L s m) \<noteq> Inr m'))
   \<or> (\<exists>f. fst (add_model L s m) = Inr m
         \<and> get_file_line_count f = Suc (get_file_line_count (models_txt s))
         \<and> snd (add_model L s m)
             = s\<lparr>models_txt := f,
                 models_index_txt := save_index (dict_set (load_index (models_index_txt s))
                    (Model_index L m) (get_file_line_count (models_txt s)))\<rparr>)"
proof -
  let ?d = "int_str (id' m) @ ''|'' @ name m @ ''|'' @ brand m"
  show ?thesis
  proof (cases "dict_in (Model_index L m) (load_index (models_index_txt s)) \<or> \<not> fits ?d")
    case True
    then show ?thesis
      by (auto simp: add_model_def Let_def fits_def)
  next
    case False
    then have fit: "fits ?d" by simp
    obtain f where "append_fixed_length_line (models_txt s) ?d
        = (Inr (get_file_line_count (models_txt s)), f)"
      "get_file_line_count f = Suc (get_file_line_count (models_txt s))"
      using append_fits [OF fit] by blast
    then show ?thesis
      using False by (auto simp: add_model_def Let_def fits_def)
  qed
qed

lemma add_car_result:
  "(snd (add_car L s car) = s \<and> (\<forall>c'. fst (add_car L s car) \<noteq> Inr c'))
   \<or> (\<exists>f. fst (add_car L s car) = Inr car
         \<and> get_file_line_count f = Suc (get_file_line_count (cars_txt s))
         \<and> snd (add_car L s car)
             = s\<lparr>cars_txt := f,
                 cars_index_txt := save_index (dict_set (load_index (cars_index_txt s))
                    (Car_index L car) (get_file_line_count (cars_txt s)))\<rparr>)"
proof (cases "dict_in (Car_index L car) (load_index (cars_index_txt s))
      \<or> \<not> dict_in (int_str (model car)) (load_index (models_index_txt s))
      \<or> \<not> fits (car_data L car)")
  case True
  then show ?thesis
    by (auto simp: add_car_def Let_def fits_def)
next
  case False
  then have fit: "fits (car_data L car)" by simp
  obtain f where "append_fixed_length_line (cars_txt s) (car_data L car)
      = (Inr (get_file_line_count (cars_txt s)), f)"
    "get_file_line_count f = Suc (get_file_line_count (cars_txt s))"
    using append_fits [OF fit] by blast
  then show ?thesis
    using False by (auto simp: add_car_def Let_def fits_def)
qed

lemma sell_car_result:
  "snd (sell_car L s sale) = s
   \<or> (fits (sale_data L sale)
      \<and> (snd (sell_car L s sale) = after_sale_append L s sale
         \<or> (\<exists>n f' d. dict_get (load_index (cars_index_txt s)) (car_vin sale) = Some n
               \<and> write_fixed_length_line (cars_txt s) n d = Inr f'
               \<and> snd (sell_car L s sale) = (after_sale_append L s sale)\<lparr>cars_txt := f'\<rparr>)))"
proof (cases "fits (sale_data L sale)")
  case False
  then show ?thesis by (simp add: sell_car_def fits_def)
next
  case True
  show ?thesis
    unfolding sell_car_unfold [OF True] Let_def
    using True
    by (auto simp: andthen_def split: option.splits sum.splits)
qed

lemma update_vin_result:
  "snd (update_vin L s old new) = s
   \<or> (\<exists>n f' d. dict_get (load_index (cars_index_txt s)) old = Some n
         \<and> write_fixed_length_line (cars_txt s) n d = Inr f'
         \<and> snd (update_vin L s old new)
             = s\<lparr>cars_txt := f',
                 cars_index_txt := save_index (sorted_index
                   (dict_set (dict_del (load_index (cars_index_txt s)) old) new n))\<rparr>)"
  by (auto simp: update_vin_def Let_def split: option.splits sum.splits)

lemma revert_sale_frame:
  "models_txt (snd (revert_sale L s number)) = models_txt s"
  "models_index_txt (snd (revert_sale L s number)) = models_index_txt s"
  "cars_index_txt (snd (revert_sale L s number)) = cars_index_txt s"
  by (auto simp: revert_sale_def Let_def split: if_splits sum.splits option.splits)

lemma revert_sale_sales_index:
  "sales_index_txt (snd (revert_sale L s number)) = sales_index_txt s
   \<or> (\<exists>v. sales_index_txt (snd (revert_sale L s number))
            = save_index (dict_del (load_index (sales_index_txt s)) v))"
  by (auto simp: revert_sale_def Let_def split: if_splits sum.splits option.splits)

lemma revert_sale_cars:
  "cars_txt (snd (revert_sale L s number)) = cars_txt s
   \<or> (\<exists>n v d. dict_get (load_index (cars_index_txt s)) v = Some n
         \<and> write_fixed_length_line (cars_txt s) n d = Inr (cars_txt (snd (revert_sale L s number))))"
  by (auto simp: revert_sale_def Let_def split: if_splits sum.splits option.splits)

lemma revert_sale_sales:
  "sales_txt (snd (revert_sale L s number)) = sales_txt s
   \<or> (\<exists>line d. line < get_file_line_count (sales_txt s)
         \<and> write_fixed_length_line (sales_txt s) line d
             = Inr (sales_txt (snd (revert_sale L s number))))"
proof (cases "sales_txt (snd (revert_sale L s number)) = sales_txt s")
  case True
  then show ?thesis by simp
next
  case False
  let ?init = "\<lparr>sale_found = False, sale_line_number = None, sale_vin = None,
                 sale_cost = None, sale_date = None\<rparr> :: ('a, 'b) found_sale"
  let ?ls = "[0..<get_file_line_count (sales_txt s)]"
  obtain st where scan: "revert_scan L (sales_txt s) number ?ls ?init = Inr st"
    using False by (auto simp: revert_sale_def Let_def split: if_splits sum.splits)
  obtain line where st: "sale_line_number st = Some line"
    using False scan
    by (auto simp: revert_sale_def Let_def split: if_splits option.splits)
  have line: "line < get_file_line_count (sales_txt s)"
    using revert_scan_line [OF scan st] by simp
  have "\<exists>d. write_fixed_length_line (sales_txt s) line d
      = Inr (sales_txt (snd (revert_sale L s number)))"
    using False scan st
    by (auto simp: revert_sale_def Let_def split: if_splits sum.splits option.splits)
  then show ?thesis using line by auto
qed

lemma add_model_ok:
  assumes "store_ok s"
  shows "store_ok (snd (add_model L s m))"
  using add_model_result [of L s m]
proof (elim disjE exE conjE)
  assume "snd (add_model L s m) = s"
  then show ?thesis using assms by simp
next
  fix f
  let ?n = "get_file_line_count (models_txt s)"
  assume f: "get_file_line_count f = Suc ?n"
    and s': "snd (add_model L s m)
      = s\<lparr>models_txt := f,
          models_index_txt := save_index (dict_set (load_index (models_index_txt s))
             (Model_index L m) ?n)\<rparr>"
  have "index_ok (models_index_txt s) f"
    using assms f by (auto simp: store_ok_def intro: index_ok_mono)
  then have "index_ok (save_index (dict_set (load_index (models_index_txt s)) (Model_index L m) ?n)) f"
    using f by (simp add: index_ok_set)
  then show ?thesis
    using assms by (simp add: s' store_ok_def)
qed

lemma add_car_ok:
  assumes "store_ok s"
  shows "store_ok (snd (add_car L s car))"
  using add_car_result [of L s car]
proof (elim disjE exE conjE)
  assume "snd (add_car L s car) = s"
  then show ?thesis using assms by simp
next
  fix f
  let ?n = "get_file_line_count (cars_txt s)"
  assume f: "get_file_line_count f = Suc ?n"
    and s': "snd (add_car L s car)
      = s\<lparr>cars_txt := f,
          cars_index_txt := save_index (dict_set (load_index (cars_index_txt s))
             (Car_index L car) ?n)\<rparr>"
  have "index_ok (cars_index_txt s) f"
    using assms f by (auto simp: store_ok_def intro: index_ok_mono)
  then have "index_ok (save_index (dict_set (load_index (cars_index_txt s)) (Car_index L car) ?n)) f"
    using f by (simp add: index_ok_set)
  then show ?thesis
    using assms by (simp add: s' store_ok_def)
qed

lemma after_sale_append_ok:
  assumes "store_ok s" "fits (sale_data L sale)"
  shows "store_ok (after_sale_append L s sale)"
proof -
  let ?n = "get_file_line_count (sales_txt s)"
  obtain f where a: "append_fixed_length_line (sales_txt s) (sale_data L sale) = (Inr ?n, f)"
    and f: "get_file_line_count f = Suc ?n"
    using append_fits [OF assms(2)] by blast
  have "index_ok (sales_index_txt s) f"
    using assms(1) f by (auto simp: store_ok_def intro: index_ok_mono)
  then have "index_ok (save_index (dict_set (load_index (sales_index_txt s)) (Sale_index L sale) ?n)) f"
    using f by (simp add: index_ok_set)
  then show ?thesis
    using assms(1) a by (simp add: after_sale_append_def store_ok_def)
qed

lemma write_indexed_ok:
  assumes "index_ok ix f" "dict_get (load_index ix) k = Some n"
    "write_fixed_length_line f n d = Inr f'"
  shows "get_file_line_count f' = get_file_line_count f" "index_ok ix f'"
proof -
  have "n < get_file_line_count f"
    using assms(1,2) by (rule index_ok_get)
  then show "get_file_line_count f' = get_file_line_count f"
    using assms(3) by (simp add: line_count_write_inside)
  then show "index_ok ix f'"
    using assms(1) by (simp add: index_ok_def)
qed

lemma sell_car_ok:
  assumes "store_ok s"
  shows "store_ok (snd (sell_car L s sale))"
    and "get_file_line_count (cars_txt (snd (sell_car L s sale))) = get_file_line_count (cars_txt s)"
proof -
  have c: "cars_txt (after_sale_append L s sale) = cars_txt s"
    "cars_index_txt (after_sale_append L s sale) = cars_index_txt s"
    by (simp_all add: after_sale_append_def)
  have "store_ok (snd (sell_car L s sale))
      \<and> get_file_line_count (cars_txt (snd (sell_car L s sale))) = get_file_line_count (cars_txt s)"
    using sell_car_result [of L s sale]
  proof (elim disjE exE conjE)
    assume "snd (sell_car L s sale) = s"
    then show ?thesis using assms by simp
  next
    assume "fits (sale_data L sale)" "snd (sell_car L s sale) = after_sale_append L s sale"
    then show ?thesis using assms by (simp add: after_sale_append_ok c)
  next
    fix n f' d
    assume fit: "fits (sale_data L sale)"
      and n: "dict_get (load_index (cars_index_txt s)) (car_vin sale) = Some n"
      and w: "write_fixed_length_line (cars_txt s) n d = Inr f'"
      and s': "snd (sell_car L s sale) = (after_sale_append L s sale)\<lparr>cars_txt := f'\<rparr>"
    have ok: "index_ok (cars_index_txt s) (cars_txt s)"
      using assms by (simp add: store_ok_def)
    have "store_ok (after_sale_append L s sale)"
      using assms fit by (rule after_sale_append_ok)
    then show ?thesis
      using write_indexed_ok [OF ok n w] by (simp add: s' store_ok_def c)
  qed
  then show "store_ok (snd (sell_car L s sale))"
    and "get_file_line_count (cars_txt (snd (sell_car L s sale))) = get_file_line_count (cars_txt s)"
    by simp_all
qed

lemma update_vin_ok:
  assumes "store_ok s"
  shows "store_ok (snd (update_vin L s old new))"
    and "get_file_line_count (cars_txt (snd (update_vin L s old new)))
          = get_file_line_count (cars_txt s)"
proof -
  have "store_ok (snd (update_vin L s old new))
      \<and> get_file_line_count (cars_txt (snd (update_vin L s old new)))
          = get_file_line_count (cars_txt s)"
    using update_vin_result [of L s old new]
  proof (elim disjE exE conjE)
    assume "snd (update_vin L s old new) = s"
    then show ?thesis using assms by simp
  next
    fix n f' d
    let ?ix = "load_index (cars_index_txt s)"
    assume n: "dict_get ?ix old = Some n"
      and w: "write_fixed_length_line (cars_txt s) n d = Inr f'"
      and s': "snd (update_vin L s old new)
         = s\<lparr>cars_txt := f',
             cars_index_txt := save_index (sorted_index (dict_set (dict_del ?ix old) new n))\<rparr>"
    have ok: "index_ok (cars_index_txt s) (cars_txt s)"
      using assms by (simp add: store_ok_def)
    note w' = write_indexed_ok [OF ok n w]
    have lt: "n < get_file_line_count f'"
      using index_ok_get [OF ok n] w'(1) by simp
    have "index_ok (save_index (dict_del ?ix old)) f'"
      using w'(2) by (rule index_ok_del)
    then have "index_ok (save_index (dict_set (load_index (save_index (dict_del ?ix old))) new n)) f'"
      using lt by (rule index_ok_set)
    then have "index_ok (Some (dict_set (dict_del ?ix old) new n)) f'"
      by (simp add: save_index_def load_index_def)
    then have "index_ok (save_index (sorted_index (dict_set (dict_del ?ix old) new n))) f'"
      by (rule index_ok_sorted)
    then show ?thesis
      using assms w'(1) by (simp add: s' store_ok_def)
  qed
  then show "store_ok (snd (update_vin L s old new))"
    and "get_file_line_count (cars_txt (snd (update_vin L s old new)))
          = get_file_line_count (cars_txt s)"
    by simp_all
qed

lemma revert_sale_ok:
  assumes "store_ok s"
  shows "store_ok (snd (revert_sale L s number))"
    and "get_file_line_count (cars_txt (snd (revert_sale L s number)))
          = get_file_line_count (cars_txt s)"
    and "get_file_line_count (sales_txt (snd (revert_sale L s number)))
          = get_file_line_count (sales_txt s)"
proof -
  let ?s' = "snd (revert_sale L s number)"
  have okc: "index_ok (cars_index_txt s) (cars_txt s)"
    and oks: "index_ok (sales_index_txt s) (sales_txt s)"
    and okm: "index_ok (models_index_txt s) (models_txt s)"
    using assms by (simp_all add: store_ok_def)
  show cars: "get_file_line_count (cars_txt ?s') = get_file_line_count (cars_txt s)"
    using revert_sale_cars [of L s number] write_indexed_ok(1) [OF okc] by auto
  show sales: "get_file_line_count (sales_txt ?s') = get_file_line_count (sales_txt s)"
    using revert_sale_sales [of L s number] line_count_write_inside by auto
  have "index_ok (sales_index_txt ?s') (sales_txt s)"
    using revert_sale_sales_index [of L s number] oks index_ok_del [OF oks] by auto
  then have "index_ok (sales_index_txt ?s') (sales_txt ?s')"
    using sales by (simp add: index_ok_def)
  moreover have "index_ok (cars_index_txt ?s') (cars_txt ?s')"
    using okc cars by (simp add: index_ok_def revert_sale_frame)
  moreover have "index_ok (models_index_txt ?s') (models_txt ?s')"
    using okm by (simp add: revert_sale_frame)
  ultimately show "store_ok ?s'"
    by (simp add: store_ok_def)
qed

section \<open>Facts about \<open>get_cars\<close>\<close>

text \<open>
  Where no record raises an exception that escapes the \<open>except\<close> clause, the scan
  returns the cars of the requested status in the order of their records; the first
  record that does raise one ends the scan with that exception.
\<close>

lemma get_cars_scan_skips:
  "list_all (\<lambda>n. \<not> escapes L f n) ns \<Longrightarrow>
     get_cars_scan L f st ns acc
       = Inr (acc @ filter (\<lambda>car. status car = st) (List.map_filter (car_at L f) ns))"
proof (induction ns arbitrary: acc)
  case Nil
  then show ?case by (simp add: List.map_filter_simps)
next
  case (Cons n ns)
  then have ns: "list_all (\<lambda>n. \<not> escapes L f n) ns" and n: "\<not> escapes L f n"
    by simp_all
  show ?case
    using n Cons.IH [OF ns]
    by (auto simp: escapes_def car_at_def List.map_filter_simps Let_def
        split: sum.splits if_splits)
qed

lemma get_cars_scan_escapes:
  "list_all (\<lambda>n. \<not> escapes L f n) ns \<Longrightarrow> escapes L f n \<Longrightarrow>
     \<exists>e. get_cars_scan L f st (ns @ n # rest) acc = Inl e \<and> \<not> handled e"
proof (induction ns arbitrary: acc)
  case Nil
  then show ?case
    by (auto simp: escapes_def Let_def split: sum.splits if_splits)
next
  case (Cons m ms)
  then have ms: "list_all (\<lambda>n. \<not> escapes L f n) ms" and m: "\<not> escapes L f m"
    by simp_all
  show ?case
    using m Cons.IH [OF ms Cons.prems(2)]
    by (auto simp: escapes_def Let_def split: sum.splits if_splits)
qed

lemma get_cars_reads_all:
  assumes "list_all (\<lambda>n. \<not> escapes L (cars_txt s) n) [0..<get_file_line_count (cars_txt s)]"
  shows "get_cars L s st
    = Inr (filter (\<lambda>car. status car = st)
        (List.map_filter (car_at L (cars_txt s)) [0..<get_file_line_count (cars_txt s)]))"
proof (cases "cars_txt s")
  case None
  then show ?thesis
    by (simp add: get_cars_def get_file_line_count_def List.map_filter_simps)
next
  case (Some c)
  then show ?thesis
    using get_cars_scan_skips [OF assms, of st "[]"] by (simp add: get_cars_def)
qed

lemma get_cars_raises:
  assumes "n < get_file_line_count (cars_txt s)" "escapes L (cars_txt s) n"
  shows "\<exists>e. get_cars L s st = Inl e \<and> \<not> handled e"
proof -
  let ?f = "cars_txt s" and ?k = "get_file_line_count (cars_txt s)"
  define m where "m = (LEAST i. escapes L ?f i)"
  have m: "escapes L ?f m" and least: "\<And>i. i < m \<Longrightarrow> \<not> escapes L ?f i"
    using assms(2) by (auto simp: m_def intro: LeastI dest: not_less_Least)
  have "m \<le> n" using assms(2) by (simp add: m_def Least_le)
  then have lt: "m < ?k" using assms(1) by simp
  then have split: "[0..<?k] = [0..<m] @ m # [Suc m..<?k]"
    by (metis upt_conv_Cons upt_add_eq_append le0 le_add_diff_inverse less_imp_le_nat
        add.left_neutral)
  have before: "list_all (\<lambda>i. \<not> escapes L ?f i) [0..<m]"
    using least by (simp add: list_all_iff)
  have some: "?f \<noteq> None"
    using lt by (cases "cars_txt s") (auto simp: get_file_line_count_def)
  show ?thesis
    using get_cars_scan_escapes [OF before m, of st "[Suc m..<?k]" "[]"] some
    by (simp add: get_cars_def split)
qed

section \<open>Facts about \<open>top_models_by_sales\<close>\<close>

lemma first_seen_snoc:
  "first_seen (xs @ [x]) = (if x \<in> set xs then first_seen xs else first_seen xs @ [x])"
  by (simp add: first_seen_def)

lemma set_first_seen [simp]: "set (first_seen xs) = set xs"
  by (simp add: first_seen_def)

lemma distinct_first_seen [simp]: "distinct (first_seen xs)"
  by (simp add: first_seen_def)

lemma dict_get_default_tab:
  "dict_get_default (map (\<lambda>k. (k, f k)) ks) m d = (if m \<in> set ks then f m else d)"
  by (induction ks) (auto simp: dict_get_default_def dict_get_def)

lemma dict_set_tab_absent:
  "m \<notin> set ks \<Longrightarrow>
     dict_set (map (\<lambda>k. (k, f k)) ks) m v = map (\<lambda>k. (k, (f(m := v)) k)) (ks @ [m])"
  by (induction ks) auto

lemma dict_set_tab_present:
  "m \<in> set ks \<Longrightarrow> distinct ks \<Longrightarrow>
     dict_set (map (\<lambda>k. (k, f k)) ks) m v = map (\<lambda>k. (k, (f(m := v)) k)) ks"
  by (induction ks) auto

lemma dict_set_tab:
  assumes "\<forall>k \<in> set (first_seen (ys @ [m])). g k = (f(m := v)) k"
  shows "dict_set (map (\<lambda>k. (k, f k)) (first_seen ys)) m v
    = map (\<lambda>k. (k, g k)) (first_seen (ys @ [m]))"
proof (cases "m \<in> set ys")
  case True
  then show ?thesis
    using assms by (simp add: first_seen_snoc dict_set_tab_present)
next
  case False
  then show ?thesis
    using assms by (simp add: first_seen_snoc dict_set_tab_absent)
qed

lemma model_sales_snoc:
  "model_sales (seen @ [(m, p)]) k = model_sales seen k @ (if k = m then [p] else [])"
  by (simp add: model_sales_def)

lemma model_sales_absent: "m \<notin> fst ` set seen \<Longrightarrow> model_sales seen m = []"
  by (auto simp: model_sales_def filter_empty_conv)

lemma model_sales_present: "m \<in> fst ` set seen \<Longrightarrow> model_sales seen m \<noteq> []"
  by (auto simp: model_sales_def filter_empty_conv)

lemma count_table_step:
  "dict_set (map (\<lambda>k. (k, length (model_sales seen k))) (first_seen (map fst seen))) m
      (dict_get_default (map (\<lambda>k. (k, length (model_sales seen k))) (first_seen (map fst seen)))
         m 0 + 1)
   = map (\<lambda>k. (k, length (model_sales (seen @ [(m, p)]) k)))
       (first_seen (map fst (seen @ [(m, p)])))"
proof -
  have d: "dict_get_default (map (\<lambda>k. (k, length (model_sales seen k)))
              (first_seen (map fst seen))) m 0 = length (model_sales seen m)"
    by (simp add: dict_get_default_tab model_sales_absent)
  show ?thesis
    using dict_set_tab [of "map fst seen" m "\<lambda>k. length (model_sales (seen @ [(m, p)]) k)"
        "\<lambda>k. length (model_sales seen k)" "length (model_sales seen m) + 1"]
    by (simp add: d model_sales_snoc)
qed

lemma total_table_step:
  "dict_set (map (\<lambda>k. (k, foldl add zero (model_sales seen k))) (first_seen (map fst seen))) m
      (add (dict_get_default
              (map (\<lambda>k. (k, foldl add zero (model_sales seen k))) (first_seen (map fst seen)))
              m zero) p)
   = map (\<lambda>k. (k, foldl add zero (model_sales (seen @ [(m, p)]) k)))
       (first_seen (map fst (seen @ [(m, p)])))"
proof -
  have d: "dict_get_default (map (\<lambda>k. (k, foldl add zero (model_sales seen k)))
              (first_seen (map fst seen))) m zero = foldl add zero (model_sales seen m)"
    by (simp add: dict_get_default_tab model_sales_absent)
  show ?thesis
    using dict_set_tab [of "map fst seen" m "\<lambda>k. foldl add zero (model_sales (seen @ [(m, p)]) k)"
        "\<lambda>k. foldl add zero (model_sales seen k)" "add (foldl add zero (model_sales seen m)) p"]
    by (simp add: d model_sales_snoc)
qed

lemma stats_scan_step:
  "sale_contribution L s n = Inl e \<Longrightarrow>
     stats_scan L (sales_txt s) (cars_txt s) (load_index (cars_index_txt s)) (n # rest) acc = Inl e"
  "sale_contribution L s n = Inr None \<Longrightarrow>
     stats_scan L (sales_txt s) (cars_txt s) (load_index (cars_index_txt s)) (n # rest) acc
       = stats_scan L (sales_txt s) (cars_txt s) (load_index (cars_index_txt s)) rest acc"
  "sale_contribution L s n = Inr (Some (m, p)) \<Longrightarrow> Decimal L ''0'' = Some zero \<Longrightarrow>
     stats_scan L (sales_txt s) (cars_txt s) (load_index (cars_index_txt s)) (n # rest) acc
       = stats_scan L (sales_txt s) (cars_txt s) (load_index (cars_index_txt s)) rest
           (dict_set (fst acc) m (dict_get_default (fst acc) m 0 + 1),
            dict_set (snd acc) m (Decimal_add L (dict_get_default (snd acc) m zero) p))"
  by (auto simp: sale_contribution_def Let_def split: sum.splits option.splits if_splits)

lemma counted_sales_Cons:
  "counted_sales L s (n # ns) =
     (case sale_contribution L s n of
        Inr (Some c) \<Rightarrow> c # counted_sales L s ns
      | _ \<Rightarrow> counted_sales L s ns)"
  by (simp add: counted_sales_def List.map_filter_simps split: sum.splits option.splits)

lemma stats_scan_counted:
  assumes "Decimal L ''0'' = Some zero"
    and "\<forall>n \<in> set ns. \<forall>e. sale_contribution L s n \<noteq> Inl e"
  shows "stats_scan L (sales_txt s) (cars_txt s) (load_index (cars_index_txt s)) ns
           (map (\<lambda>k. (k, length (model_sales seen k))) (first_seen (map fst seen)),
            map (\<lambda>k. (k, foldl (Decimal_add L) zero (model_sales seen k)))
              (first_seen (map fst seen)))
         = Inr (map (\<lambda>k. (k, length (model_sales (seen @ counted_sales L s ns) k)))
                  (first_seen (map fst (seen @ counted_sales L s ns))),
                map (\<lambda>k. (k, foldl (Decimal_add L) zero
                                 (model_sales (seen @ counted_sales L s ns) k)))
                  (first_seen (map fst (seen @ counted_sales L s ns))))"
  using assms(2)
proof (induction ns arbitrary: seen)
  case Nil
  show ?case by (simp add: counted_sales_def List.map_filter_simps)
next
  case (Cons n ns)
  then have rest: "\<forall>n \<in> set ns. \<forall>e. sale_contribution L s n \<noteq> Inl e"
    and here: "\<forall>e. sale_contribution L s n \<noteq> Inl e"
    by simp_all
  consider (skip) "sale_contribution L s n = Inr None"
    | (add) m p where "sale_contribution L s n = Inr (Some (m, p))"
  proof (cases "sale_contribution L s n")
    case (Inl e)
    then show ?thesis using here by simp
  next
    case (Inr b)
    then show ?thesis using that by (cases b) auto
  qed
  then show ?case
  proof cases
    case skip
    then show ?thesis
      using Cons.IH [OF rest, of seen]
      by (simp add: stats_scan_step(2) counted_sales_Cons del: stats_scan.simps)
  next
    case add
    have "stats_scan L (sales_txt s) (cars_txt s) (load_index (cars_index_txt s)) (n # ns)
           (map (\<lambda>k. (k, length (model_sales seen k))) (first_seen (map fst seen)),
            map (\<lambda>k. (k, foldl (Decimal_add L) zero (model_sales seen k)))
              (first_seen (map fst seen)))
        = stats_scan L (sales_txt s) (cars_txt s) (load_index (cars_index_txt s)) ns
           (map (\<lambda>k. (k, length (model_sales (seen @ [(m, p)]) k)))
              (first_seen (map fst (seen @ [(m, p)]))),
            map (\<lambda>k. (k, foldl (Decimal_add L) zero (model_sales (seen @ [(m, p)]) k)))
              (first_seen (map fst (seen @ [(m, p)]))))"
      by (simp only: stats_scan_step(3) [OF add assms(1)] fst_conv snd_conv
          count_table_step [of seen m p] total_table_step [of "Decimal_add L" zero seen m p])
    then show ?thesis
      using Cons.IH [OF rest, of "seen @ [(m, p)]"]
      by (simp add: counted_sales_Cons add del: stats_scan.simps)
  qed
qed

lemma models_for_sorting_table:
  assumes "Decimal L ''0'' = Some zero"
  shows "models_for_sorting L tot cnt
    = Inr (map (\<lambda>kc. (fst kc, snd kc,
                        if snd kc > 0
                        then Decimal_truediv L (dict_get_default tot (fst kc) zero) (snd kc)
                        else zero)) cnt)"
  by (induction cnt) (auto simp: assms andthen_def Let_def)

lemma resolve_models_stats:
  assumes "models_txt s \<noteq> None"
  shows "resolve_models (models_txt s) (load_index (models_index_txt s)) ts
    = Inr (List.map_filter (model_stats s) ts)"
proof (induction ts)
  case Nil
  show ?case by (simp add: List.map_filter_simps)
next
  case (Cons t ts)
  obtain m c a where t: "t = (m, c, a)" by (cases t)
  have rd: "\<And>k e. read_fixed_length_line (models_txt s) k \<noteq> Inl e"
    using assms by (auto simp: read_fixed_length_line_def Let_def split: option.splits)
  show ?case
    using Cons.IH rd
    by (auto simp: t model_stats_def List.map_filter_simps andthen_def Let_def
        split: option.splits sum.splits)
qed

lemma sort_reverse_ranked:
  "set (sort_reverse L xs) = set xs"
  "length (sort_reverse L xs) = length xs"
  "distinct xs \<Longrightarrow> distinct (sort_reverse L xs)"
  "sorted_wrt (\<lambda>x y. (fst (snd x), Decimal_value L (snd (snd x)))
                      \<ge> (fst (snd y), Decimal_value L (snd (snd y)))) (sort_reverse L xs)"
proof -
  let ?key = "\<lambda>x. (fst (snd x), Decimal_value L (snd (snd x)))"
  show "set (sort_reverse L xs) = set xs" "length (sort_reverse L xs) = length xs"
    "distinct xs \<Longrightarrow> distinct (sort_reverse L xs)"
    by (simp_all add: sort_reverse_def)
  have "sorted (map ?key (sort_key ?key (rev xs)))"
    by (rule sorted_sort_key)
  then have "sorted_wrt (\<lambda>x y. ?key x \<le> ?key y) (sort_key ?key (rev xs))"
    by (simp add: sorted_map)
  then have "sorted_wrt (\<lambda>x y. ?key y \<le> ?key x) (rev (sort_key ?key (rev xs)))"
    by (simp add: sorted_wrt_rev)
  then show "sorted_wrt (\<lambda>x y. ?key x \<ge> ?key y) (sort_reverse L xs)"
    by (simp add: sort_reverse_def)
qed

lemma length_map_filter: "length (List.map_filter f xs) \<le> length xs"
  by (simp add: List.map_filter_def)

lemma triples_of_tables:
  assumes "cnt = map (\<lambda>k. (k, length (model_sales live k))) ids"
    and "tot = map (\<lambda>k. (k, foldl add zero (model_sales live k))) ids"
    and "set ids = fst ` set live"
  shows "map (\<lambda>kc. (fst kc, snd kc,
                     if snd kc > 0 then truediv (dict_get_default tot (fst kc) zero) (snd kc)
                     else zero)) cnt
    = map (\<lambda>m. (m, length (model_sales live m),
                  truediv (foldl add zero (model_sales live m)) (length (model_sales live m))))
        ids"
proof -
  have "\<And>m. m \<in> set ids \<Longrightarrow> 0 < length (model_sales live m)"
    using assms(3) model_sales_present [of _ live] by simp
  moreover have "\<And>m. m \<in> set ids \<Longrightarrow>
      dict_get_default tot m zero = foldl add zero (model_sales live m)"
    by (simp add: assms(2) dict_get_default_tab)
  ultimately show ?thesis
    by (simp add: assms(1) comp_def)
qed

lemma two_ranked:
  fixes t1 t2 :: "int \<times> nat \<times> 'd"
  assumes "set ranked = {t1, t2}" "length ranked = 2" "distinct ranked"
    and "sorted_wrt (\<lambda>x y. key x \<ge> key y) ranked"
    and "\<not> key t1 \<ge> key t2"
  shows "ranked = [t2, t1]"
proof -
  obtain x y where r: "ranked = [x, y]"
    using assms(2) by (auto simp: length_Suc_conv numeral_2_eq_2)
  have "key x \<ge> key y" "x \<noteq> y" "{x, y} = {t1, t2}"
    using assms(1,3,4) by (simp_all add: r)
  then have "x = t2 \<and> y = t1"
    using assms(5) by (auto simp: doubleton_eq_iff)
  then show ?thesis by (simp add: r)
qed

section \<open>Running the scenario\<close>

lemmas ev = nat_str.simps digit_char_def digit_value_def int_str_def sample_lib_def
  sample_Decimal_str_def sample_Decimal_def sample_fromisoformat_def digits_value_def
  plain_digits_def isdigit_def days_in_month_def

lemmas ev_parse = Car_of_parts_def andthen_def item_def
  py_int_def int_strip_def int_isspace_def int_whitespace_def strip_def lstrip_def rstrip_def isspace_def whitespace_def py_Decimal_def
  py_fromisoformat_def py_CarStatus_def

lemma fits_short: "length d \<le> 500 \<Longrightarrow> fits d"
  by (simp add: fits_def LINE_DATA_LENGTH_def)

lemma car_1_data: "car_data sample_lib car_1 = car_1_record"
  by (simp add: car_data_def car_1_def car_1_record_def available_def ev)

lemma car_1_sold_data: "car_data sample_lib (car_1\<lparr>status := sold\<rparr>) = car_1_sold_record"
  by (simp add: car_data_def car_1_def car_1_sold_record_def sold_def ev)

lemma sale_1_data: "sale_data sample_lib sale_1 = sale_1_record"
  by (simp add: sale_data_def sale_1_def sale_1_record_def ev)

lemma car_1_parts: "Car_of_parts sample_lib (str_split (CHR ''|'') car_1_record) = Inr car_1"
  by (simp add: car_1_record_def car_1_def available_def ev ev_parse)

lemma car_1_sold_parts:
  "Car_of_parts sample_lib (str_split (CHR ''|'') car_1_sold_record) = Inr (car_1\<lparr>status := sold\<rparr>)"
  by (simp add: car_1_sold_record_def car_1_def sold_def ev ev_parse)

lemma scenario_fits:
  "fits sale_1_record" "fits car_1_record" "fits car_1_sold_record" "fits model_x_record"
  "\<not> 500 < length sale_1_record" "\<not> 500 < length car_1_sold_record"
  "\<not> 500 < length car_1_record" "\<not> 500 < length model_x_record"
  by (simp_all add: fits_short sale_1_record_def car_1_record_def car_1_sold_record_def
      model_x_record_def)

lemma scenario_plain:
  "CR \<notin> set car_1_record" "rstrip car_1_record = car_1_record"
  "CR \<notin> set car_1_sold_record" "rstrip car_1_sold_record = car_1_sold_record"
  "CR \<notin> set sale_1_record" "rstrip sale_1_record = sale_1_record"
  by (simp_all add: car_1_record_def car_1_sold_record_def sale_1_record_def CR_def ev_parse)

text \<open>The three stores are what the operations make of the empty directory.\<close>

lemma scenario_add_model:
  "add_model sample_lib empty_store model_x =
     (Inr model_x,
      empty_store\<lparr>models_txt := Some (records_file [model_x_record]),
                   models_index_txt := Some [(''1'', 0)]\<rparr>)"
proof -
  have d: "''1|Model X|Tesla'' = model_x_record"
    by (simp add: model_x_record_def)
  show ?thesis
    by (simp add: add_model_def empty_store_def model_x_def load_index_def dict_in_def
        save_index_def LINE_DATA_LENGTH_def append_absent scenario_fits ev d)
qed

lemma scenario_add_car:
  "add_car sample_lib
     (empty_store\<lparr>models_txt := Some (records_file [model_x_record]),
                  models_index_txt := Some [(''1'', 0)]\<rparr>) car_1
   = (Inr car_1, store_listed)"
proof -
  have k: "Car_index sample_lib car_1 = ''5YJ3E1EA7KF000001''"
    by (simp add: sample_lib_def car_1_def)
  have m: "int_str (model car_1) = ''1''"
    by (simp add: car_1_def ev)
  show ?thesis
    by (simp add: add_car_def empty_store_def load_index_def dict_in_def car_1_data k m
        scenario_fits save_index_def LINE_DATA_LENGTH_def append_absent store_listed_def)
qed


lemma scenario_add_car_sold:
  "add_car sample_lib store_sold car_2 = (Inr car_2, store_two_cars)"
proof -
  have k: "Car_index sample_lib car_2 = ''5YJ3E1EA7KF000002''"
    by (simp add: sample_lib_def car_2_def)
  have m: "int_str (model car_2) = ''1''"
    by (simp add: car_2_def ev)
  have d: "car_data sample_lib car_2 = car_2_record"
    by (simp add: car_data_def car_2_def car_2_record_def available_def ev)
  have f: "fits car_2_record" "\<not> 500 < length car_2_record"
    by (simp_all add: fits_short car_2_record_def)
  show ?thesis
    by (simp add: add_car_def k m d f store_sold_def load_index_def dict_in_def save_index_def
        LINE_DATA_LENGTH_def append_records_file scenario_fits store_two_cars_def Let_def)
qed

lemma car_2_parts: "Car_of_parts sample_lib (str_split (CHR ''|'') car_2_record) = Inr car_2"
  by (simp add: car_2_record_def car_2_def available_def ev ev_parse)

lemma car_2_sold_data: "car_data sample_lib (car_2\<lparr>status := sold\<rparr>) = car_2_sold_record"
  by (simp add: car_data_def car_2_def car_2_sold_record_def sold_def ev)

lemma sale_dup_data: "sale_data sample_lib sale_dup = sale_dup_record"
  by (simp add: sale_data_def sale_dup_def sale_dup_record_def ev)

lemma two_cars_fits:
  "fits car_2_record" "fits car_2_sold_record" "fits sale_dup_record"
  "\<not> 500 < length car_2_record" "\<not> 500 < length car_2_sold_record"
  "\<not> 500 < length sale_dup_record"
  by (simp_all add: fits_short car_2_record_def car_2_sold_record_def sale_dup_record_def)

lemma two_cars_plain:
  "CR \<notin> set car_2_record" "rstrip car_2_record = car_2_record"
  "CR \<notin> set car_2_sold_record" "rstrip car_2_sold_record = car_2_sold_record"
  "CR \<notin> set sale_dup_record" "rstrip sale_dup_record = sale_dup_record"
  by (simp_all add: car_2_record_def car_2_sold_record_def sale_dup_record_def CR_def ev_parse)

lemma scenario_sell_dup:
  "sell_car sample_lib store_two_cars sale_dup = (Inr (car_2\<lparr>status := sold\<rparr>), store_two_sold)"
proof -
  have k: "Sale_index sample_lib sale_dup = ''S-1''" "car_vin sale_dup = ''5YJ3E1EA7KF000002''"
    by (simp_all add: sample_lib_def sale_dup_def)
  have st: "status car_2 \<noteq> sold"
    by (simp add: car_2_def sold_def available_def)
  show ?thesis
    by (simp add: sell_car_def store_two_cars_def sale_dup_data k scenario_fits two_cars_fits
        load_index_def dict_get_def save_index_def LINE_DATA_LENGTH_def append_records_file
        read_records_file two_cars_plain andthen_def car_2_parts st car_2_sold_data
        write_records_file store_two_sold_def Let_def)
qed

lemma sale_1_parts:
  "str_split (CHR ''|'') sale_1_record
     = [''S-1'', ''5YJ3E1EA7KF000001'', ''41000.00'', ''2024-02-01T00:00:00'']"
  by (simp add: sale_1_record_def)

lemma deleted_sale_1_parts:
  "str_split (CHR ''|'') deleted_sale_1_record
     = [''DELETED_S-1'', ''5YJ3E1EA7KF000001'', ''41000.00'', ''2024-02-01T00:00:00'']"
  by (simp add: deleted_sale_1_record_def)

lemma sale_2_parts:
  "str_split (CHR ''|'') sale_2_record
     = [''S-2'', ''5YJ3E1EA7KF000001'', ''40000.00'', ''2024-03-01T00:00:00'']"
  by (simp add: sale_2_record_def)

lemma sale_2_data: "sale_data sample_lib sale_2 = sale_2_record"
  by (simp add: sale_data_def sale_2_def sale_2_record_def ev)

lemma sample_values:
  "Decimal sample_lib ''41000.00'' = Some (4100000, 2)"
  "Decimal sample_lib ''40000.00'' = Some (4000000, 2)"
  "fromisoformat sample_lib ''2024-02-01T00:00:00'' = Some ''2024-02-01T00:00:00''"
  "fromisoformat sample_lib ''2024-03-01T00:00:00'' = Some ''2024-03-01T00:00:00''"
  "Decimal_str sample_lib (4100000, 2) = ''41000.00''"
  "isoformat sample_lib t = t"
  by (simp_all add: ev)

lemma resold_fits:
  "fits deleted_sale_1_record" "fits sale_2_record"
  "\<not> 500 < length deleted_sale_1_record" "\<not> 500 < length sale_2_record"
  by (simp_all add: fits_short deleted_sale_1_record_def sale_2_record_def)

lemma resold_plain:
  "CR \<notin> set deleted_sale_1_record" "rstrip deleted_sale_1_record = deleted_sale_1_record"
  "CR \<notin> set sale_2_record" "rstrip sale_2_record = sale_2_record"
  "strip sale_1_record \<noteq> []" "strip deleted_sale_1_record \<noteq> []" "strip sale_2_record \<noteq> []"
  by (simp_all add: deleted_sale_1_record_def sale_2_record_def sale_1_record_def CR_def ev_parse)

lemma car_records_arity:
  "length (str_split (CHR ''|'') car_1_record) = 5"
  "length (str_split (CHR ''|'') car_1_sold_record) = 5"
  "length (str_split (CHR ''|'') car_2_record) = 5"
  "length (str_split (CHR ''|'') car_2_sold_record) = 5"
  by (simp_all add: car_1_record_def car_1_sold_record_def car_2_record_def car_2_sold_record_def)


lemma scenario_resell:
  "sell_car sample_lib store_reverted sale_2 = (Inr (car_1\<lparr>status := sold\<rparr>), store_resold)"
proof -
  have k: "Sale_index sample_lib sale_2 = ''S-2''" "car_vin sale_2 = ''5YJ3E1EA7KF000001''"
    by (simp_all add: sample_lib_def sale_2_def)
  have st: "status car_1 \<noteq> sold"
    by (simp add: car_1_def sold_def available_def)
  show ?thesis
    by (simp add: sell_car_def store_reverted_def sale_2_data k scenario_fits resold_fits
        load_index_def dict_get_def save_index_def LINE_DATA_LENGTH_def append_records_file
        read_records_file scenario_plain andthen_def car_1_parts st car_1_sold_data
        write_records_file store_resold_def Let_def)
qed

lemma model_x_parts:
  "str_split (CHR ''|'') model_x_record = [''1'', ''Model X'', ''Tesla'']"
  "rstrip model_x_record = model_x_record"
  "CR \<notin> set model_x_record"
  "Model_of_parts [''1'', ''Model X'', ''Tesla''] = Inr model_x"
  by (simp_all add: CR_def ev_parse Model_of_parts_def model_x_def model_x_record_def ev)

lemma car_1_renamed_data:
  "car_data sample_lib (car_1\<lparr>status := sold, vin := ''1AA''\<rparr>) = car_1_renamed_record"
  by (simp add: car_data_def car_1_def car_1_renamed_record_def sold_def ev)

lemma renamed_fits:
  "fits car_1_renamed_record" "\<not> 500 < length car_1_renamed_record"
  by (simp_all add: fits_short car_1_renamed_record_def)

lemma sorted_renamed:
  "sorted_index [(''5YJ3E1EA7KF000002'', 1), (''1AA'', 0)]
     = [(''1AA'', 0), (''5YJ3E1EA7KF000002'', 1)]"
  by code_simp

lemma sorted_renamed':
  "sorted_index [(''5YJ3E1EA7KF000002'', Suc 0), (''1AA'', 0)]
     = [(''1AA'', 0), (''5YJ3E1EA7KF000002'', Suc 0)]"
  using sorted_renamed by simp

lemma scenario_rename:
  "update_vin sample_lib store_two_cars ''5YJ3E1EA7KF000001'' ''1AA''
     = (Inr (car_1\<lparr>status := sold, vin := ''1AA''\<rparr>), store_renamed)"
  by (simp add: update_vin_def store_two_cars_def load_index_def dict_in_def dict_get_def
      read_records_file scenario_fits two_cars_fits scenario_plain car_records_arity
      car_1_sold_parts car_1_renamed_data renamed_fits LINE_DATA_LENGTH_def
      write_records_file dict_del_def save_index_def sorted_renamed' store_renamed_def Let_def)

lemma store_listed_ok: "store_ok store_listed"
  by (simp add: store_ok_def index_ok_def store_listed_def load_index_def
      line_count_records_file scenario_fits)

lemma scenario_add_model_y:
  "fst (add_model sample_lib store_listed model_y) = Inr model_y"
proof -
  have d: "''2|Model Y|Tesla'' = model_y_record"
    by (simp add: model_y_record_def)
  have f: "fits model_y_record" "\<not> 500 < length model_y_record"
    by (simp_all add: fits_short model_y_record_def)
  have "add_model sample_lib store_listed model_y
      = (Inr model_y,
         store_listed\<lparr>models_txt := Some (records_file [model_x_record, model_y_record]),
                       models_index_txt := Some [(''1'', 0), (''2'', 1)]\<rparr>)"
    by (simp add: add_model_def model_y_def store_listed_def load_index_def dict_in_def
        save_index_def LINE_DATA_LENGTH_def ev d f append_records_file scenario_fits)
  then show ?thesis by simp
qed

lemma scenario_add_car_2:
  "fst (add_car sample_lib store_listed car_2) = Inr car_2"
proof -
  have k: "Car_index sample_lib car_2 = ''5YJ3E1EA7KF000002''"
    by (simp add: sample_lib_def car_2_def)
  have m: "int_str (model car_2) = ''1''"
    by (simp add: car_2_def ev)
  have d: "car_data sample_lib car_2 = car_2_record"
    by (simp add: car_data_def car_2_def car_2_record_def available_def ev)
  show ?thesis
    by (simp add: add_car_def k m d two_cars_fits store_listed_def load_index_def dict_in_def
        LINE_DATA_LENGTH_def append_records_file scenario_fits Let_def)
qed

lemma bad_price_parts:
  "str_split (CHR ''|'') bad_price_record
     = [''5YJ3E1EA7KF000003'', ''1'', ''abc'', ''2024-01-05T00:00:00'', ''available'']"
  "strip bad_price_record \<noteq> []" "rstrip bad_price_record = bad_price_record"
  "CR \<notin> set bad_price_record" "fits bad_price_record"
  by (simp_all add: bad_price_record_def ev_parse CR_def fits_short)

lemma bad_price_raises:
  "Car_of_parts sample_lib
     [''5YJ3E1EA7KF000003'', ''1'', ''abc'', ''2024-01-05T00:00:00'', ''available'']
     = Inl InvalidOperation"
  by (simp add: ev ev_parse)

lemma car_1_fields:
  "str_split (CHR ''|'') car_1_record
     = [''5YJ3E1EA7KF000001'', ''1'', ''42000.00'', ''2024-01-01T00:00:00'', ''available'']"
  "str_split (CHR ''|'') car_1_sold_record
     = [''5YJ3E1EA7KF000001'', ''1'', ''42000.00'', ''2024-01-01T00:00:00'', ''sold'']"
  by (simp_all add: car_1_record_def car_1_sold_record_def)

lemma car_1_values:
  "py_int ''1'' = Inr 1"
  "Decimal sample_lib ''42000.00'' = Some (4200000, 2)"
  "fromisoformat sample_lib ''2024-01-01T00:00:00'' = Some ''2024-01-01T00:00:00''"
  "Decimal_str sample_lib (4200000, 2) = ''42000.00''"
  "int_str 1 = ''1''"
  "CarStatus_values sample_lib = [''available'', ''sold'']"
  by (simp_all add: ev ev_parse)

lemma records_file_two:
  "fits d \<Longrightarrow> take LINE_TOTAL_LENGTH (records_file [d]) @ block e = records_file [d, e]"
  by (simp add: records_file_def length_block)

lemma sort_renamed:
  "sort [''5YJ3E1EA7KF000002'', ''1AA''] = [''1AA'', ''5YJ3E1EA7KF000002'']"
  by code_simp

lemma padded_id_facts:
  "fits padded_id_record" "fits padded_id_renamed_record"
  "CR \<notin> set padded_id_record" "rstrip padded_id_record = padded_id_record"
  "CR \<notin> set padded_id_renamed_record"
  "rstrip padded_id_renamed_record = padded_id_renamed_record"
  "str_split (CHR ''|'') padded_id_record
     = [''5YJ3E1EA7KF000001'', '' +0_07 '', ''42000.00'', ''2024-01-01T00:00:00'', ''available'']"
  "str_split (CHR ''|'') padded_id_renamed_record
     = [''1AA'', ''7'', ''42000.00'', ''2024-01-01T00:00:00'', ''available'']"
  "py_int '' +0_07 '' = Inr 7"
  "int_str 7 = ''7''"
  by (simp_all add: fits_short padded_id_record_def padded_id_renamed_record_def CR_def
      ev ev_parse)

lemma ranked_fits:
  "fits car_3_sold_record" "fits car_4_sold_record" "fits deleted_sale_9_record"
  "fits sale_3_record" "fits sale_4_record" "fits model_y_record"
  by (simp_all add: fits_short car_3_sold_record_def car_4_sold_record_def
      deleted_sale_9_record_def sale_3_record_def sale_4_record_def model_y_record_def)

lemma ranked_plain:
  "CR \<notin> set car_3_sold_record" "rstrip car_3_sold_record = car_3_sold_record"
  "CR \<notin> set car_4_sold_record" "rstrip car_4_sold_record = car_4_sold_record"
  "CR \<notin> set deleted_sale_9_record" "rstrip deleted_sale_9_record = deleted_sale_9_record"
  "CR \<notin> set sale_3_record" "rstrip sale_3_record = sale_3_record"
  "CR \<notin> set sale_4_record" "rstrip sale_4_record = sale_4_record"
  "CR \<notin> set model_y_record" "rstrip model_y_record = model_y_record"
  by (simp_all add: car_3_sold_record_def car_4_sold_record_def deleted_sale_9_record_def
      sale_3_record_def sale_4_record_def model_y_record_def CR_def ev_parse)

lemma ranked_parts:
  "strip sale_1_record \<noteq> []" "\<not> startswith sale_1_record ''DELETED_''"
  "startswith deleted_sale_9_record ''DELETED_''"
  "strip sale_3_record \<noteq> []" "\<not> startswith sale_3_record ''DELETED_''"
  "str_split (CHR ''|'') sale_3_record
     = [''S-3'', ''5YJ3E1EA7KF000004'', ''30000.00'', ''2024-02-03T00:00:00'']"
  "strip sale_4_record \<noteq> []" "\<not> startswith sale_4_record ''DELETED_''"
  "str_split (CHR ''|'') sale_4_record
     = [''S-4'', ''5YJ3E1EA7KF000005'', ''20000.00'', ''2024-02-04T00:00:00'']"
  "str_split (CHR ''|'') car_3_sold_record
     = [''5YJ3E1EA7KF000004'', ''2'', ''30000.00'', ''2024-01-07T00:00:00'', ''sold'']"
  "str_split (CHR ''|'') car_4_sold_record
     = [''5YJ3E1EA7KF000005'', ''2'', ''20000.00'', ''2024-01-08T00:00:00'', ''sold'']"
  "str_split (CHR ''|'') model_y_record = [''2'', ''Model Y'', ''Tesla'']"
  "py_int ''2'' = Inr 2" "int_str 2 = ''2''"
  "Decimal sample_lib ''30000.00'' = Some (3000000, 2)"
  "Decimal sample_lib ''20000.00'' = Some (2000000, 2)"
  "Decimal sample_lib ''0'' = Some (0, 0)"
  by (simp_all add: sale_1_record_def deleted_sale_9_record_def sale_3_record_def
      sale_4_record_def car_3_sold_record_def car_4_sold_record_def model_y_record_def
      startswith_def ev ev_parse)

lemma ranked_contributions:
  "sale_contribution sample_lib store_ranked 0 = Inr (Some (1, (4100000, 2)))"
  "sale_contribution sample_lib store_ranked 1 = Inr None"
  "sale_contribution sample_lib store_ranked 2 = Inr (Some (2, (3000000, 2)))"
  "sale_contribution sample_lib store_ranked 3 = Inr (Some (2, (2000000, 2)))"
  by (simp_all add: sale_contribution_def store_ranked_def load_index_def dict_get_def
      read_records_file scenario_fits scenario_plain ranked_fits ranked_plain ranked_parts
      sale_1_parts sample_values car_1_fields car_1_values)

lemma ranked_stats:
  "model_stats store_ranked (1, c, a)
     = Some \<lparr>stats_model_name = ''Model X'', stats_brand = ''Tesla'', stats_sales_number = c\<rparr>"
  "model_stats store_ranked (2, c, a)
     = Some \<lparr>stats_model_name = ''Model Y'', stats_brand = ''Tesla'', stats_sales_number = c\<rparr>"
  by (simp_all add: model_stats_def store_ranked_def load_index_def dict_get_def
      read_records_file scenario_fits ranked_fits ranked_plain ranked_parts model_x_parts
      car_1_values)

section \<open>Claims\<close>

text \<open>
  C5, as amended. A write of more than 500 characters fails with LengthExceeded and
  returns no file. A write of at most 500 characters puts at record \<open>n\<close> the data,
  spaces up to 500 characters and one line feed; reading record \<open>n\<close> back returns
  the data without its trailing whitespace (for data free of carriage returns, which
  a text-mode read would translate), so the data itself only when it does not end in
  whitespace: the read strips the padding together with the data's own trailing
  whitespace.
\<close>

theorem write_then_read:
  "(length data > LINE_DATA_LENGTH \<longrightarrow>
      write_fixed_length_line f n data = Inl (ValueError LengthExceeded))
   \<and> (length data \<le> LINE_DATA_LENGTH \<longrightarrow>
        (\<exists>content. write_fixed_length_line f n data = Inr (Some content)
           \<and> block_at (Some content) n
               = data @ replicate (LINE_DATA_LENGTH - length data) (CHR '' '') @ [LF]
           \<and> (CR \<notin> set data \<longrightarrow>
                read_fixed_length_line (Some content) n = Inr (rstrip data))))"
proof (intro conjI impI)
  assume "length data > LINE_DATA_LENGTH"
  then show "write_fixed_length_line f n data = Inl (ValueError LengthExceeded)"
    by (simp add: write_fixed_length_line_def)
next
  assume "length data \<le> LINE_DATA_LENGTH"
  then have fit: "fits data" by (simp add: fits_def)
  let ?c = "case f of None \<Rightarrow> [] | Some c \<Rightarrow> c"
  obtain A B where AB: "write_at (n * LINE_TOTAL_LENGTH) (block data) ?c = A @ block data @ B"
    and lenA: "length A = n * LINE_TOTAL_LENGTH"
    using write_at_split by blast
  have w: "write_fixed_length_line f n data = Inr (Some (A @ block data @ B))"
    using write_fits [OF fit, of f n] AB by simp
  have "take (length (block data)) (drop (length A) (A @ block data @ B)) = block data"
    by simp
  then have "block_at (Some (A @ block data @ B)) n = block data"
    by (simp only: lenA length_block [OF fit] block_at_def option.case)
  then have blk: "block_at (Some (A @ block data @ B)) n
      = data @ replicate (LINE_DATA_LENGTH - length data) (CHR '' '') @ [LF]"
    by (simp add: block_def ljust_def)
  have rd: "CR \<notin> set data \<longrightarrow>
      read_fixed_length_line (Some (A @ block data @ B)) n = Inr (rstrip data)"
    using read_block [OF lenA fit] by simp
  show "\<exists>content. write_fixed_length_line f n data = Inr (Some content)
           \<and> block_at (Some content) n
               = data @ replicate (LINE_DATA_LENGTH - length data) (CHR '' '') @ [LF]
           \<and> (CR \<notin> set data \<longrightarrow>
                read_fixed_length_line (Some content) n = Inr (rstrip data))"
    using w blk rd by blast
qed

theorem write_then_read_witness:
  "length (replicate 501 (CHR ''x'')) > LINE_DATA_LENGTH
   \<and> write_fixed_length_line None 0 (replicate 501 (CHR ''x'')) = Inl (ValueError LengthExceeded)
   \<and> length ''ab|c '' \<le> LINE_DATA_LENGTH \<and> CR \<notin> set ''ab|c ''
   \<and> (\<exists>content. write_fixed_length_line (Some (records_file [''x''])) 3 ''ab|c '' = Inr (Some content)
         \<and> read_fixed_length_line (Some content) 3 = Inr ''ab|c'')"
  using write_then_read [of "replicate 501 (CHR ''x'')" None 0]
    write_then_read [of "''ab|c ''" "Some (records_file [''x''])" 3]
  by (auto simp: LINE_DATA_LENGTH_def CR_def rstrip_def isspace_def whitespace_def)

text \<open>
  C5 as stated fails for data that ends in whitespace: \<open>''a ''\<close> written at record 0
  of a new file reads back as \<open>''a''\<close>.
\<close>

theorem write_then_read_counterexample:
  "length ''a '' \<le> LINE_DATA_LENGTH
   \<and> write_fixed_length_line None 0 ''a '' = Inr (Some (records_file [''a '']))
   \<and> read_fixed_length_line (Some (records_file [''a ''])) 0 = Inr ''a''
   \<and> read_fixed_length_line (Some (records_file [''a ''])) 0 \<noteq> Inr ''a ''"
proof -
  have fit: "fits ''a ''" by (simp add: fits_def LINE_DATA_LENGTH_def)
  have w: "write_fixed_length_line None 0 ''a '' = Inr (Some (records_file [''a '']))"
    using write_fits [OF fit, of None 0] by (simp add: write_at_def records_file_def)
  have r: "read_fixed_length_line (Some (records_file [''a ''])) 0 = Inr ''a''"
    using read_records_file [of "[''a '']" 0] fit
    by (simp add: CR_def rstrip_def isspace_def whitespace_def)
  show ?thesis using fit w r by (simp add: fits_def)
qed

text \<open>
  C10. When \<open>v\<close> is a key of the car index, \<open>update_vin(v, v)\<close> fails with
  DuplicateKey, the check of the new VIN coming before the old one is resolved, and
  leaves the record files and the indexes as they were.
\<close>

theorem update_vin_same:
  "dict_in v (load_index (cars_index_txt s)) \<Longrightarrow>
     update_vin L s v v = (Inl (ValueError DuplicateKey), s)"
  by (simp add: update_vin_def)

theorem update_vin_same_witness:
  "dict_in ''5YJ3E1EA7KF000001'' (load_index (cars_index_txt store_listed))
   \<and> update_vin sample_lib store_listed ''5YJ3E1EA7KF000001'' ''5YJ3E1EA7KF000001''
       = (Inl (ValueError DuplicateKey), store_listed)"
  using update_vin_same [of "''5YJ3E1EA7KF000001''" store_listed sample_lib]
  by (simp add: store_listed_def load_index_def dict_in_def)

text \<open>
  \<open>sell_car\<close> has no duplicate check. A sale whose key already has an entry in the
  sales index and whose record fits in 500 characters does not fail with DuplicateKey:
  whatever is returned, the sale file is one record longer, the new record is the
  sale, the key is bound to the new record number, and the index has as many entries
  as before.
\<close>

lemma sell_car_no_duplicate_check:
  assumes "dict_in (Sale_index L sale) (load_index (sales_index_txt s))"
    and "length (sale_data L sale) \<le> LINE_DATA_LENGTH"
  shows "fst (sell_car L s sale) \<noteq> Inl (ValueError DuplicateKey)
    \<and> get_file_line_count (sales_txt (snd (sell_car L s sale)))
        = Suc (get_file_line_count (sales_txt s))
    \<and> block_at (sales_txt (snd (sell_car L s sale))) (get_file_line_count (sales_txt s))
        = block (sale_data L sale)
    \<and> dict_get (load_index (sales_index_txt (snd (sell_car L s sale)))) (Sale_index L sale)
        = Some (get_file_line_count (sales_txt s))
    \<and> length (load_index (sales_index_txt (snd (sell_car L s sale))))
        = length (load_index (sales_index_txt s))"
proof -
  have fit: "fits (sale_data L sale)" using assms(2) by (simp add: fits_def)
  obtain f' where s': "snd (sell_car L s sale) = (after_sale_append L s sale)\<lparr>cars_txt := f'\<rparr>"
    using sell_car_store [OF fit] by blast
  have "length (load_index (sales_index_txt (after_sale_append L s sale)))
      = length (load_index (sales_index_txt s))"
    using assms(1)
    by (simp add: after_sale_append_def save_index_def load_index_def length_dict_set_present
        split: option.splits)
  then show ?thesis
    using sell_car_store [OF fit, of s] after_sale_append_sales [OF fit, of s]
    by (simp add: s')
qed

text \<open>
  C1 at a failing input. The first car is sold under the number \<open>S-1\<close>, then a second
  car is added: the sale \<open>S-1\<close> is on file and in the sales index. \<open>sell_car\<close> for
  the second car under the number \<open>S-1\<close> again raises nothing: it returns the second
  car as sold, the sale file holds two live records numbered \<open>S-1\<close>, and the one index
  entry \<open>S-1\<close> now points at the second of them.
\<close>

theorem sell_car_duplicate_number:
  "add_car sample_lib store_sold car_2 = (Inr car_2, store_two_cars)
   \<and> sales_number sale_dup = ''S-1''
   \<and> dict_in (Sale_index sample_lib sale_dup) (load_index (sales_index_txt store_two_cars))
   \<and> sell_car sample_lib store_two_cars sale_dup = (Inr (car_2\<lparr>status := sold\<rparr>), store_two_sold)
   \<and> sales_txt store_two_cars = Some (records_file [sale_1_record])
   \<and> sales_txt store_two_sold = Some (records_file [sale_1_record, sale_dup_record])
   \<and> sales_index_txt store_two_cars = Some [(''S-1'', 0)]
   \<and> sales_index_txt store_two_sold = Some [(''S-1'', 1)]"
  by (simp add: scenario_add_car_sold scenario_sell_dup)
    (simp add: sale_dup_def sample_lib_def store_two_cars_def store_two_sold_def
      load_index_def dict_in_def)

text \<open>
  C4. A sale whose record \<open>number|vin|cost|date\<close> fits in 500 characters is first
  appended to the sale file: the file is one record longer, the new last record is
  that text padded with spaces to 500 characters and a line feed, all earlier records
  are as before; the sales index binds the key of the sale to the new record number
  and keeps every other entry; the model files and the car index are not written.
  Then the car is looked up by the VIN of the sale. A VIN absent from the car index
  gives NotFound, a car record whose status field is \<open>sold\<close> gives InvalidState; on
  every failure the car file is as before, while the appended sale and its index
  entry stay. Otherwise the car record is rewritten at the record number the index
  gave, as the old VIN field, the parsed model id, price and start date written out
  again, and the status \<open>sold\<close>; that car is returned, and a record number within the
  file leaves the line count and every other record of the car file as they were.
\<close>

theorem sell_car_two_writes:
  assumes "sale_text = sales_number sale @ ''|'' @ car_vin sale @ ''|''
                         @ Decimal_str L (cost sale) @ ''|'' @ isoformat L (sales_date sale)"
    and "length sale_text \<le> LINE_DATA_LENGTH"
    and "old_sales = (case sales_txt s of None \<Rightarrow> [] | Some content \<Rightarrow> content)"
    and "k = get_file_line_count (sales_txt s)"
  shows "\<exists>r s'. sell_car L s sale = (r, s')
    \<and> sales_txt s'
        = Some (take (k * LINE_TOTAL_LENGTH) old_sales @ sale_text
                  @ replicate (LINE_DATA_LENGTH - length sale_text) (CHR '' '') @ [LF])
    \<and> get_file_line_count (sales_txt s') = Suc k
    \<and> block_at (sales_txt s') k
        = sale_text @ replicate (LINE_DATA_LENGTH - length sale_text) (CHR '' '') @ [LF]
    \<and> (\<forall>j<k. block_at (sales_txt s') j = block_at (sales_txt s) j)
    \<and> sales_index_txt s'
        = Some (dict_set (load_index (sales_index_txt s)) (Sale_index L sale) k)
    \<and> dict_get (load_index (sales_index_txt s')) (Sale_index L sale) = Some k
    \<and> (\<forall>key. key \<noteq> Sale_index L sale \<longrightarrow>
          dict_get (load_index (sales_index_txt s')) key
            = dict_get (load_index (sales_index_txt s)) key)
    \<and> models_txt s' = models_txt s
    \<and> models_index_txt s' = models_index_txt s
    \<and> cars_index_txt s' = cars_index_txt s
    \<and> (\<forall>e. r = Inl e \<longrightarrow> cars_txt s' = cars_txt s)
    \<and> (dict_get (load_index (cars_index_txt s)) (car_vin sale) = None \<longrightarrow>
          r = Inl (ValueError NotFound))
    \<and> (\<forall>n line parts m pr ds car_text.
          dict_get (load_index (cars_index_txt s)) (car_vin sale) = Some n
          \<and> read_fixed_length_line (cars_txt s) n = Inr line
          \<and> parts = str_split (CHR ''|'') line
          \<and> 5 \<le> length parts
          \<and> py_int (parts ! 1) = Inr m
          \<and> Decimal L (parts ! 2) = Some pr
          \<and> fromisoformat L (parts ! 3) = Some ds
          \<and> parts ! 4 \<in> set (CarStatus_values L) \<longrightarrow>
            (parts ! 4 = ''sold'' \<longrightarrow> r = Inl (ValueError InvalidState))
          \<and> (parts ! 4 \<noteq> ''sold''
               \<and> car_text = parts ! 0 @ ''|'' @ int_str m @ ''|'' @ Decimal_str L pr @ ''|''
                               @ isoformat L ds @ ''|'' @ ''sold''
               \<and> length car_text \<le> LINE_DATA_LENGTH \<longrightarrow>
                 r = Inr \<lparr>vin = parts ! 0, model = m, price = pr, date_start = ds,
                          status = CarStatus ''sold''\<rparr>
               \<and> write_fixed_length_line (cars_txt s) n car_text = Inr (cars_txt s')
               \<and> block_at (cars_txt s') n
                   = car_text @ replicate (LINE_DATA_LENGTH - length car_text) (CHR '' '') @ [LF]
               \<and> (n < get_file_line_count (cars_txt s) \<longrightarrow>
                     get_file_line_count (cars_txt s') = get_file_line_count (cars_txt s)
                   \<and> (\<forall>j. j \<noteq> n \<longrightarrow> block_at (cars_txt s') j = block_at (cars_txt s) j))))"
proof -
  let ?pad = "sale_text @ replicate (LINE_DATA_LENGTH - length sale_text) (CHR '' '') @ [LF]"
  let ?six = "load_index (sales_index_txt s)"
  let ?cix = "load_index (cars_index_txt s)"
  let ?s1 = "after_sale_append L s sale"
  have sd: "sale_data L sale = sale_text"
    using assms(1) by (simp add: sale_data_def)
  have fit: "fits (sale_data L sale)"
    using assms(2) sd by (simp add: fits_def)
  have s1_sales: "sales_txt ?s1 = Some (take (k * LINE_TOTAL_LENGTH) old_sales @ ?pad)"
    using append_exact [OF fit, of "sales_txt s"] assms(3,4)
    by (simp add: after_sale_append_def sd block_text)
  have s1_index: "sales_index_txt ?s1 = Some (dict_set ?six (Sale_index L sale) k)"
    using assms(4) by (simp add: after_sale_append_def save_index_def)
  have lc: "get_file_line_count (sales_txt ?s1) = Suc k"
    using after_sale_append_sales(1) [OF fit, of s] assms(4) by simp
  have blk: "block_at (sales_txt ?s1) k = ?pad"
    using after_sale_append_sales(2) [OF fit, of s] assms(4) by (simp add: sd block_text)
  have before: "\<forall>j<k. block_at (sales_txt ?s1) j = block_at (sales_txt s) j"
    using append_keeps_blocks [of _ "sales_txt s" ?pad] assms(3,4) by (simp add: s1_sales)
  have get: "dict_get (load_index (sales_index_txt ?s1)) (Sale_index L sale) = Some k"
    by (simp add: s1_index load_index_def dict_get_set_same)
  have others: "\<forall>key. key \<noteq> Sale_index L sale \<longrightarrow>
      dict_get (load_index (sales_index_txt ?s1)) key = dict_get ?six key"
    by (simp add: s1_index load_index_def dict_get_set_other)
  note frame = after_sale_append_frame [of L s sale]
  obtain r cars' where run: "sell_car L s sale = (r, ?s1\<lparr>cars_txt := cars'\<rparr>)"
    and failed: "\<forall>e. r = Inl e \<longrightarrow> cars' = cars_txt s"
    and absent: "dict_get ?cix (car_vin sale) = None \<longrightarrow> r = Inl (ValueError NotFound)"
    and found: "\<forall>n line car.
          dict_get ?cix (car_vin sale) = Some n
          \<and> read_fixed_length_line (cars_txt s) n = Inr line
          \<and> Car_of_parts L (str_split (CHR ''|'') line) = Inr car \<longrightarrow>
            (status car = sold \<longrightarrow> r = Inl (ValueError InvalidState))
          \<and> (status car \<noteq> sold \<and> fits (car_data L (car\<lparr>status := sold\<rparr>)) \<longrightarrow>
                 r = Inr (car\<lparr>status := sold\<rparr>)
               \<and> write_fixed_length_line (cars_txt s) n (car_data L (car\<lparr>status := sold\<rparr>))
                   = Inr cars'
               \<and> block_at cars' n = block (car_data L (car\<lparr>status := sold\<rparr>))
               \<and> (n < get_file_line_count (cars_txt s) \<longrightarrow>
                     get_file_line_count cars' = get_file_line_count (cars_txt s)
                   \<and> (\<forall>j. j \<noteq> n \<longrightarrow> block_at cars' j = block_at (cars_txt s) j)))"
    using sell_car_branches [OF fit, of s] by (elim exE conjE)
  have rewrite: "(parts ! 4 = ''sold'' \<longrightarrow> r = Inl (ValueError InvalidState))
          \<and> (parts ! 4 \<noteq> ''sold''
               \<and> car_text = parts ! 0 @ ''|'' @ int_str m @ ''|'' @ Decimal_str L pr @ ''|''
                               @ isoformat L ds @ ''|'' @ ''sold''
               \<and> length car_text \<le> LINE_DATA_LENGTH \<longrightarrow>
                 r = Inr \<lparr>vin = parts ! 0, model = m, price = pr, date_start = ds,
                          status = CarStatus ''sold''\<rparr>
               \<and> write_fixed_length_line (cars_txt s) n car_text = Inr cars'
               \<and> block_at cars' n
                   = car_text @ replicate (LINE_DATA_LENGTH - length car_text) (CHR '' '') @ [LF]
               \<and> (n < get_file_line_count (cars_txt s) \<longrightarrow>
                     get_file_line_count cars' = get_file_line_count (cars_txt s)
                   \<and> (\<forall>j. j \<noteq> n \<longrightarrow> block_at cars' j = block_at (cars_txt s) j)))"
    if p: "dict_get ?cix (car_vin sale) = Some n"
      "read_fixed_length_line (cars_txt s) n = Inr line"
      "parts = str_split (CHR ''|'') line" "5 \<le> length parts"
      "py_int (parts ! 1) = Inr m" "Decimal L (parts ! 2) = Some pr"
      "fromisoformat L (parts ! 3) = Some ds" "parts ! 4 \<in> set (CarStatus_values L)"
    for n line parts m pr ds car_text
  proof -
    let ?car = "\<lparr>vin = parts ! 0, model = m, price = pr, date_start = ds,
                  status = CarStatus (parts ! 4)\<rparr>"
    have car: "Car_of_parts L (str_split (CHR ''|'') line) = Inr ?car"
      using Car_of_parts_fields [OF p(4-8)] p(3) by simp
    have st: "status ?car = sold \<longleftrightarrow> parts ! 4 = ''sold''"
      by (simp add: sold_def)
    let ?sold = "\<lparr>vin = parts ! 0, model = m, price = pr, date_start = ds,
                   status = CarStatus ''sold''\<rparr>"
    have upd: "?car\<lparr>status := sold\<rparr> = ?sold"
      by (simp add: sold_def)
    have d: "car_data L ?sold
        = parts ! 0 @ ''|'' @ int_str m @ ''|'' @ Decimal_str L pr @ ''|'' @ isoformat L ds
            @ ''|'' @ ''sold''"
      by (simp add: car_data_def)
    note f = found [rule_format, OF conjI [OF p(1) conjI [OF p(2) car]]]
    have a: "parts ! 4 = ''sold'' \<longrightarrow> r = Inl (ValueError InvalidState)"
      using f [THEN conjunct1] by (simp only: st)
    have b: "r = Inr ?sold
        \<and> write_fixed_length_line (cars_txt s) n car_text = Inr cars'
        \<and> block_at cars' n
            = car_text @ replicate (LINE_DATA_LENGTH - length car_text) (CHR '' '') @ [LF]
        \<and> (n < get_file_line_count (cars_txt s) \<longrightarrow>
              get_file_line_count cars' = get_file_line_count (cars_txt s)
            \<and> (\<forall>j. j \<noteq> n \<longrightarrow> block_at cars' j = block_at (cars_txt s) j))"
      if q: "parts ! 4 \<noteq> ''sold''"
        "car_text = parts ! 0 @ ''|'' @ int_str m @ ''|'' @ Decimal_str L pr @ ''|''
                      @ isoformat L ds @ ''|'' @ ''sold''"
        "length car_text \<le> LINE_DATA_LENGTH"
    proof -
      have e: "car_data L ?sold = car_text"
        by (simp only: d q(2))
      have "status ?car \<noteq> sold \<and> fits (car_data L (?car\<lparr>status := sold\<rparr>))"
        using q(1,3) by (simp only: st upd e fits_def) simp
      then show ?thesis
        using f [THEN conjunct2] by (simp only: upd e block_text) simp
    qed
    show ?thesis
      using a b by blast
  qed
  define s' where "s' = ?s1\<lparr>cars_txt := cars'\<rparr>"
  have sel: "cars' = cars_txt s'" "sales_txt s' = sales_txt ?s1"
    "sales_index_txt s' = sales_index_txt ?s1" "models_txt s' = models_txt ?s1"
    "models_index_txt s' = models_index_txt ?s1" "cars_index_txt s' = cars_index_txt ?s1"
    by (simp_all add: s'_def)
  have c_run: "sell_car L s sale = (r, s')"
    using run by (simp add: s'_def)
  have c_sales: "sales_txt s'
        = Some (take (k * LINE_TOTAL_LENGTH) old_sales @ sale_text
                  @ replicate (LINE_DATA_LENGTH - length sale_text) (CHR '' '') @ [LF])"
    using s1_sales by (simp add: sel)
  have c_count: "get_file_line_count (sales_txt s') = Suc k"
    using lc by (simp add: sel)
  have c_block: "block_at (sales_txt s') k
        = sale_text @ replicate (LINE_DATA_LENGTH - length sale_text) (CHR '' '') @ [LF]"
    using blk by (simp add: sel)
  have c_before: "(\<forall>j<k. block_at (sales_txt s') j = block_at (sales_txt s) j)"
    using before by (simp add: sel)
  have c_index: "sales_index_txt s'
        = Some (dict_set (load_index (sales_index_txt s)) (Sale_index L sale) k)"
    using s1_index by (simp add: sel)
  have c_get: "dict_get (load_index (sales_index_txt s')) (Sale_index L sale) = Some k"
    using get by (simp add: sel)
  have c_others: "(\<forall>key. key \<noteq> Sale_index L sale \<longrightarrow>
          dict_get (load_index (sales_index_txt s')) key
            = dict_get (load_index (sales_index_txt s)) key)"
    using others by (simp add: sel)
  have c_models: "models_txt s' = models_txt s"
    by (simp add: sel frame)
  have c_models_index: "models_index_txt s' = models_index_txt s"
    by (simp add: sel frame)
  have c_cars_index: "cars_index_txt s' = cars_index_txt s"
    by (simp add: sel frame)
  have c_failed: "(\<forall>e. r = Inl e \<longrightarrow> cars_txt s' = cars_txt s)"
    using failed by (simp add: sel)
  have c_absent: "(dict_get (load_index (cars_index_txt s)) (car_vin sale) = None \<longrightarrow>
          r = Inl (ValueError NotFound))"
    by (rule absent)
  have c_found: "(\<forall>n line parts m pr ds car_text.
          dict_get (load_index (cars_index_txt s)) (car_vin sale) = Some n
          \<and> read_fixed_length_line (cars_txt s) n = Inr line
          \<and> parts = str_split (CHR ''|'') line
          \<and> 5 \<le> length parts
          \<and> py_int (parts ! 1) = Inr m
          \<and> Decimal L (parts ! 2) = Some pr
          \<and> fromisoformat L (parts ! 3) = Some ds
          \<and> parts ! 4 \<in> set (CarStatus_values L) \<longrightarrow>
            (parts ! 4 = ''sold'' \<longrightarrow> r = Inl (ValueError InvalidState))
          \<and> (parts ! 4 \<noteq> ''sold''
               \<and> car_text = parts ! 0 @ ''|'' @ int_str m @ ''|'' @ Decimal_str L pr @ ''|''
                               @ isoformat L ds @ ''|'' @ ''sold''
               \<and> length car_text \<le> LINE_DATA_LENGTH \<longrightarrow>
                 r = Inr \<lparr>vin = parts ! 0, model = m, price = pr, date_start = ds,
                          status = CarStatus ''sold''\<rparr>
               \<and> write_fixed_length_line (cars_txt s) n car_text = Inr (cars_txt s')
               \<and> block_at (cars_txt s') n
                   = car_text @ replicate (LINE_DATA_LENGTH - length car_text) (CHR '' '') @ [LF]
               \<and> (n < get_file_line_count (cars_txt s) \<longrightarrow>
                     get_file_line_count (cars_txt s') = get_file_line_count (cars_txt s)
                   \<and> (\<forall>j. j \<noteq> n \<longrightarrow> block_at (cars_txt s') j = block_at (cars_txt s) j))))"
    proof (intro allI impI, elim conjE)
    fix n line parts m pr ds car_text
    assume p: "dict_get (load_index (cars_index_txt s)) (car_vin sale) = Some n"
      "read_fixed_length_line (cars_txt s) n = Inr line"
      "parts = str_split (CHR ''|'') line" "5 \<le> length parts"
      "py_int (parts ! 1) = Inr m" "Decimal L (parts ! 2) = Some pr"
      "fromisoformat L (parts ! 3) = Some ds" "parts ! 4 \<in> set (CarStatus_values L)"
    show "(parts ! 4 = ''sold'' \<longrightarrow> r = Inl (ValueError InvalidState))
          \<and> (parts ! 4 \<noteq> ''sold''
               \<and> car_text = parts ! 0 @ ''|'' @ int_str m @ ''|'' @ Decimal_str L pr @ ''|''
                               @ isoformat L ds @ ''|'' @ ''sold''
               \<and> length car_text \<le> LINE_DATA_LENGTH \<longrightarrow>
                 r = Inr \<lparr>vin = parts ! 0, model = m, price = pr, date_start = ds,
                          status = CarStatus ''sold''\<rparr>
               \<and> write_fixed_length_line (cars_txt s) n car_text = Inr (cars_txt s')
               \<and> block_at (cars_txt s') n
                   = car_text @ replicate (LINE_DATA_LENGTH - length car_text) (CHR '' '') @ [LF]
               \<and> (n < get_file_line_count (cars_txt s) \<longrightarrow>
                     get_file_line_count (cars_txt s') = get_file_line_count (cars_txt s)
                   \<and> (\<forall>j. j \<noteq> n \<longrightarrow> block_at (cars_txt s') j = block_at (cars_txt s) j)))"
      using rewrite [OF p, of car_text] by (simp only: sel)
  qed
  show ?thesis
    by (intro exI [of _ r] exI [of _ "s'"] conjI)
      (fact c_run c_sales c_count c_block c_before c_index c_get c_others c_models c_models_index c_cars_index c_failed c_absent c_found)+
qed

theorem sell_car_two_writes_witness:
  "sale_1_record = sales_number sale_1 @ ''|'' @ car_vin sale_1 @ ''|''
       @ Decimal_str sample_lib (cost sale_1) @ ''|'' @ isoformat sample_lib (sales_date sale_1)
   \<and> length sale_1_record \<le> LINE_DATA_LENGTH
   \<and> sell_car sample_lib store_listed sale_1
       = (Inr \<lparr>vin = ''5YJ3E1EA7KF000001'', model = 1, price = (4200000, 2),
               date_start = ''2024-01-01T00:00:00'', status = CarStatus ''sold''\<rparr>,
          store_listed\<lparr>sales_txt := Some (''S-1|5YJ3E1EA7KF000001|41000.00|2024-02-01T00:00:00''
                                           @ replicate 450 (CHR '' '') @ [LF]),
                        sales_index_txt := Some [(''S-1'', 0)],
                        cars_txt := Some (''5YJ3E1EA7KF000001|1|42000.00|2024-01-01T00:00:00|sold''
                                           @ replicate 447 (CHR '' '') @ [LF])\<rparr>)
   \<and> sell_car sample_lib store_sold sale_1
       = (Inl (ValueError InvalidState),
          store_sold\<lparr>sales_txt := Some (records_file [sale_1_record, sale_1_record]),
                      sales_index_txt := Some [(''S-1'', 1)]\<rparr>)
   \<and> sell_car sample_lib empty_store sale_1
       = (Inl (ValueError NotFound),
          empty_store\<lparr>sales_txt := Some (''S-1|5YJ3E1EA7KF000001|41000.00|2024-02-01T00:00:00''
                                          @ replicate 450 (CHR '' '') @ [LF]),
                       sales_index_txt := Some [(''S-1'', 0)]\<rparr>)"
proof -
  have h1: "sale_1_record = sales_number sale_1 @ ''|'' @ car_vin sale_1 @ ''|''
       @ Decimal_str sample_lib (cost sale_1) @ ''|'' @ isoformat sample_lib (sales_date sale_1)"
    using sale_1_data by (simp add: sale_data_def)
  have h2: "length sale_1_record \<le> LINE_DATA_LENGTH"
    by (simp add: sale_1_record_def LINE_DATA_LENGTH_def)
  have k: "Sale_index sample_lib sale_1 = ''S-1''" "car_vin sale_1 = ''5YJ3E1EA7KF000001''"
    by (simp_all add: sample_lib_def sale_1_def)
  have pad: "sale_1_record @ replicate (LINE_DATA_LENGTH - length sale_1_record) (CHR '' '') @ [LF]
      = block sale_1_record"
    by (simp add: block_text)
  have first: "sell_car sample_lib store_listed sale_1
       = (Inr \<lparr>vin = ''5YJ3E1EA7KF000001'', model = 1, price = (4200000, 2),
               date_start = ''2024-01-01T00:00:00'', status = CarStatus ''sold''\<rparr>,
          store_listed\<lparr>sales_txt := Some (''S-1|5YJ3E1EA7KF000001|41000.00|2024-02-01T00:00:00''
                                           @ replicate 450 (CHR '' '') @ [LF]),
                        sales_index_txt := Some [(''S-1'', 0)],
                        cars_txt := Some (''5YJ3E1EA7KF000001|1|42000.00|2024-01-01T00:00:00|sold''
                                           @ replicate 447 (CHR '' '') @ [LF])\<rparr>)"
  proof -
    have a3: "[] = (case sales_txt store_listed of None \<Rightarrow> [] | Some content \<Rightarrow> content)"
      by (simp add: store_listed_def)
    have a4: "0 = get_file_line_count (sales_txt store_listed)"
      by (simp add: store_listed_def get_file_line_count_def)
    have a_wr: "write_fixed_length_line (cars_txt store_listed) 0 car_1_sold_record
                 = Inr (Some (records_file [car_1_sold_record]))"
      by (simp add: store_listed_def write_records_file scenario_fits)
    let ?parts = "str_split (CHR ''|'') car_1_record"
    have prem: "dict_get (load_index (cars_index_txt store_listed)) (car_vin sale_1) = Some 0
        \<and> read_fixed_length_line (cars_txt store_listed) 0 = Inr car_1_record
        \<and> ?parts = str_split (CHR ''|'') car_1_record
        \<and> 5 \<le> length ?parts
        \<and> py_int (?parts ! 1) = Inr 1
        \<and> Decimal sample_lib (?parts ! 2) = Some (4200000, 2)
        \<and> fromisoformat sample_lib (?parts ! 3) = Some ''2024-01-01T00:00:00''
        \<and> ?parts ! 4 \<in> set (CarStatus_values sample_lib)"
      by (simp add: k store_listed_def load_index_def dict_get_def read_records_file
          scenario_fits scenario_plain car_1_fields car_1_values)
    have prem2: "?parts ! 4 \<noteq> ''sold''
        \<and> car_1_sold_record = ?parts ! 0 @ ''|'' @ int_str 1 @ ''|''
              @ Decimal_str sample_lib (4200000, 2) @ ''|''
              @ isoformat sample_lib ''2024-01-01T00:00:00'' @ ''|'' @ ''sold''
        \<and> length car_1_sold_record \<le> LINE_DATA_LENGTH"
      by (simp add: car_1_fields car_1_values sample_values car_1_sold_record_def
          LINE_DATA_LENGTH_def)
    obtain r s' where run: "sell_car sample_lib store_listed sale_1 = (r, s')"
      and sales: "sales_txt s'
        = Some (take (0 * LINE_TOTAL_LENGTH) [] @ sale_1_record
                  @ replicate (LINE_DATA_LENGTH - length sale_1_record) (CHR '' '') @ [LF])"
      and index: "sales_index_txt s'
        = Some (dict_set (load_index (sales_index_txt store_listed)) (Sale_index sample_lib sale_1) 0)"
      and frame: "models_txt s' = models_txt store_listed"
      "models_index_txt s' = models_index_txt store_listed"
      "cars_index_txt s' = cars_index_txt store_listed"
      and failed: "\<forall>e. r = Inl e \<longrightarrow> cars_txt s' = cars_txt store_listed"
      and absent: "dict_get (load_index (cars_index_txt store_listed)) (car_vin sale_1) = None \<longrightarrow>
          r = Inl (ValueError NotFound)"
      and found: "\<forall>n line parts m pr ds car_text.
          dict_get (load_index (cars_index_txt store_listed)) (car_vin sale_1) = Some n
          \<and> read_fixed_length_line (cars_txt store_listed) n = Inr line
          \<and> parts = str_split (CHR ''|'') line
          \<and> 5 \<le> length parts
          \<and> py_int (parts ! 1) = Inr m
          \<and> Decimal sample_lib (parts ! 2) = Some pr
          \<and> fromisoformat sample_lib (parts ! 3) = Some ds
          \<and> parts ! 4 \<in> set (CarStatus_values sample_lib) \<longrightarrow>
            (parts ! 4 = ''sold'' \<longrightarrow> r = Inl (ValueError InvalidState))
          \<and> (parts ! 4 \<noteq> ''sold''
               \<and> car_text = parts ! 0 @ ''|'' @ int_str m @ ''|'' @ Decimal_str sample_lib pr @ ''|''
                               @ isoformat sample_lib ds @ ''|'' @ ''sold''
               \<and> length car_text \<le> LINE_DATA_LENGTH \<longrightarrow>
                 r = Inr \<lparr>vin = parts ! 0, model = m, price = pr, date_start = ds,
                          status = CarStatus ''sold''\<rparr>
               \<and> write_fixed_length_line (cars_txt store_listed) n car_text = Inr (cars_txt s')
               \<and> block_at (cars_txt s') n
                   = car_text @ replicate (LINE_DATA_LENGTH - length car_text) (CHR '' '') @ [LF]
               \<and> (n < get_file_line_count (cars_txt store_listed) \<longrightarrow>
                     get_file_line_count (cars_txt s') = get_file_line_count (cars_txt store_listed)
                   \<and> (\<forall>j. j \<noteq> n \<longrightarrow> block_at (cars_txt s') j = block_at (cars_txt store_listed) j)))"
      using sell_car_two_writes [OF h1 h2 a3 a4] by (elim exE conjE)
    note g = found [rule_format, of 0 car_1_record ?parts 1 "(4200000, 2)"
        "''2024-01-01T00:00:00''" car_1_sold_record, OF prem, THEN conjunct2, rule_format, OF prem2]
    have r: "r = Inr \<lparr>vin = ''5YJ3E1EA7KF000001'', model = 1, price = (4200000, 2),
               date_start = ''2024-01-01T00:00:00'', status = CarStatus ''sold''\<rparr>"
      using g [THEN conjunct1] by (simp add: car_1_fields)
    have c: "cars_txt s' = Some (records_file [car_1_sold_record])"
      using g [THEN conjunct2, THEN conjunct1] a_wr by simp
    have "s' = store_listed\<lparr>sales_txt := Some (''S-1|5YJ3E1EA7KF000001|41000.00|2024-02-01T00:00:00''
                                           @ replicate 450 (CHR '' '') @ [LF]),
                        sales_index_txt := Some [(''S-1'', 0)],
                        cars_txt := Some (''5YJ3E1EA7KF000001|1|42000.00|2024-01-01T00:00:00|sold''
                                           @ replicate 447 (CHR '' '') @ [LF])\<rparr>"
      by (rule store.equality)
        (simp_all add: sales index frame c k store_listed_def load_index_def records_file_def
          block_text sale_1_record_def car_1_sold_record_def LINE_DATA_LENGTH_def)
    then show ?thesis using run r by simp
  qed
  have second: "sell_car sample_lib store_sold sale_1
       = (Inl (ValueError InvalidState),
          store_sold\<lparr>sales_txt := Some (records_file [sale_1_record, sale_1_record]),
                      sales_index_txt := Some [(''S-1'', 1)]\<rparr>)"
  proof -
    have a3: "records_file [sale_1_record]
        = (case sales_txt store_sold of None \<Rightarrow> [] | Some content \<Rightarrow> content)"
      by (simp add: store_sold_def)
    have a4: "1 = get_file_line_count (sales_txt store_sold)"
      by (simp add: store_sold_def line_count_records_file scenario_fits)
    let ?parts = "str_split (CHR ''|'') car_1_sold_record"
    have prem: "dict_get (load_index (cars_index_txt store_sold)) (car_vin sale_1) = Some 0
        \<and> read_fixed_length_line (cars_txt store_sold) 0 = Inr car_1_sold_record
        \<and> ?parts = str_split (CHR ''|'') car_1_sold_record
        \<and> 5 \<le> length ?parts
        \<and> py_int (?parts ! 1) = Inr 1
        \<and> Decimal sample_lib (?parts ! 2) = Some (4200000, 2)
        \<and> fromisoformat sample_lib (?parts ! 3) = Some ''2024-01-01T00:00:00''
        \<and> ?parts ! 4 \<in> set (CarStatus_values sample_lib)"
      by (simp add: k store_sold_def load_index_def dict_get_def read_records_file
          scenario_fits scenario_plain car_1_fields car_1_values)
    have prem2: "?parts ! 4 = ''sold''"
      by (simp add: car_1_fields)
    obtain r s' where run: "sell_car sample_lib store_sold sale_1 = (r, s')"
      and sales: "sales_txt s'
        = Some (take (1 * LINE_TOTAL_LENGTH) (records_file [sale_1_record]) @ sale_1_record
                  @ replicate (LINE_DATA_LENGTH - length sale_1_record) (CHR '' '') @ [LF])"
      and index: "sales_index_txt s'
        = Some (dict_set (load_index (sales_index_txt store_sold)) (Sale_index sample_lib sale_1) 1)"
      and frame: "models_txt s' = models_txt store_sold"
      "models_index_txt s' = models_index_txt store_sold"
      "cars_index_txt s' = cars_index_txt store_sold"
      and failed: "\<forall>e. r = Inl e \<longrightarrow> cars_txt s' = cars_txt store_sold"
      and absent: "dict_get (load_index (cars_index_txt store_sold)) (car_vin sale_1) = None \<longrightarrow>
          r = Inl (ValueError NotFound)"
      and found: "\<forall>n line parts m pr ds car_text.
          dict_get (load_index (cars_index_txt store_sold)) (car_vin sale_1) = Some n
          \<and> read_fixed_length_line (cars_txt store_sold) n = Inr line
          \<and> parts = str_split (CHR ''|'') line
          \<and> 5 \<le> length parts
          \<and> py_int (parts ! 1) = Inr m
          \<and> Decimal sample_lib (parts ! 2) = Some pr
          \<and> fromisoformat sample_lib (parts ! 3) = Some ds
          \<and> parts ! 4 \<in> set (CarStatus_values sample_lib) \<longrightarrow>
            (parts ! 4 = ''sold'' \<longrightarrow> r = Inl (ValueError InvalidState))
          \<and> (parts ! 4 \<noteq> ''sold''
               \<and> car_text = parts ! 0 @ ''|'' @ int_str m @ ''|'' @ Decimal_str sample_lib pr @ ''|''
                               @ isoformat sample_lib ds @ ''|'' @ ''sold''
               \<and> length car_text \<le> LINE_DATA_LENGTH \<longrightarrow>
                 r = Inr \<lparr>vin = parts ! 0, model = m, price = pr, date_start = ds,
                          status = CarStatus ''sold''\<rparr>
               \<and> write_fixed_length_line (cars_txt store_sold) n car_text = Inr (cars_txt s')
               \<and> block_at (cars_txt s') n
                   = car_text @ replicate (LINE_DATA_LENGTH - length car_text) (CHR '' '') @ [LF]
               \<and> (n < get_file_line_count (cars_txt store_sold) \<longrightarrow>
                     get_file_line_count (cars_txt s') = get_file_line_count (cars_txt store_sold)
                   \<and> (\<forall>j. j \<noteq> n \<longrightarrow> block_at (cars_txt s') j = block_at (cars_txt store_sold) j)))"
      using sell_car_two_writes [OF h1 h2 a3 a4] by (elim exE conjE)
    have r: "r = Inl (ValueError InvalidState)"
      by (rule found [rule_format, of 0 car_1_sold_record ?parts 1 "(4200000, 2)"
            "''2024-01-01T00:00:00''" "[]", OF prem, THEN conjunct1, rule_format, OF prem2])
    have c: "cars_txt s' = cars_txt store_sold"
      using failed r by simp
    have sl: "sales_txt s' = Some (records_file [sale_1_record, sale_1_record])"
      using sales by (simp only: pad mult_1 records_file_two [OF scenario_fits(1)])
    have "s' = store_sold\<lparr>sales_txt := Some (records_file [sale_1_record, sale_1_record]),
                      sales_index_txt := Some [(''S-1'', 1)]\<rparr>"
      by (rule store.equality)
        (simp_all add: sl index frame c k store_sold_def load_index_def)
    then show ?thesis using run r by simp
  qed
  have third: "sell_car sample_lib empty_store sale_1
       = (Inl (ValueError NotFound),
          empty_store\<lparr>sales_txt := Some (''S-1|5YJ3E1EA7KF000001|41000.00|2024-02-01T00:00:00''
                                          @ replicate 450 (CHR '' '') @ [LF]),
                       sales_index_txt := Some [(''S-1'', 0)]\<rparr>)"
  proof -
    have a3: "[] = (case sales_txt empty_store of None \<Rightarrow> [] | Some content \<Rightarrow> content)"
      by (simp add: empty_store_def)
    have a4: "0 = get_file_line_count (sales_txt empty_store)"
      by (simp add: empty_store_def get_file_line_count_def)
    have none: "dict_get (load_index (cars_index_txt empty_store)) (car_vin sale_1) = None"
      by (simp add: empty_store_def load_index_def dict_get_def)
    obtain r s' where run: "sell_car sample_lib empty_store sale_1 = (r, s')"
      and sales: "sales_txt s'
        = Some (take (0 * LINE_TOTAL_LENGTH) [] @ sale_1_record
                  @ replicate (LINE_DATA_LENGTH - length sale_1_record) (CHR '' '') @ [LF])"
      and index: "sales_index_txt s'
        = Some (dict_set (load_index (sales_index_txt empty_store)) (Sale_index sample_lib sale_1) 0)"
      and frame: "models_txt s' = models_txt empty_store"
      "models_index_txt s' = models_index_txt empty_store"
      "cars_index_txt s' = cars_index_txt empty_store"
      and failed: "\<forall>e. r = Inl e \<longrightarrow> cars_txt s' = cars_txt empty_store"
      and absent: "dict_get (load_index (cars_index_txt empty_store)) (car_vin sale_1) = None \<longrightarrow>
          r = Inl (ValueError NotFound)"
      and found: "\<forall>n line parts m pr ds car_text.
          dict_get (load_index (cars_index_txt empty_store)) (car_vin sale_1) = Some n
          \<and> read_fixed_length_line (cars_txt empty_store) n = Inr line
          \<and> parts = str_split (CHR ''|'') line
          \<and> 5 \<le> length parts
          \<and> py_int (parts ! 1) = Inr m
          \<and> Decimal sample_lib (parts ! 2) = Some pr
          \<and> fromisoformat sample_lib (parts ! 3) = Some ds
          \<and> parts ! 4 \<in> set (CarStatus_values sample_lib) \<longrightarrow>
            (parts ! 4 = ''sold'' \<longrightarrow> r = Inl (ValueError InvalidState))
          \<and> (parts ! 4 \<noteq> ''sold''
               \<and> car_text = parts ! 0 @ ''|'' @ int_str m @ ''|'' @ Decimal_str sample_lib pr @ ''|''
                               @ isoformat sample_lib ds @ ''|'' @ ''sold''
               \<and> length car_text \<le> LINE_DATA_LENGTH \<longrightarrow>
                 r = Inr \<lparr>vin = parts ! 0, model = m, price = pr, date_start = ds,
                          status = CarStatus ''sold''\<rparr>
               \<and> write_fixed_length_line (cars_txt empty_store) n car_text = Inr (cars_txt s')
               \<and> block_at (cars_txt s') n
                   = car_text @ replicate (LINE_DATA_LENGTH - length car_text) (CHR '' '') @ [LF]
               \<and> (n < get_file_line_count (cars_txt empty_store) \<longrightarrow>
                     get_file_line_count (cars_txt s') = get_file_line_count (cars_txt empty_store)
                   \<and> (\<forall>j. j \<noteq> n \<longrightarrow> block_at (cars_txt s') j = block_at (cars_txt empty_store) j)))"
      using sell_car_two_writes [OF h1 h2 a3 a4] by (elim exE conjE)
    have r: "r = Inl (ValueError NotFound)"
      using absent none by simp
    have c: "cars_txt s' = cars_txt empty_store"
      using failed r by simp
    have "s' = empty_store\<lparr>sales_txt := Some (''S-1|5YJ3E1EA7KF000001|41000.00|2024-02-01T00:00:00''
                                          @ replicate 450 (CHR '' '') @ [LF]),
                       sales_index_txt := Some [(''S-1'', 0)]\<rparr>"
      by (rule store.equality)
        (simp_all add: sales index frame c k empty_store_def load_index_def
          sale_1_record_def LINE_DATA_LENGTH_def)
    then show ?thesis using run r by simp
  qed
  show ?thesis
    by (intro conjI h1 h2 first second third)
qed
text \<open>
  What a successful \<open>revert_sale(sales_number)\<close> does to the sale file and the sales
  index: the live sale record with that number is rewritten with the prefix
  \<open>DELETED_\<close>, and the key deleted from the index is the VIN of that sale. Every
  entry under another key is as before.
\<close>

lemma revert_sale_deletes_vin_key:
  assumes "revert_sale L s number = (Inr car', s')"
  shows "\<exists>line v c d.
      live_sale_at (sales_txt s) number line v
    \<and> block_at (sales_txt s') line
        = block (''DELETED_'' @ number @ ''|'' @ v @ ''|'' @ Decimal_str L c @ ''|'' @ isoformat L d)
    \<and> \<not> dict_in v (load_index (sales_index_txt s'))
    \<and> (\<forall>k. k \<noteq> v \<longrightarrow>
          dict_get (load_index (sales_index_txt s')) k
            = dict_get (load_index (sales_index_txt s)) k)"
proof -
  obtain line v c d n car f f' where live: "live_sale_at (sales_txt s) number line v"
    and w: "write_fixed_length_line (sales_txt s) line
          (''DELETED_'' @ number @ ''|'' @ v @ ''|'' @ Decimal_str L c @ ''|'' @ isoformat L d) = Inr f"
    and s': "s' = s\<lparr>sales_txt := f,
              sales_index_txt :=
                (if dict_in v (load_index (sales_index_txt s))
                 then save_index (dict_del (load_index (sales_index_txt s)) v)
                 else sales_index_txt s),
              cars_txt := f'\<rparr>"
    using revert_sale_success [OF assms] by blast
  have blk: "block_at (sales_txt s') line
      = block (''DELETED_'' @ number @ ''|'' @ v @ ''|'' @ Decimal_str L c @ ''|'' @ isoformat L d)"
    using write_block_frame(1) [OF w] s' by simp
  have gone: "\<not> dict_in v (load_index (sales_index_txt s'))"
    using s' by (simp add: dict_in_get dict_get_del_same save_index_def load_index_def)
  have rest: "\<forall>k. k \<noteq> v \<longrightarrow>
      dict_get (load_index (sales_index_txt s')) k = dict_get (load_index (sales_index_txt s)) k"
    using s' by (simp add: dict_get_del_other save_index_def load_index_def)
  show ?thesis using live blk gone rest by blast
qed


text \<open>
  C2 at a failing input. The car was sold as \<open>S-1\<close>, the sale reverted, and the car
  sold again as \<open>S-2\<close> for 40000.00 on 2024-03-01. Record 0 of the sale file is the
  tombstone of \<open>S-1\<close>, record 1 the live sale. \<open>get_car_info\<close> compares only the VIN
  field and returns the cost and date of the tombstone.
\<close>

theorem get_car_info_tombstoned_sale:
  "read_fixed_length_line (sales_txt store_resold) 0 = Inr deleted_sale_1_record
   \<and> read_fixed_length_line (sales_txt store_resold) 1 = Inr sale_2_record
   \<and> get_car_info sample_lib store_resold ''5YJ3E1EA7KF000001''
       = Inr (Some \<lparr>info_vin = ''5YJ3E1EA7KF000001'',
                    car_model_name = ''Model X'',
                    car_model_brand = ''Tesla'',
                    info_price = (4200000, 2),
                    info_date_start = ''2024-01-01T00:00:00'',
                    info_status = sold,
                    info_sales_date = Some ''2024-02-01T00:00:00'',
                    info_sales_cost = Some (4100000, 2)\<rparr>)"
proof -
  have m: "int_str (model car_1) = ''1''"
    by (simp add: car_1_def ev)
  have c: "vin car_1 = ''5YJ3E1EA7KF000001''" "price car_1 = (4200000, 2)"
    "date_start car_1 = ''2024-01-01T00:00:00''"
    by (simp_all add: car_1_def)
  have mx: "name model_x = ''Model X''" "brand model_x = ''Tesla''"
    by (simp_all add: model_x_def)
  show ?thesis
    by (simp add: get_car_info_def store_resold_def load_index_def dict_get_def
        read_records_file scenario_fits scenario_plain resold_fits resold_plain fits_short
        car_records_arity car_1_sold_parts andthen_def m model_x_parts
        line_count_records_file deleted_sale_1_parts sample_values c mx Let_def)
qed

text \<open>
  C6, as amended. \<open>update_vin(old, new)\<close> fails with DuplicateKey when \<open>new\<close> is a key
  of the car index, and with NotFound when it is not and \<open>old\<close> is no key either;
  both leave the store as it was. When \<open>old\<close> resolves to a record of five fields
  \<open>p0|p1|p2|p3|p4\<close> that parse as a car, the record number holds afterwards the text
  \<open>new|model|price|date|p4\<close>, padded with spaces to 500 characters and a line feed,
  where the model id, the price and the start date are the parsed values of \<open>p1\<close>,
  \<open>p2\<close> and \<open>p3\<close> written out again and the status field is kept as it is; the car
  with these values and the new VIN is returned. The stored text is the old one with
  only the VIN field replaced when the three middle fields already are in the form
  the service writes. A record number within the file leaves the line count and every
  other record as they were. The keys of the saved index are those of the old index
  without \<open>old\<close> and with \<open>new\<close>, in ascending order (strictly, the keys of a
  dictionary being distinct); \<open>new\<close> has the record number \<open>old\<close> had, \<open>old\<close> is
  gone, and every other key keeps its entry.
\<close>

theorem update_vin_rename:
  "(dict_in new (load_index (cars_index_txt s)) \<longrightarrow>
      update_vin L s old new = (Inl (ValueError DuplicateKey), s))
   \<and> (\<not> dict_in new (load_index (cars_index_txt s))
        \<and> dict_get (load_index (cars_index_txt s)) old = None \<longrightarrow>
      update_vin L s old new = (Inl (ValueError NotFound), s))
   \<and> (\<forall>n line p0 p1 p2 p3 p4 m pr ds car_text.
        \<not> dict_in new (load_index (cars_index_txt s))
        \<and> dict_get (load_index (cars_index_txt s)) old = Some n
        \<and> read_fixed_length_line (cars_txt s) n = Inr line
        \<and> str_split (CHR ''|'') line = [p0, p1, p2, p3, p4]
        \<and> py_int p1 = Inr m
        \<and> Decimal L p2 = Some pr
        \<and> fromisoformat L p3 = Some ds
        \<and> p4 \<in> set (CarStatus_values L)
        \<and> car_text = new @ ''|'' @ int_str m @ ''|'' @ Decimal_str L pr @ ''|''
                        @ isoformat L ds @ ''|'' @ p4
        \<and> length car_text \<le> LINE_DATA_LENGTH \<longrightarrow>
        (\<exists>f' ix'.
           update_vin L s old new
             = (Inr \<lparr>vin = new, model = m, price = pr, date_start = ds,
                      status = CarStatus p4\<rparr>,
                s\<lparr>cars_txt := f', cars_index_txt := Some ix'\<rparr>)
         \<and> line = p0 @ ''|'' @ p1 @ ''|'' @ p2 @ ''|'' @ p3 @ ''|'' @ p4
         \<and> (int_str m = p1 \<and> Decimal_str L pr = p2 \<and> isoformat L ds = p3 \<longrightarrow>
               car_text = new @ ''|'' @ p1 @ ''|'' @ p2 @ ''|'' @ p3 @ ''|'' @ p4)
         \<and> write_fixed_length_line (cars_txt s) n car_text = Inr f'
         \<and> block_at f' n
             = car_text @ replicate (LINE_DATA_LENGTH - length car_text) (CHR '' '') @ [LF]
         \<and> (n < get_file_line_count (cars_txt s) \<longrightarrow>
               get_file_line_count f' = get_file_line_count (cars_txt s)
             \<and> (\<forall>j. j \<noteq> n \<longrightarrow> block_at f' j = block_at (cars_txt s) j))
         \<and> map fst ix'
             = sort (filter (\<lambda>k. k \<noteq> old) (map fst (load_index (cars_index_txt s))) @ [new])
         \<and> sorted (map fst ix')
         \<and> dict_get ix' new = Some n
         \<and> dict_get ix' old = None
         \<and> (\<forall>k. k \<noteq> old \<and> k \<noteq> new \<longrightarrow>
               dict_get ix' k = dict_get (load_index (cars_index_txt s)) k)
         \<and> (distinct (map fst (load_index (cars_index_txt s))) \<longrightarrow>
               sorted_wrt (<) (map fst ix'))))"
proof (intro conjI impI allI)
  assume "dict_in new (load_index (cars_index_txt s))"
  then show "update_vin L s old new = (Inl (ValueError DuplicateKey), s)"
    by (simp add: update_vin_def)
next
  assume "\<not> dict_in new (load_index (cars_index_txt s))
        \<and> dict_get (load_index (cars_index_txt s)) old = None"
  then show "update_vin L s old new = (Inl (ValueError NotFound), s)"
    by (simp add: update_vin_def)
next
  fix n line p0 p1 p2 p3 p4 m pr ds car_text
  let ?ix = "load_index (cars_index_txt s)"
  let ?f = "Some (write_at (n * LINE_TOTAL_LENGTH) (block car_text)
                    (case cars_txt s of None \<Rightarrow> [] | Some c \<Rightarrow> c))"
  let ?ix' = "sorted_index (dict_set (dict_del ?ix old) new n)"
  assume a: "\<not> dict_in new (load_index (cars_index_txt s))
        \<and> dict_get (load_index (cars_index_txt s)) old = Some n
        \<and> read_fixed_length_line (cars_txt s) n = Inr line
        \<and> str_split (CHR ''|'') line = [p0, p1, p2, p3, p4]
        \<and> py_int p1 = Inr m
        \<and> Decimal L p2 = Some pr
        \<and> fromisoformat L p3 = Some ds
        \<and> p4 \<in> set (CarStatus_values L)
        \<and> car_text = new @ ''|'' @ int_str m @ ''|'' @ Decimal_str L pr @ ''|''
                        @ isoformat L ds @ ''|'' @ p4
        \<and> length car_text \<le> LINE_DATA_LENGTH"
  let ?car = "\<lparr>vin = p0, model = m, price = pr, date_start = ds, status = CarStatus p4\<rparr>"
  have parts: "str_split (CHR ''|'') line = [p0, p1, p2, p3, p4]"
    and absent: "\<not> dict_in new ?ix" and n: "dict_get ?ix old = Some n"
    and rd: "read_fixed_length_line (cars_txt s) n = Inr line"
    and ct: "car_text = new @ ''|'' @ int_str m @ ''|'' @ Decimal_str L pr @ ''|''
                        @ isoformat L ds @ ''|'' @ p4"
    using a by simp_all
  have len: "length car_text \<le> LINE_DATA_LENGTH"
    using a by (elim conjE)
  have fit: "fits car_text"
    unfolding fits_def by (rule len)
  have car: "Car_of_parts L (str_split (CHR ''|'') line) = Inr ?car"
    using Car_of_parts_fields [of "[p0, p1, p2, p3, p4]" m L pr ds] a by (simp add: parts)
  have upd: "?car\<lparr>vin := new\<rparr>
      = \<lparr>vin = new, model = m, price = pr, date_start = ds, status = CarStatus p4\<rparr>"
    by simp
  have d': "car_data L \<lparr>vin = new, model = m, price = pr, date_start = ds,
                          status = CarStatus p4\<rparr> = car_text"
    by (simp add: car_data_def ct)
  have neq: "old \<noteq> new"
    using absent n by (auto simp: dict_in_get)
  have c_run: "update_vin L s old new
             = (Inr \<lparr>vin = new, model = m, price = pr, date_start = ds,
                      status = CarStatus p4\<rparr>,
                s\<lparr>cars_txt := ?f, cars_index_txt := Some ?ix'\<rparr>)"
    using update_vin_success [OF absent n rd _ car] fit
    by (simp add: parts d')
  have c_old: "line = p0 @ ''|'' @ p1 @ ''|'' @ p2 @ ''|'' @ p3 @ ''|'' @ p4"
    using split_five [OF parts] by simp
  have c_same: "(int_str m = p1 \<and> Decimal_str L pr = p2 \<and> isoformat L ds = p3 \<longrightarrow>
               car_text = new @ ''|'' @ p1 @ ''|'' @ p2 @ ''|'' @ p3 @ ''|'' @ p4)"
    by (simp add: ct)
  have c_write: "write_fixed_length_line (cars_txt s) n car_text = Inr ?f"
    by (rule write_fits [OF fit])
  have c_block: "block_at ?f n
             = car_text @ replicate (LINE_DATA_LENGTH - length car_text) (CHR '' '') @ [LF]"
    using write_block_frame(1) [OF c_write] by (simp add: block_text)
  have c_frame: "(n < get_file_line_count (cars_txt s) \<longrightarrow>
               get_file_line_count ?f = get_file_line_count (cars_txt s)
             \<and> (\<forall>j. j \<noteq> n \<longrightarrow> block_at ?f j = block_at (cars_txt s) j))"
    using write_block_frame(2,3) [OF c_write] by simp
  have c_keys: "map fst ?ix'
             = sort (filter (\<lambda>k. k \<noteq> old) (map fst (load_index (cars_index_txt s))) @ [new])"
    by (simp add: keys_sorted_index keys_renamed [OF absent])
  have c_sorted: "sorted (map fst ?ix')"
    by (simp add: keys_sorted_index)
  have c_new: "dict_get ?ix' new = Some n"
    by (simp add: dict_get_sorted_index dict_get_set_same)
  have c_gone: "dict_get ?ix' old = None"
    using neq by (simp add: dict_get_sorted_index dict_get_set_other dict_get_del_same)
  have c_others: "(\<forall>k. k \<noteq> old \<and> k \<noteq> new \<longrightarrow>
               dict_get ?ix' k = dict_get (load_index (cars_index_txt s)) k)"
    by (simp add: dict_get_sorted_index dict_get_set_other dict_get_del_other)
  have c_strict: "(distinct (map fst (load_index (cars_index_txt s))) \<longrightarrow>
               sorted_wrt (<) (map fst ?ix'))"
  proof
    assume "distinct (map fst ?ix)"
    then have "distinct (map fst (dict_set (dict_del ?ix old) new n))"
      using absent by (simp add: distinct_renamed)
    then have "distinct (map fst ?ix')"
      by (simp add: keys_sorted_index)
    then show "sorted_wrt (<) (map fst ?ix')"
      using c_sorted by (simp add: strict_sorted_iff)
  qed
  show "\<exists>f' ix'.
           update_vin L s old new
             = (Inr \<lparr>vin = new, model = m, price = pr, date_start = ds,
                      status = CarStatus p4\<rparr>,
                s\<lparr>cars_txt := f', cars_index_txt := Some ix'\<rparr>)
         \<and> line = p0 @ ''|'' @ p1 @ ''|'' @ p2 @ ''|'' @ p3 @ ''|'' @ p4
         \<and> (int_str m = p1 \<and> Decimal_str L pr = p2 \<and> isoformat L ds = p3 \<longrightarrow>
               car_text = new @ ''|'' @ p1 @ ''|'' @ p2 @ ''|'' @ p3 @ ''|'' @ p4)
         \<and> write_fixed_length_line (cars_txt s) n car_text = Inr f'
         \<and> block_at f' n
             = car_text @ replicate (LINE_DATA_LENGTH - length car_text) (CHR '' '') @ [LF]
         \<and> (n < get_file_line_count (cars_txt s) \<longrightarrow>
               get_file_line_count f' = get_file_line_count (cars_txt s)
             \<and> (\<forall>j. j \<noteq> n \<longrightarrow> block_at f' j = block_at (cars_txt s) j))
         \<and> map fst ix'
             = sort (filter (\<lambda>k. k \<noteq> old) (map fst (load_index (cars_index_txt s))) @ [new])
         \<and> sorted (map fst ix')
         \<and> dict_get ix' new = Some n
         \<and> dict_get ix' old = None
         \<and> (\<forall>k. k \<noteq> old \<and> k \<noteq> new \<longrightarrow>
               dict_get ix' k = dict_get (load_index (cars_index_txt s)) k)
         \<and> (distinct (map fst (load_index (cars_index_txt s))) \<longrightarrow>
               sorted_wrt (<) (map fst ix'))"
    by (intro exI [of _ ?f] exI [of _ ?ix'] conjI)
      (fact c_run c_old c_same c_write c_block c_frame c_keys c_sorted c_new c_gone c_others c_strict)+
qed

theorem update_vin_rename_witness:
  "dict_in ''5YJ3E1EA7KF000002'' (load_index (cars_index_txt store_two_cars))
   \<and> update_vin sample_lib store_two_cars ''5YJ3E1EA7KF000001'' ''5YJ3E1EA7KF000002''
       = (Inl (ValueError DuplicateKey), store_two_cars)
   \<and> \<not> dict_in ''1AA'' (load_index (cars_index_txt store_two_cars))
   \<and> dict_get (load_index (cars_index_txt store_two_cars)) ''NOPE'' = None
   \<and> update_vin sample_lib store_two_cars ''NOPE'' ''1AA''
       = (Inl (ValueError NotFound), store_two_cars)
   \<and> read_fixed_length_line (cars_txt store_two_cars) 0
       = Inr ''5YJ3E1EA7KF000001|1|42000.00|2024-01-01T00:00:00|sold''
   \<and> update_vin sample_lib store_two_cars ''5YJ3E1EA7KF000001'' ''1AA''
       = (Inr \<lparr>vin = ''1AA'', model = 1, price = (4200000, 2),
               date_start = ''2024-01-01T00:00:00'', status = CarStatus ''sold''\<rparr>,
          store_two_cars
            \<lparr>cars_txt := Some (records_file [''1AA|1|42000.00|2024-01-01T00:00:00|sold'',
                                              car_2_record]),
             cars_index_txt := Some [(''1AA'', 0), (''5YJ3E1EA7KF000002'', 1)]\<rparr>)"
proof -
  let ?ix = "load_index (cars_index_txt store_two_cars)"
  let ?old = "''5YJ3E1EA7KF000001''"
  have ix: "?ix = [(''5YJ3E1EA7KF000001'', 0), (''5YJ3E1EA7KF000002'', 1)]"
    by (simp add: store_two_cars_def load_index_def)
  have h1: "dict_in ''5YJ3E1EA7KF000002'' ?ix"
    by (simp add: ix dict_in_def)
  have h2: "\<not> dict_in ''1AA'' ?ix" "dict_get ?ix ''NOPE'' = None"
    "dict_get ?ix ?old = Some 0" "distinct (map fst ?ix)"
    "dict_get ?ix ''5YJ3E1EA7KF000002'' = Some 1"
    by (simp_all add: ix dict_in_def dict_get_def)
  have h3: "read_fixed_length_line (cars_txt store_two_cars) 0 = Inr car_1_sold_record"
    by (simp add: store_two_cars_def read_records_file scenario_fits two_cars_fits scenario_plain)
  have a: "update_vin sample_lib store_two_cars ?old ''5YJ3E1EA7KF000002''
      = (Inl (ValueError DuplicateKey), store_two_cars)"
    by (rule update_vin_rename [THEN conjunct1, rule_format]) (rule h1)
  have b: "update_vin sample_lib store_two_cars ''NOPE'' ''1AA''
      = (Inl (ValueError NotFound), store_two_cars)"
    by (rule update_vin_rename [THEN conjunct2, THEN conjunct1, rule_format])
      (intro conjI h2)
  have prem: "\<not> dict_in ''1AA'' ?ix
        \<and> dict_get ?ix ?old = Some 0
        \<and> read_fixed_length_line (cars_txt store_two_cars) 0 = Inr car_1_sold_record
        \<and> str_split (CHR ''|'') car_1_sold_record
            = [''5YJ3E1EA7KF000001'', ''1'', ''42000.00'', ''2024-01-01T00:00:00'', ''sold'']
        \<and> py_int ''1'' = Inr 1
        \<and> Decimal sample_lib ''42000.00'' = Some (4200000, 2)
        \<and> fromisoformat sample_lib ''2024-01-01T00:00:00'' = Some ''2024-01-01T00:00:00''
        \<and> ''sold'' \<in> set (CarStatus_values sample_lib)
        \<and> car_1_renamed_record = ''1AA'' @ ''|'' @ int_str 1 @ ''|''
              @ Decimal_str sample_lib (4200000, 2) @ ''|''
              @ isoformat sample_lib ''2024-01-01T00:00:00'' @ ''|'' @ ''sold''
        \<and> length car_1_renamed_record \<le> LINE_DATA_LENGTH"
    by (simp add: h2 h3 car_1_fields car_1_values sample_values car_1_renamed_record_def
        LINE_DATA_LENGTH_def)
  obtain f' ix' where run: "update_vin sample_lib store_two_cars ?old ''1AA''
             = (Inr \<lparr>vin = ''1AA'', model = 1, price = (4200000, 2),
                      date_start = ''2024-01-01T00:00:00'', status = CarStatus ''sold''\<rparr>,
                store_two_cars\<lparr>cars_txt := f', cars_index_txt := Some ix'\<rparr>)"
    and wr: "write_fixed_length_line (cars_txt store_two_cars) 0 car_1_renamed_record = Inr f'"
    and keys: "map fst ix' = sort (filter (\<lambda>k. k \<noteq> ?old) (map fst ?ix) @ [''1AA''])"
    and new: "dict_get ix' ''1AA'' = Some 0"
    and others: "\<forall>k. k \<noteq> ?old \<and> k \<noteq> ''1AA'' \<longrightarrow> dict_get ix' k = dict_get ?ix k"
    using update_vin_rename [THEN conjunct2, THEN conjunct2, rule_format, OF prem]
    by (elim exE conjE)
  have f': "f' = Some (records_file [car_1_renamed_record, car_2_record])"
    using wr
    by (simp add: store_two_cars_def write_records_file scenario_fits two_cars_fits renamed_fits)
  have k: "map fst ix' = [''1AA'', ''5YJ3E1EA7KF000002'']"
    using keys by (simp add: ix sort_renamed del: sort_key_simps)
  then have "distinct (map fst ix')" by simp
  then have "ix' = map (\<lambda>k. (k, the (dict_get ix' k))) (map fst ix')"
    by (rule assoc_by_keys)
  then have ix': "ix' = [(''1AA'', 0), (''5YJ3E1EA7KF000002'', 1)]"
    using new others [rule_format, of "''5YJ3E1EA7KF000002''"] h2(5) by (simp add: k)
  have c: "update_vin sample_lib store_two_cars ?old ''1AA''
       = (Inr \<lparr>vin = ''1AA'', model = 1, price = (4200000, 2),
               date_start = ''2024-01-01T00:00:00'', status = CarStatus ''sold''\<rparr>,
          store_two_cars
            \<lparr>cars_txt := Some (records_file [''1AA|1|42000.00|2024-01-01T00:00:00|sold'',
                                              car_2_record]),
             cars_index_txt := Some [(''1AA'', 0), (''5YJ3E1EA7KF000002'', 1)]\<rparr>)"
    using run by (simp add: f' ix' car_1_renamed_record_def)
  have h3': "read_fixed_length_line (cars_txt store_two_cars) 0
       = Inr ''5YJ3E1EA7KF000001|1|42000.00|2024-01-01T00:00:00|sold''"
    using h3 by (simp add: car_1_sold_record_def)
  show ?thesis
    by (intro conjI h1 h2(1) h2(2) a b h3' c)
qed

text \<open>
  C6 as stated fails for a record that is not in the form the service writes. The
  model id field \<open> +0_07 \<close> parses as 7; after the rename the record holds \<open>7\<close> in its
  place, so the VIN is not the only field of the stored record that has changed.
\<close>

theorem update_vin_rename_counterexample:
  "read_fixed_length_line (cars_txt store_padded_id) 0
     = Inr ''5YJ3E1EA7KF000001| +0_07 |42000.00|2024-01-01T00:00:00|available''
   \<and> update_vin sample_lib store_padded_id ''5YJ3E1EA7KF000001'' ''1AA''
       = (Inr \<lparr>vin = ''1AA'', model = 7, price = (4200000, 2),
               date_start = ''2024-01-01T00:00:00'', status = CarStatus ''available''\<rparr>,
          store_padded_id_renamed)
   \<and> read_fixed_length_line (cars_txt store_padded_id_renamed) 0
       = Inr ''1AA|7|42000.00|2024-01-01T00:00:00|available''
   \<and> str_split (CHR ''|'') ''5YJ3E1EA7KF000001| +0_07 |42000.00|2024-01-01T00:00:00|available'' ! 1
       = '' +0_07 ''
   \<and> str_split (CHR ''|'') ''1AA|7|42000.00|2024-01-01T00:00:00|available'' ! 1 = ''7''"
proof -
  have r0: "read_fixed_length_line (cars_txt store_padded_id) 0 = Inr padded_id_record"
    by (simp add: store_padded_id_def read_records_file padded_id_facts)
  have r1: "read_fixed_length_line (cars_txt store_padded_id_renamed) 0
      = Inr padded_id_renamed_record"
    by (simp add: store_padded_id_renamed_def read_records_file padded_id_facts)
  have car: "Car_of_parts sample_lib (str_split (CHR ''|'') padded_id_record)
      = Inr \<lparr>vin = ''5YJ3E1EA7KF000001'', model = 7, price = (4200000, 2),
             date_start = ''2024-01-01T00:00:00'', status = CarStatus ''available''\<rparr>"
    using Car_of_parts_fields [of "str_split (CHR ''|'') padded_id_record" 7 sample_lib
        "(4200000, 2)" "''2024-01-01T00:00:00''"]
    by (simp add: padded_id_facts car_1_values)
  have d: "car_data sample_lib \<lparr>vin = ''1AA'', model = 7, price = (4200000, 2),
             date_start = ''2024-01-01T00:00:00'', status = CarStatus ''available''\<rparr>
      = padded_id_renamed_record"
    by (simp add: car_data_def padded_id_facts car_1_values sample_values
        padded_id_renamed_record_def)
  have ix: "sorted_index [(''1AA'', 0)] = [(''1AA'', 0)]"
    by (simp add: sorted_index_def dict_get_def)
  have len: "\<not> 500 < length padded_id_renamed_record"
    by (simp add: padded_id_renamed_record_def)
  have u: "update_vin sample_lib store_padded_id ''5YJ3E1EA7KF000001'' ''1AA''
       = (Inr \<lparr>vin = ''1AA'', model = 7, price = (4200000, 2),
               date_start = ''2024-01-01T00:00:00'', status = CarStatus ''available''\<rparr>,
          store_padded_id_renamed)"
    using r0
    by (simp add: update_vin_def store_padded_id_def load_index_def dict_in_def dict_get_def
        padded_id_facts car [simplified padded_id_facts] d len LINE_DATA_LENGTH_def
        write_records_file dict_del_def save_index_def ix store_padded_id_renamed_def Let_def)
  show ?thesis
    using r0 r1 u
    by (simp add: padded_id_record_def [symmetric] padded_id_renamed_record_def [symmetric]
        padded_id_facts)
qed

text \<open>
  C9. The invariant is \<open>store_ok\<close>: every record number held by one of the three
  indexes is below the line count of its record file. Each of the five operations
  that write preserves it, whatever they return (the three queries write nothing).
  A successful \<open>add_model\<close> or \<open>add_car\<close>, and every \<open>sell_car\<close> of a sale that
  fits, binds the key to the line count the file had before the append and leaves
  the file one record longer. The rewrites in place of \<open>sell_car\<close>, \<open>update_vin\<close>
  and \<open>revert_sale\<close> leave the line counts of the files they rewrite unchanged.
\<close>

theorem index_entries_in_range:
  assumes "store_ok s"
  shows "store_ok (snd (add_model L s m))
    \<and> store_ok (snd (add_car L s car))
    \<and> store_ok (snd (sell_car L s sale))
    \<and> store_ok (snd (update_vin L s old new))
    \<and> store_ok (snd (revert_sale L s number))
    \<and> (fst (add_model L s m) = Inr m \<longrightarrow>
          dict_get (load_index (models_index_txt (snd (add_model L s m)))) (Model_index L m)
            = Some (get_file_line_count (models_txt s))
        \<and> get_file_line_count (models_txt (snd (add_model L s m)))
            = Suc (get_file_line_count (models_txt s)))
    \<and> (fst (add_car L s car) = Inr car \<longrightarrow>
          dict_get (load_index (cars_index_txt (snd (add_car L s car)))) (Car_index L car)
            = Some (get_file_line_count (cars_txt s))
        \<and> get_file_line_count (cars_txt (snd (add_car L s car)))
            = Suc (get_file_line_count (cars_txt s)))
    \<and> (length (sale_data L sale) \<le> LINE_DATA_LENGTH \<longrightarrow>
          dict_get (load_index (sales_index_txt (snd (sell_car L s sale)))) (Sale_index L sale)
            = Some (get_file_line_count (sales_txt s))
        \<and> get_file_line_count (sales_txt (snd (sell_car L s sale)))
            = Suc (get_file_line_count (sales_txt s)))
    \<and> get_file_line_count (cars_txt (snd (sell_car L s sale))) = get_file_line_count (cars_txt s)
    \<and> get_file_line_count (cars_txt (snd (update_vin L s old new)))
        = get_file_line_count (cars_txt s)
    \<and> get_file_line_count (cars_txt (snd (revert_sale L s number)))
        = get_file_line_count (cars_txt s)
    \<and> get_file_line_count (sales_txt (snd (revert_sale L s number)))
        = get_file_line_count (sales_txt s)"
proof -
  have m: "fst (add_model L s m) = Inr m \<longrightarrow>
          dict_get (load_index (models_index_txt (snd (add_model L s m)))) (Model_index L m)
            = Some (get_file_line_count (models_txt s))
        \<and> get_file_line_count (models_txt (snd (add_model L s m)))
            = Suc (get_file_line_count (models_txt s))"
    using add_model_result [of L s m]
    by (auto simp: save_index_def load_index_def dict_get_set_same)
  have c: "fst (add_car L s car) = Inr car \<longrightarrow>
          dict_get (load_index (cars_index_txt (snd (add_car L s car)))) (Car_index L car)
            = Some (get_file_line_count (cars_txt s))
        \<and> get_file_line_count (cars_txt (snd (add_car L s car)))
            = Suc (get_file_line_count (cars_txt s))"
    using add_car_result [of L s car]
    by (auto simp: save_index_def load_index_def dict_get_set_same)
  have sl: "length (sale_data L sale) \<le> LINE_DATA_LENGTH \<longrightarrow>
          dict_get (load_index (sales_index_txt (snd (sell_car L s sale)))) (Sale_index L sale)
            = Some (get_file_line_count (sales_txt s))
        \<and> get_file_line_count (sales_txt (snd (sell_car L s sale)))
            = Suc (get_file_line_count (sales_txt s))"
  proof
    assume "length (sale_data L sale) \<le> LINE_DATA_LENGTH"
    then have fit: "fits (sale_data L sale)" by (simp add: fits_def)
    obtain f' where "snd (sell_car L s sale) = (after_sale_append L s sale)\<lparr>cars_txt := f'\<rparr>"
      using sell_car_store [OF fit] by blast
    then show "dict_get (load_index (sales_index_txt (snd (sell_car L s sale)))) (Sale_index L sale)
            = Some (get_file_line_count (sales_txt s))
        \<and> get_file_line_count (sales_txt (snd (sell_car L s sale)))
            = Suc (get_file_line_count (sales_txt s))"
      using after_sale_append_sales [OF fit, of s] by simp
  qed
  show ?thesis
    using add_model_ok [OF assms, of L m] add_car_ok [OF assms, of L car]
      sell_car_ok [OF assms, of L sale] update_vin_ok [OF assms, of L old new]
      revert_sale_ok [OF assms, of L number] m c sl
    by simp
qed

theorem index_entries_in_range_witness:
  "store_ok store_listed
   \<and> fst (add_model sample_lib store_listed model_y) = Inr model_y
   \<and> fst (add_car sample_lib store_listed car_2) = Inr car_2
   \<and> length (sale_data sample_lib sale_1) \<le> LINE_DATA_LENGTH
   \<and> store_ok (snd (add_model sample_lib store_listed model_y))
   \<and> store_ok (snd (add_car sample_lib store_listed car_2))
   \<and> store_ok (snd (sell_car sample_lib store_listed sale_1))
   \<and> store_ok (snd (update_vin sample_lib store_listed ''5YJ3E1EA7KF000001'' ''1AA''))
   \<and> store_ok (snd (revert_sale sample_lib store_listed ''S-1''))
   \<and> dict_get (load_index (models_index_txt (snd (add_model sample_lib store_listed model_y))))
        (Model_index sample_lib model_y) = Some 1
   \<and> dict_get (load_index (cars_index_txt (snd (add_car sample_lib store_listed car_2))))
        (Car_index sample_lib car_2) = Some 1
   \<and> dict_get (load_index (sales_index_txt (snd (sell_car sample_lib store_listed sale_1))))
        (Sale_index sample_lib sale_1) = Some 0
   \<and> get_file_line_count (cars_txt (snd (sell_car sample_lib store_listed sale_1))) = 1"
proof -
  have h: "length (sale_data sample_lib sale_1) \<le> LINE_DATA_LENGTH"
    by (simp add: sale_1_data sale_1_record_def LINE_DATA_LENGTH_def)
  have n: "get_file_line_count (models_txt store_listed) = 1"
    "get_file_line_count (cars_txt store_listed) = 1"
    by (simp_all add: store_listed_def line_count_records_file scenario_fits)
  have n0: "get_file_line_count (sales_txt store_listed) = 0"
    by (simp add: store_listed_def get_file_line_count_def)
  show ?thesis
    using index_entries_in_range [OF store_listed_ok, of sample_lib model_y car_2 sale_1
        "''5YJ3E1EA7KF000001''" "''1AA''" "''S-1''"]
      store_listed_ok scenario_add_model_y scenario_add_car_2 h
    by (simp add: n n0)
qed

text \<open>
  C8 at a failing input. Record 1 of the car file has five fields and the price
  \<open>abc\<close>. \<open>Decimal('abc')\<close> raises \<open>decimal.InvalidOperation\<close>, which is not among
  the exceptions the scan catches, so \<open>get_cars\<close> raises it for every status
  instead of skipping the record.
\<close>

theorem get_cars_bad_price:
  "read_fixed_length_line (cars_txt store_bad_price) 1 = Inr bad_price_record
   \<and> Decimal sample_lib ''abc'' = None
   \<and> get_cars sample_lib store_bad_price available = Inl InvalidOperation
   \<and> get_cars sample_lib store_bad_price sold = Inl InvalidOperation"
proof -
  have s: "strip car_1_record \<noteq> []"
    by (simp add: car_1_record_def ev_parse)
  have d: "Decimal sample_lib ''abc'' = None"
    by (simp add: ev)
  have "status car_1 = available" "status car_1 \<noteq> sold"
    by (simp_all add: car_1_def available_def sold_def)
  then show ?thesis
    by (simp add: get_cars_def store_bad_price_def line_count_records_file scenario_fits
        bad_price_parts read_records_file scenario_plain s car_records_arity car_1_parts
        bad_price_raises d)
qed

text \<open>
  C7. The sales that count for \<open>top_models_by_sales\<close> are the records of the sale
  file, in scan order, that are not blank, not tombstoned, have four fields and name a
  VIN that the car index resolves to a car record with a model id; each gives that
  model id and its cost. When the sale file and the model file exist and no record
  raises, every model id among them has the number of its sales and, as average, the
  sum of their costs divided by that number. The models are ranked, each once, by sale
  count descending and among equal counts by average descending. The result is made
  from the first three of the ranking, in that order: for each the name and brand of
  its model record with its sale count, a model that the model index or the model
  file does not give being left out; so it has at most three entries.
\<close>

theorem top_models_by_sales_ranking:
  assumes "sales_txt s \<noteq> None" and "models_txt s \<noteq> None"
    and "Decimal L ''0'' = Some zero"
    and "\<forall>n < get_file_line_count (sales_txt s). \<forall>e. sale_contribution L s n \<noteq> Inl e"
    and "live = counted_sales L s [0..<get_file_line_count (sales_txt s)]"
    and "triples
      = map (\<lambda>m. (m, length (model_sales live m),
                    Decimal_truediv L (foldl (Decimal_add L) zero (model_sales live m))
                      (length (model_sales live m))))
          (first_seen (map fst live))"
  shows "\<exists>ranked. set ranked = set triples \<and> length ranked = length triples \<and> distinct ranked
    \<and> sorted_wrt (\<lambda>x y. (fst (snd x), Decimal_value L (snd (snd x)))
                          \<ge> (fst (snd y), Decimal_value L (snd (snd y)))) ranked
    \<and> top_models_by_sales L s = Inr (List.map_filter (model_stats s) (take 3 ranked))
    \<and> length (List.map_filter (model_stats s) (take 3 ranked)) \<le> 3"
proof -
  let ?ids = "first_seen (map fst live)"
  let ?cnt = "map (\<lambda>k. (k, length (model_sales live k))) ?ids"
  let ?tot = "map (\<lambda>k. (k, foldl (Decimal_add L) zero (model_sales live k))) ?ids"
  let ?ranked = "sort_reverse L triples"
  have noraise: "\<forall>n \<in> set [0..<get_file_line_count (sales_txt s)].
      \<forall>e. sale_contribution L s n \<noteq> Inl e"
    using assms(4) by simp
  have scan: "stats_scan L (sales_txt s) (cars_txt s) (load_index (cars_index_txt s))
      [0..<get_file_line_count (sales_txt s)] ([], []) = Inr (?cnt, ?tot)"
    using stats_scan_counted [OF assms(3) noraise, of "[]"]
    by (simp add: assms(5) first_seen_def model_sales_def)
  have tr: "models_for_sorting L ?tot ?cnt = Inr triples"
    using triples_of_tables [OF refl refl, of ?ids live "Decimal_truediv L" "Decimal_add L" zero]
    by (simp add: models_for_sorting_table [OF assms(3)] assms(6))
  have run: "top_models_by_sales L s = Inr (List.map_filter (model_stats s) (take 3 ?ranked))"
    using assms(1)
    by (auto simp add: top_models_by_sales_def scan tr andthen_def
        resolve_models_stats [OF assms(2)] Let_def)
  have "distinct (map fst triples)"
    by (simp add: assms(6) comp_def)
  then have d: "distinct triples"
    by (simp add: distinct_map)
  have len: "length (List.map_filter (model_stats s) (take 3 ?ranked)) \<le> 3"
    using length_map_filter [of "model_stats s" "take 3 ?ranked"] by simp
  show ?thesis
    using sort_reverse_ranked(1,2) [of L triples] sort_reverse_ranked(3) [OF d, of L]
      sort_reverse_ranked(4) [of L triples] run len
    by (intro exI [of _ ?ranked] conjI)
qed

theorem top_models_by_sales_ranking_witness:
  "sales_txt store_ranked \<noteq> None \<and> models_txt store_ranked \<noteq> None
   \<and> Decimal sample_lib ''0'' = Some (0, 0)
   \<and> get_file_line_count (sales_txt store_ranked) = 4
   \<and> sale_contribution sample_lib store_ranked 0 = Inr (Some (1, (4100000, 2)))
   \<and> sale_contribution sample_lib store_ranked 1 = Inr None
   \<and> sale_contribution sample_lib store_ranked 2 = Inr (Some (2, (3000000, 2)))
   \<and> sale_contribution sample_lib store_ranked 3 = Inr (Some (2, (2000000, 2)))
   \<and> top_models_by_sales sample_lib store_ranked
       = Inr [\<lparr>stats_model_name = ''Model Y'', stats_brand = ''Tesla'', stats_sales_number = 2\<rparr>,
              \<lparr>stats_model_name = ''Model X'', stats_brand = ''Tesla'', stats_sales_number = 1\<rparr>]"
proof -
  let ?live = "[(1, (4100000, 2)), (2, (3000000, 2)), (2, (2000000, 2))] :: (int \<times> fixed) list"
  let ?t1 = "(1 :: int, 1 :: nat,
      Decimal_truediv sample_lib (foldl (Decimal_add sample_lib) (0, 0) [(4100000, 2)]) 1)"
  let ?t2 = "(2 :: int, 2 :: nat,
      Decimal_truediv sample_lib
        (foldl (Decimal_add sample_lib) (0, 0) [(3000000, 2), (2000000, 2)]) 2)"
  have h1: "sales_txt store_ranked \<noteq> None" and h2: "models_txt store_ranked \<noteq> None"
    by (simp_all add: store_ranked_def)
  have h3: "Decimal sample_lib ''0'' = Some (0, 0)"
    by (rule ranked_parts)
  have lc: "get_file_line_count (sales_txt store_ranked) = 4"
    by (simp add: store_ranked_def line_count_records_file scenario_fits ranked_fits)
  have four: "n = 0 \<or> n = 1 \<or> n = 2 \<or> n = 3" if "n < 4" for n :: nat
    using that by arith
  have h4: "\<forall>n < get_file_line_count (sales_txt store_ranked).
      \<forall>e. sale_contribution sample_lib store_ranked n \<noteq> Inl e"
    unfolding lc using four ranked_contributions by fastforce
  have upt4: "[0..<4] = [0, 1, 2, 3 :: nat]"
    by (simp add: upt_rec)
  have c1: "sale_contribution sample_lib store_ranked (Suc 0) = Inr None"
    using ranked_contributions(2) by simp
  have h5: "?live = counted_sales sample_lib store_ranked
      [0..<get_file_line_count (sales_txt store_ranked)]"
    unfolding lc upt4
    by (simp add: counted_sales_def List.map_filter_simps ranked_contributions c1)
  have h6: "[?t1, ?t2]
      = map (\<lambda>m. (m, length (model_sales ?live m),
                    Decimal_truediv sample_lib
                      (foldl (Decimal_add sample_lib) (0, 0) (model_sales ?live m))
                      (length (model_sales ?live m))))
          (first_seen (map fst ?live))"
    by (simp add: first_seen_def model_sales_def numeral_2_eq_2)
  obtain ranked where st: "set ranked = set [?t1, ?t2]"
    and len: "length ranked = length [?t1, ?t2]"
    and dist: "distinct ranked"
    and sorted: "sorted_wrt (\<lambda>x y. (fst (snd x), Decimal_value sample_lib (snd (snd x)))
                          \<ge> (fst (snd y), Decimal_value sample_lib (snd (snd y)))) ranked"
    and run: "top_models_by_sales sample_lib store_ranked
        = Inr (List.map_filter (model_stats store_ranked) (take 3 ranked))"
    using top_models_by_sales_ranking [OF h1 h2 h3 h4 h5 h6] by (elim exE conjE)
  have "ranked = [?t2, ?t1]"
    by (rule two_ranked [where key = "\<lambda>x. (fst (snd x), Decimal_value sample_lib (snd (snd x)))"])
      (use st len dist sorted in simp_all)
  then have "top_models_by_sales sample_lib store_ranked
       = Inr [\<lparr>stats_model_name = ''Model Y'', stats_brand = ''Tesla'', stats_sales_number = 2\<rparr>,
              \<lparr>stats_model_name = ''Model X'', stats_brand = ''Tesla'', stats_sales_number = 1\<rparr>]"
    using run by (simp add: List.map_filter_simps ranked_stats)
  then show ?thesis
    using h1 h2 h3 lc ranked_contributions by simp
qed

end
